(* ===== verification/Prelude.thy ===== *)
theory Prelude
  imports Complex_Main "HOL-Library.Multiset" "HOL-Library.List_Lexorder" "HOL-Library.Char_ord"
begin

text \<open>
  Shared vocabulary of the development: the types that stand for JavaScript values,
  the JavaScript array and string primitives the sources rely on (reading an array at a
  number key, \<open>Array.prototype.pop\<close>, the default \<open>Array.prototype.sort\<close> that compares
  the decimal strings of the elements), and the generic lemmas on lists and reals that
  the component theories share. The collection \<open>js_simps\<close> gathers the evaluation
  rules of these primitives; \<open>sample_defs\<close> gathers the unfoldings of the
  sample operations.
\<close>

named_theorems js_simps "evaluation rules of the modelled JavaScript primitives"
named_theorems sample_defs "unfoldings of the sample operations"

section \<open>Types\<close>

text \<open>
  A JavaScript \<open>number\<close> is read as the exact real it denotes (\<open>jsnum\<close>); rounding
  of IEEE doubles is not modelled. Sample values, timestamps in milliseconds
  (\<open>Date.getTime\<close>, \<open>Date.now\<close>) and counters that only ever hold integers are \<open>int\<close>
  or \<open>nat\<close>. A JavaScript value that is \<open>NaN\<close> (the result of arithmetic on
  \<open>undefined\<close>) is \<open>None\<close> in a \<open>jsnum option\<close>.
\<close>

type_synonym jsnum = real
type_synonym millis = int
type_synonym date_ref = nat

section \<open>Array reads at a number key\<close>

text \<open>
  \<open>a[k]\<close> in JavaScript yields the element when \<open>k\<close> is an integral index in range and
  \<open>undefined\<close> otherwise (a fractional or negative key names no element).
\<close>

definition js_index :: "'a list \<Rightarrow> real \<Rightarrow> 'a option" where
  "js_index xs k =
     (if k = of_int \<lfloor>k\<rfloor> \<and> 0 \<le> k \<and> k < real (length xs) then Some (xs ! nat \<lfloor>k\<rfloor>) else None)"

lemma js_index_nat [js_simps]:
  "js_index xs (real n) = (if n < length xs then Some (xs ! n) else None)"
  by (simp add: js_index_def)

lemma js_index_fractional [js_simps]:
  "k \<noteq> of_int \<lfloor>k\<rfloor> \<Longrightarrow> js_index xs k = None"
  by (simp add: js_index_def)

lemma js_index_Some:
  "js_index xs k = Some v \<Longrightarrow> v \<in> set xs"
proof -
  assume h: "js_index xs k = Some v"
  then have "0 \<le> k" "k < real (length xs)" "v = xs ! nat \<lfloor>k\<rfloor>"
    by (auto simp: js_index_def split: if_splits)
  moreover from this have "nat \<lfloor>k\<rfloor> < length xs"
    by linarith
  ultimately show ?thesis by simp
qed

lemma js_index_Some_integral:
  "js_index xs k = Some v \<Longrightarrow> k = of_int \<lfloor>k\<rfloor>"
  by (simp add: js_index_def split: if_splits)

section \<open>Array.prototype.pop\<close>

text \<open>\<open>pop\<close> removes the last element; on an empty array it changes nothing.\<close>

definition js_pop :: "'a list \<Rightarrow> 'a list" where
  "js_pop xs = butlast xs"

lemma js_pop_Nil [simp]: "js_pop [] = []"
  by (simp add: js_pop_def)

lemma length_js_pop [simp]: "length (js_pop xs) = length xs - 1"
  by (simp add: js_pop_def)

section \<open>Number to string, and the default sort\<close>

text \<open>
  \<open>Number.prototype.toString\<close> on an integer value below \<open>10^21\<close> is its decimal
  notation, with a leading minus sign for negative values.
\<close>

fun decimal_digits :: "nat \<Rightarrow> string" where
  "decimal_digits n =
     (if n < 10 then [''0123456789'' ! n]
      else decimal_digits (n div 10) @ [''0123456789'' ! (n mod 10)])"

definition js_int_to_string :: "int \<Rightarrow> string" where
  "js_int_to_string i =
     (if i < 0 then CHR ''-'' # decimal_digits (nat (- i)) else decimal_digits (nat i))"

text \<open>
  \<open>Array.prototype.sort()\<close> without a comparator orders the elements by the UTF-16
  code units of their strings; on the ASCII strings of numbers this is the
  lexicographic order of \<open>HOL-Library.List_Lexorder\<close> over \<open>Char_ord\<close>. The sort is
  stable (ECMAScript 2019), as \<open>sort_key\<close> is.
\<close>

definition js_sort :: "int list \<Rightarrow> int list" where
  "js_sort xs = sort_key js_int_to_string xs"

lemma mset_js_sort [simp]: "mset (js_sort xs) = mset xs"
  by (simp add: js_sort_def)

lemma length_js_sort [simp]: "length (js_sort xs) = length xs"
  by (simp add: js_sort_def)

lemma set_js_sort [simp]: "set (js_sort xs) = set xs"
  by (simp add: js_sort_def)

lemma js_sort_Nil [simp]: "js_sort xs = [] \<longleftrightarrow> xs = []"
  by (metis mset_js_sort mset_zero_iff)

lemma js_sort_idem [simp]: "js_sort (js_sort xs) = js_sort xs"
  by (simp add: js_sort_def sort_key_id_if_sorted)

section \<open>Shared list lemmas\<close>

lemma mset_list_update_subseteq:
  "i < length xs \<Longrightarrow> mset xs \<subseteq># M \<Longrightarrow> mset (xs[i := x]) \<subseteq># M + {#x#}"
proof -
  assume i: "i < length xs" and sub: "mset xs \<subseteq># M"
  have "mset (xs[i := x]) = add_mset x (mset xs - {#xs ! i#})"
    using i by (simp add: mset_update)
  also have "\<dots> \<subseteq># add_mset x (mset xs)"
    by simp
  also have "\<dots> \<subseteq># M + {#x#}"
    using sub by simp
  finally show ?thesis .
qed

lemma foldl_add_sum_list [simp]:
  "foldl (\<lambda>s v. s + f v) a xs = a + sum_list (map f xs)"
  by (induction xs arbitrary: a) (simp_all add: algebra_simps)

end
