(* ===== verification/Metric.thy ===== *)
theory Metric
  imports Prelude
begin

text \<open>
  The \<open>Metric\<close> interface and the abstract class \<open>BaseMetric\<close> of
  \<open>src/src/metric.ts\<close> (lines 1--151), and the JSON objects that every
  \<open>snapshot()\<close> returns. A JSON value is a \<open>jsval\<close>; an object is the list of its
  properties in insertion order (\<open>JErr\<close> is an \<open>Error\<close> object, by its message);
  reading a missing property yields \<open>undefined\<close>
  (\<open>None\<close>). The object spread \<open>{...a, ...b}\<close> is \<open>js_spread\<close>: the properties
  of \<open>b\<close> overwrite those of \<open>a\<close> in place and new ones are appended.

  \<open>BaseMetric\<close> is the record \<open>base_metric\<close> (\<open>id\<close>, \<open>name\<close>,
  \<open>description\<close>), which every instrument record extends. The static counter
  \<open>BaseMetric.COUNTER\<close> that numbers instances is a parameter of the constructors
  (the id it hands out). An optional string argument is a \<open>string option\<close>, with
  \<open>None\<close> for \<open>undefined\<close>.
\<close>

section \<open>JSON values and objects\<close>

datatype jsval = JNum real | JStr string | JBool bool | JNull | JNaN | JErr string | JObj "(string \<times> jsval) list"

type_synonym jsobj = "(string \<times> jsval) list"

fun obj_set :: "string \<Rightarrow> jsval \<Rightarrow> jsobj \<Rightarrow> jsobj" where
  "obj_set k v [] = [(k, v)]"
| "obj_set k v ((k', v') # ps) = (if k = k' then (k, v) # ps else (k', v') # obj_set k v ps)"

definition js_spread :: "jsobj \<Rightarrow> jsobj \<Rightarrow> jsobj" where
  "js_spread a b = foldl (\<lambda>acc (k, v). obj_set k v acc) a b"

definition obj_get :: "jsobj \<Rightarrow> string \<Rightarrow> jsval option" where
  "obj_get obj k = map_of obj k"

definition js_number :: "jsnum option \<Rightarrow> jsval" where
  "js_number x = (case x of Some r \<Rightarrow> JNum r | None \<Rightarrow> JNaN)"

lemma map_of_obj_set [simp]: "map_of (obj_set k v obj) = (map_of obj)(k \<mapsto> v)"
  by (induction obj) (auto simp: fun_eq_iff)

lemma map_of_spread:
  "distinct (map fst b) \<Longrightarrow> map_of (foldl (\<lambda>acc (k, v). obj_set k v acc) a b) = map_of a ++ map_of b"
proof (induction b arbitrary: a)
  case (Cons p b)
  obtain k v where p: "p = (k, v)" by (cases p)
  with Cons.prems have "k \<notin> dom (map_of b)" by (simp add: dom_map_of_conv_image_fst)
  with Cons p show ?case by (auto simp: map_add_def fun_eq_iff split: option.splits)
qed simp

lemma obj_get_spread [simp]:
  "distinct (map fst b) \<Longrightarrow>
   obj_get (js_spread a b) k = (case obj_get b k of Some v \<Rightarrow> Some v | None \<Rightarrow> obj_get a k)"
  by (simp add: js_spread_def obj_get_def map_of_spread map_add_def split: option.splits)

text \<open>Without distinct keys in \<open>b\<close>, its last occurrence of a key wins.\<close>

lemma obj_get_js_spread:
  "obj_get (js_spread a b) k = (case map_of (rev b) k of Some v \<Rightarrow> Some v | None \<Rightarrow> obj_get a k)"
proof (induction b rule: rev_induct)
  case (snoc p b)
  obtain k' v where "p = (k', v)" by (cases p)
  with snoc show ?case by (simp add: js_spread_def obj_get_def)
qed (simp add: js_spread_def obj_get_def)

lemma obj_get_Cons [simp]:
  "obj_get ((k', v) # obj) k = (if k = k' then Some v else obj_get obj k)"
  by (simp add: obj_get_def)

lemma obj_get_Nil [simp]: "obj_get [] k = None"
  by (simp add: obj_get_def)

lemma fst_set_obj_set [simp]: "fst ` set (obj_set k v a) = insert k (fst ` set a)"
  by (induction a) force+

lemma distinct_obj_set:
  "distinct (map fst a) \<Longrightarrow> distinct (map fst (obj_set k v a))"
  by (induction a) auto

lemma distinct_js_spread:
  "distinct (map fst a) \<Longrightarrow> distinct (map fst (js_spread a b))"
  unfolding js_spread_def
  by (induction b arbitrary: a) (auto simp: distinct_obj_set)

section \<open>BaseMetric\<close>

record base_metric =
  metric_id :: nat
  metric_name :: string
  metric_description :: string

definition new_BaseMetric :: "nat \<Rightarrow> base_metric" where
  "new_BaseMetric mid = \<lparr>metric_id = mid, metric_name = '''', metric_description = ''''\<rparr>"

definition getName :: "'a base_metric_scheme \<Rightarrow> string" where
  "getName m = metric_name m"

definition setName :: "string option \<Rightarrow> 'a base_metric_scheme \<Rightarrow> 'a base_metric_scheme" where
  "setName name m = (case name of None \<Rightarrow> m\<lparr>metric_name := ''''\<rparr> | Some n \<Rightarrow> m\<lparr>metric_name := n\<rparr>)"

definition getDescription :: "'a base_metric_scheme \<Rightarrow> string" where
  "getDescription m = metric_description m"

definition setDescription :: "string option \<Rightarrow> 'a base_metric_scheme \<Rightarrow> 'a base_metric_scheme" where
  "setDescription desc m =
     (case desc of None \<Rightarrow> m\<lparr>metric_description := ''''\<rparr> | Some d \<Rightarrow> m\<lparr>metric_description := d\<rparr>)"

definition base_snapshot :: "'a base_metric_scheme \<Rightarrow> jsobj" where
  "base_snapshot m =
     [(''id'', JNum (real (metric_id m))), (''name'', JStr (getName m)),
      (''description'', JStr (getDescription m))]"

text \<open>The constructor prologue every instrument runs: \<open>super(); super.setName(name); super.setDescription(desc)\<close>.\<close>

definition named_base :: "nat \<Rightarrow> string option \<Rightarrow> string option \<Rightarrow> base_metric" where
  "named_base mid name desc = setDescription desc (setName name (new_BaseMetric mid))"

lemma named_base_fields [simp]:
  "metric_id (named_base mid name desc) = mid"
  "metric_name (named_base mid name desc) = (case name of None \<Rightarrow> '''' | Some n \<Rightarrow> n)"
  "metric_description (named_base mid name desc) = (case desc of None \<Rightarrow> '''' | Some d \<Rightarrow> d)"
  by (simp_all add: named_base_def setName_def setDescription_def new_BaseMetric_def split: option.splits)

lemma base_snapshot_fields [simp]:
  "obj_get (base_snapshot m) ''id'' = Some (JNum (real (metric_id m)))"
  "obj_get (base_snapshot m) ''name'' = Some (JStr (metric_name m))"
  "obj_get (base_snapshot m) ''description'' = Some (JStr (metric_description m))"
  "k \<notin> {''id'', ''name'', ''description''} \<Longrightarrow> obj_get (base_snapshot m) k = None"
  by (simp_all add: base_snapshot_def getName_def getDescription_def)

lemma distinct_base_snapshot [simp]: "distinct (map fst (base_snapshot m))"
  by (simp add: base_snapshot_def)

lemma fst_set_js_spread [simp]: "fst ` set (js_spread a b) = fst ` set a \<union> fst ` set b"
  unfolding js_spread_def
  by (induction b arbitrary: a) (simp_all add: split_def Un_insert_left Un_insert_right)

lemma obj_get_None_iff: "obj_get obj k = None \<longleftrightarrow> k \<notin> fst ` set obj"
  by (simp add: obj_get_def map_of_eq_None_iff)

end
