(* ===== verification/Counter.thy ===== *)
theory Counter
  imports Metric
begin

text \<open>
  The counter of \<open>src/unnamed/part_002\<close> (lines 1--197): the \<open>Counter\<close> interface
  as the datatype \<open>counter\<close> over \<open>NullCounter\<close> and \<open>StandardCounter\<close> (a
  \<open>base_metric\<close> extended with \<open>#count\<close>). An omitted argument of \<open>inc\<close> or
  \<open>dec\<close> is \<open>None\<close> and takes the default 1. The lemmas show that a counter's
  value is the sum of the increments since its last \<open>clear()\<close>.
\<close>

definition js_default :: "'a \<Rightarrow> 'a option \<Rightarrow> 'a" where
  "js_default d x = (case x of None \<Rightarrow> d | Some v \<Rightarrow> v)"

lemma js_default_Some [simp]: "js_default d (Some v) = v"
  by (simp add: js_default_def)

record standard_counter = base_metric +
  counter_count :: jsnum

datatype counter = StandardCounter standard_counter | NullCounter base_metric

definition new_StandardCounter :: "nat \<Rightarrow> string option \<Rightarrow> string option \<Rightarrow> standard_counter" where
  "new_StandardCounter mid name desc =
     (let b = named_base mid name desc
      in \<lparr>metric_id = metric_id b, metric_name = metric_name b,
          metric_description = metric_description b, counter_count = 0\<rparr>)"

definition new_NullCounter :: "nat \<Rightarrow> string option \<Rightarrow> string option \<Rightarrow> counter" where
  "new_NullCounter mid name desc = NullCounter (named_base mid name desc)"

fun Counter_clear :: "counter \<Rightarrow> counter" where
  "Counter_clear (StandardCounter c) = StandardCounter (c\<lparr>counter_count := 0\<rparr>)"
| "Counter_clear (NullCounter b) = NullCounter b"

fun Counter_count :: "counter \<Rightarrow> jsnum" where
  "Counter_count (StandardCounter c) = counter_count c"
| "Counter_count (NullCounter b) = 0"

fun Counter_inc :: "jsnum option \<Rightarrow> counter \<Rightarrow> counter" where
  "Counter_inc i (StandardCounter c) = StandardCounter (c\<lparr>counter_count := counter_count c + js_default 1 i\<rparr>)"
| "Counter_inc i (NullCounter b) = NullCounter b"

text \<open>\<open>dec(i = 1)\<close> calls \<open>this.inc(-i)\<close>.\<close>

fun Counter_dec :: "jsnum option \<Rightarrow> counter \<Rightarrow> counter" where
  "Counter_dec i (StandardCounter c) = Counter_inc (Some (- js_default 1 i)) (StandardCounter c)"
| "Counter_dec i (NullCounter b) = NullCounter b"

definition NullCounter_snapshot :: "base_metric \<Rightarrow> jsobj" where
  "NullCounter_snapshot b = js_spread (base_snapshot b) [(''count'', JNum 0)]"

fun Counter_snapshot :: "counter \<Rightarrow> jsobj" where
  "Counter_snapshot (StandardCounter c) = js_spread (base_snapshot c) [(''count'', JNum (counter_count c))]"
| "Counter_snapshot (NullCounter b) = NullCounter_snapshot b"

section \<open>Runs of counter operations\<close>

datatype counter_op = CInc "jsnum option" | CDec "jsnum option" | CClear

fun counter_step :: "counter_op \<Rightarrow> counter \<Rightarrow> counter" where
  "counter_step (CInc i) c = Counter_inc i c"
| "counter_step (CDec i) c = Counter_dec i c"
| "counter_step CClear c = Counter_clear c"

definition counter_run :: "counter_op list \<Rightarrow> counter \<Rightarrow> counter" where
  "counter_run ops c = foldl (\<lambda>c op. counter_step op c) c ops"

text \<open>The change an operation asks for, and the operations after the last \<open>clear()\<close>.\<close>

fun counter_delta :: "counter_op \<Rightarrow> jsnum" where
  "counter_delta (CInc i) = js_default 1 i"
| "counter_delta (CDec i) = - js_default 1 i"
| "counter_delta CClear = 0"

fun is_clear :: "counter_op \<Rightarrow> bool" where
  "is_clear CClear = True"
| "is_clear _ = False"

definition since_clear :: "counter_op list \<Rightarrow> counter_op list" where
  "since_clear ops = rev (takeWhile (\<lambda>op. \<not> is_clear op) (rev ops))"

lemma counter_run_append [simp]: "counter_run (ops @ [op]) c = counter_step op (counter_run ops c)"
  by (simp add: counter_run_def)

lemma counter_run_Nil [simp]: "counter_run [] c = c"
  by (simp add: counter_run_def)

lemma since_clear_snoc [simp]:
  "since_clear (ops @ [op]) = (if is_clear op then [] else since_clear ops @ [op])"
  by (simp add: since_clear_def)

lemma counter_step_standard:
  "\<exists>c'. counter_step op (StandardCounter c) = StandardCounter c' \<and>
     counter_count c' = (if is_clear op then 0 else counter_count c + counter_delta op)"
  by (cases op) simp_all

lemma counter_run_standard:
  "\<exists>c'. counter_run ops (StandardCounter c) = StandardCounter c' \<and> metric_name c' = metric_name c \<and>
      counter_count c' = (if since_clear ops = ops then counter_count c else 0) + sum_list (map counter_delta (since_clear ops))"
proof (induction ops rule: rev_induct)
  case Nil
  then show ?case by (simp add: since_clear_def)
next
  case (snoc op ops)
  then obtain c' where "counter_run ops (StandardCounter c) = StandardCounter c'" "metric_name c' = metric_name c"
    "counter_count c' = (if since_clear ops = ops then counter_count c else 0) + sum_list (map counter_delta (since_clear ops))"
    by blast
  then show ?case by (cases op) auto
qed

section \<open>Properties\<close>

text \<open>
  C30. The value of a \<open>StandardCounter\<close> after any sequence of \<open>inc\<close>, \<open>dec\<close> and
  \<open>clear\<close> calls is the sum of the increments (1 for an omitted argument, negated for
  \<open>dec\<close>) made since the last \<open>clear\<close>, and its snapshot reports that value.
\<close>

theorem counter_run_count:
  "Counter_count (counter_run ops (StandardCounter (new_StandardCounter mid name desc))) =
     sum_list (map counter_delta (since_clear ops)) \<and>
   obj_get (Counter_snapshot (counter_run ops (StandardCounter (new_StandardCounter mid name desc)))) ''count'' =
     Some (JNum (sum_list (map counter_delta (since_clear ops))))"
  using counter_run_standard [of ops "new_StandardCounter mid name desc"]
  by (auto simp: new_StandardCounter_def)

end
