(* ===== verification/Gauge.thy ===== *)
theory Gauge
  imports Metric
begin

text \<open>
  The gauges of \<open>src/src/gauge.ts\<close>: the \<open>Gauge\<close> interface as the datatype
  \<open>gauge\<close> over \<open>NullGauge\<close>, \<open>StandardGauge\<close> (a \<open>base_metric\<close> extended with
  \<open>#value\<close>) and \<open>FunctionalGauge\<close>, which extends \<open>StandardGauge\<close> (it keeps
  the inherited \<open>#value\<close>) and adds \<open>#fn\<close>. The user function \<open>#fn\<close> is external
  code: what it returns when \<open>value()\<close> calls it is the parameter \<open>fn_out\<close>.
  The lemmas show that a standard gauge reports its last update and a functional
  gauge ignores updates.
\<close>

record standard_gauge = base_metric +
  gauge_value :: jsnum

datatype gauge = StandardGauge standard_gauge | FunctionalGauge standard_gauge | NullGauge base_metric

definition new_StandardGauge :: "nat \<Rightarrow> string option \<Rightarrow> string option \<Rightarrow> standard_gauge" where
  "new_StandardGauge mid name desc =
     (let b = named_base mid name desc
      in \<lparr>metric_id = metric_id b, metric_name = metric_name b,
          metric_description = metric_description b, gauge_value = 0\<rparr>)"

text \<open>\<open>super(name, desc)\<close> runs the \<open>StandardGauge\<close> constructor, then \<open>#fn\<close> is set.\<close>

definition new_FunctionalGauge :: "nat \<Rightarrow> string option \<Rightarrow> string option \<Rightarrow> gauge" where
  "new_FunctionalGauge mid name desc = FunctionalGauge (new_StandardGauge mid name desc)"

definition new_NullGauge :: "nat \<Rightarrow> string option \<Rightarrow> string option \<Rightarrow> gauge" where
  "new_NullGauge mid name desc = NullGauge (named_base mid name desc)"

fun Gauge_update :: "jsnum \<Rightarrow> gauge \<Rightarrow> gauge" where
  "Gauge_update i (StandardGauge g) = StandardGauge (g\<lparr>gauge_value := i\<rparr>)"
| "Gauge_update i (FunctionalGauge g) = FunctionalGauge g"
| "Gauge_update i (NullGauge b) = NullGauge b"

fun Gauge_value :: "jsnum \<Rightarrow> gauge \<Rightarrow> jsnum" where
  "Gauge_value fn_out (StandardGauge g) = gauge_value g"
| "Gauge_value fn_out (FunctionalGauge g) = fn_out"
| "Gauge_value fn_out (NullGauge b) = 0"

text \<open>\<open>snapshot()\<close> is inherited by \<open>FunctionalGauge\<close> and calls the overriding \<open>value()\<close>.\<close>

definition NullGauge_snapshot :: "base_metric \<Rightarrow> jsobj" where
  "NullGauge_snapshot b = js_spread (base_snapshot b) [(''gauge'', JNum 0)]"

fun Gauge_snapshot :: "jsnum \<Rightarrow> gauge \<Rightarrow> jsobj" where
  "Gauge_snapshot fn_out (StandardGauge g) = js_spread (base_snapshot g) [(''gauge'', JNum (gauge_value g))]"
| "Gauge_snapshot fn_out (FunctionalGauge g) = js_spread (base_snapshot g) [(''gauge'', JNum fn_out)]"
| "Gauge_snapshot fn_out (NullGauge b) = NullGauge_snapshot b"

definition gauge_updates :: "jsnum list \<Rightarrow> gauge \<Rightarrow> gauge" where
  "gauge_updates xs g = foldl (\<lambda>g i. Gauge_update i g) g xs"

lemma gauge_updates_snoc [simp]: "gauge_updates (xs @ [x]) g = Gauge_update x (gauge_updates xs g)"
  by (simp add: gauge_updates_def)

lemma gauge_updates_Nil [simp]: "gauge_updates [] g = g"
  by (simp add: gauge_updates_def)

lemma gauge_updates_functional [simp]: "gauge_updates xs (FunctionalGauge g) = FunctionalGauge g"
  by (induction xs rule: rev_induct) simp_all

lemma gauge_updates_standard:
  "gauge_updates xs (StandardGauge g) =
     StandardGauge (if xs = [] then g else g\<lparr>gauge_value := last xs\<rparr>)"
  by (induction xs rule: rev_induct) simp_all

section \<open>Properties\<close>

text \<open>
  C31. After updates \<open>xs\<close>, a new \<open>StandardGauge\<close> reads the last update (0 when
  there was none) in \<open>value()\<close> and in its snapshot, while a \<open>FunctionalGauge\<close> reads
  whatever its function returns: its \<open>update\<close> is a no-op and its inherited
  \<open>#value\<close> stays 0. The snapshot holds the value under the key \<open>gauge\<close> and
  has no key \<open>count\<close>. The README's example output shows it under \<open>count\<close>.
\<close>

theorem gauge_value_updates:
  "Gauge_value fn_out (gauge_updates xs (StandardGauge (new_StandardGauge mid name desc))) =
     (if xs = [] then 0 else last xs) \<and>
   obj_get (Gauge_snapshot fn_out (gauge_updates xs (StandardGauge (new_StandardGauge mid name desc)))) ''gauge'' =
     Some (JNum (if xs = [] then 0 else last xs)) \<and>
   obj_get (Gauge_snapshot fn_out (gauge_updates xs (StandardGauge (new_StandardGauge mid name desc)))) ''count'' = None \<and>
   Gauge_value fn_out (gauge_updates xs (new_FunctionalGauge mid name desc)) = fn_out \<and>
   gauge_updates xs (new_FunctionalGauge mid name desc) =
     FunctionalGauge (new_StandardGauge mid name desc) \<and>
   gauge_value (new_StandardGauge mid name desc) = 0"
  by (simp add: gauge_updates_standard new_FunctionalGauge_def new_StandardGauge_def)

end
