(* ===== verification/Healthcheck.thy ===== *)
theory Healthcheck
  imports Metric
begin

text \<open>
  The healthchecks of \<open>src/unnamed/part_002\<close> (lines 397--605): the
  \<open>Healthcheck\<close> interface as the datatype \<open>healthcheck\<close> over
  \<open>NullHealthcheck\<close> and \<open>StandardHealthcheck\<close> (a \<open>base_metric\<close> extended
  with \<open>#err\<close> and \<open>#fn\<close>). An \<open>Error\<close> is its message. The user function
  \<open>#fn\<close>, called as \<open>fn(this)\<close> by \<open>check()\<close>, is modelled by its effect: the
  sequence of \<open>healthy()\<close> and \<open>unhealthy(err)\<close> calls it makes on the
  healthcheck, and the error it throws at the end, if any. The lemmas show that
  \<open>check()\<close> leaves the verdict of the last call, that the calls made before a
  throw stay in effect, and what the snapshot reports.
\<close>

datatype hc_call = HcHealthy | HcUnhealthy string

type_synonym hc_fn = "hc_call list \<times> string option"

record standard_healthcheck = base_metric +
  hc_err :: "string option"
  hc_fn :: hc_fn

datatype healthcheck = StandardHealthcheck standard_healthcheck | NullHealthcheck base_metric

definition new_StandardHealthcheck ::
  "hc_fn \<Rightarrow> nat \<Rightarrow> string option \<Rightarrow> string option \<Rightarrow> standard_healthcheck" where
  "new_StandardHealthcheck fn mid name desc =
     (let b = named_base mid name desc
      in \<lparr>metric_id = metric_id b, metric_name = metric_name b,
          metric_description = metric_description b, hc_err = None, hc_fn = fn\<rparr>)"

definition new_NullHealthcheck :: "hc_fn \<Rightarrow> nat \<Rightarrow> string option \<Rightarrow> string option \<Rightarrow> healthcheck" where
  "new_NullHealthcheck fn mid name desc = NullHealthcheck (named_base mid name desc)"

fun Healthcheck_error :: "healthcheck \<Rightarrow> string option" where
  "Healthcheck_error (StandardHealthcheck h) = hc_err h"
| "Healthcheck_error (NullHealthcheck b) = None"

fun Healthcheck_healthy :: "healthcheck \<Rightarrow> healthcheck" where
  "Healthcheck_healthy (StandardHealthcheck h) = StandardHealthcheck (h\<lparr>hc_err := None\<rparr>)"
| "Healthcheck_healthy (NullHealthcheck b) = NullHealthcheck b"

fun Healthcheck_unhealthy :: "string \<Rightarrow> healthcheck \<Rightarrow> healthcheck" where
  "Healthcheck_unhealthy err (StandardHealthcheck h) = StandardHealthcheck (h\<lparr>hc_err := Some err\<rparr>)"
| "Healthcheck_unhealthy err (NullHealthcheck b) = NullHealthcheck b"

fun hc_apply :: "hc_call \<Rightarrow> healthcheck \<Rightarrow> healthcheck" where
  "hc_apply HcHealthy h = Healthcheck_healthy h"
| "hc_apply (HcUnhealthy err) h = Healthcheck_unhealthy err h"

text \<open>
  \<open>check()\<close> runs \<open>this.#fn(this)\<close>: the calls of \<open>fn\<close> change the healthcheck in
  order, and an error \<open>fn\<close> throws propagates (\<open>Inl\<close>) after they took effect.
\<close>

fun Healthcheck_check :: "healthcheck \<Rightarrow> (string + unit) \<times> healthcheck" where
  "Healthcheck_check (StandardHealthcheck h) =
     (let (calls, thrown) = hc_fn h;
          h' = foldl (\<lambda>h c. hc_apply c h) (StandardHealthcheck h) calls
      in (case thrown of Some e \<Rightarrow> Inl e | None \<Rightarrow> Inr (), h'))"
| "Healthcheck_check (NullHealthcheck b) = (Inr (), NullHealthcheck b)"

definition NullHealthcheck_snapshot :: "base_metric \<Rightarrow> jsobj" where
  "NullHealthcheck_snapshot b = js_spread (base_snapshot b) [(''healthy'', JBool True), (''error'', JNull)]"

fun Healthcheck_snapshot :: "healthcheck \<Rightarrow> jsobj" where
  "Healthcheck_snapshot (StandardHealthcheck h) =
     js_spread (base_snapshot h)
       [(''healthy'', JBool (hc_err h = None)),
        (''error'', (case hc_err h of None \<Rightarrow> JNull | Some e \<Rightarrow> JErr e))]"
| "Healthcheck_snapshot (NullHealthcheck b) = NullHealthcheck_snapshot b"

lemma new_StandardHealthcheck_fields [simp]:
  "hc_fn (new_StandardHealthcheck f mid name desc) = f"
  "hc_err (new_StandardHealthcheck f mid name desc) = None"
  by (simp_all add: new_StandardHealthcheck_def Let_def)

text \<open>The verdict a call leaves.\<close>

fun verdict :: "hc_call \<Rightarrow> string option" where
  "verdict HcHealthy = None"
| "verdict (HcUnhealthy err) = Some err"

lemma hc_calls_standard:
  "foldl (\<lambda>h c. hc_apply c h) (StandardHealthcheck h) calls =
     StandardHealthcheck (h\<lparr>hc_err := (if calls = [] then hc_err h else verdict (last calls))\<rparr>)"
proof (induction calls rule: rev_induct)
  case (snoc c calls)
  then show ?case by (cases c) simp_all
qed simp

section \<open>Properties\<close>

text \<open>
  C29. \<open>check()\<close> on a \<open>StandardHealthcheck\<close> leaves as its error the verdict of the
  last \<open>healthy()\<close> or \<open>unhealthy(err)\<close> call \<open>fn\<close> made (the old error when it
  made none), also when \<open>fn\<close> then throws: the exception propagates and the calls made
  before it stay in effect. The snapshot says \<open>healthy: true\<close> exactly when that
  error is \<open>null\<close>.
\<close>

theorem Healthcheck_check_verdict:
  assumes "hc_fn h = (calls, thrown)"
  shows "fst (Healthcheck_check (StandardHealthcheck h)) = (case thrown of Some e \<Rightarrow> Inl e | None \<Rightarrow> Inr ()) \<and>
         Healthcheck_error (snd (Healthcheck_check (StandardHealthcheck h))) =
           (if calls = [] then hc_err h else verdict (last calls)) \<and>
         obj_get (Healthcheck_snapshot (snd (Healthcheck_check (StandardHealthcheck h)))) ''healthy'' =
           Some (JBool ((if calls = [] then hc_err h else verdict (last calls)) = None))"
  using assms by (simp add: hc_calls_standard)

theorem Healthcheck_check_verdict_witness:
  "fst (Healthcheck_check (StandardHealthcheck
      (new_StandardHealthcheck ([HcUnhealthy ''db down''], Some ''timeout'') 3 (Some ''db'') None))) = Inl ''timeout'' \<and>
   Healthcheck_error (snd (Healthcheck_check (StandardHealthcheck
      (new_StandardHealthcheck ([HcUnhealthy ''db down''], Some ''timeout'') 3 (Some ''db'') None)))) =
     (if [HcUnhealthy ''db down''] = [] then None else verdict (last [HcUnhealthy ''db down''])) \<and>
   obj_get (Healthcheck_snapshot (snd (Healthcheck_check (StandardHealthcheck
      (new_StandardHealthcheck ([HcUnhealthy ''db down''], Some ''timeout'') 3 (Some ''db'') None))))) ''healthy'' =
     Some (JBool ((if [HcUnhealthy ''db down''] = [] then None else verdict (last [HcUnhealthy ''db down''])) = None))"
  using Healthcheck_check_verdict [of "new_StandardHealthcheck ([HcUnhealthy ''db down''], Some ''timeout'') 3 (Some ''db'') None"
      "[HcUnhealthy ''db down'']" "Some ''timeout''"]
  by (simp add: new_StandardHealthcheck_def)

text \<open>
  A \<open>NullHealthcheck\<close> never runs its function: \<open>check()\<close> returns normally and
  changes nothing, and the snapshot always says \<open>healthy: true, error: null\<close>,
  whatever \<open>fn\<close> would do.
\<close>

theorem NullHealthcheck_always_healthy:
  "Healthcheck_check (new_NullHealthcheck fn mid name desc) = (Inr (), new_NullHealthcheck fn mid name desc) \<and>
   obj_get (Healthcheck_snapshot (new_NullHealthcheck fn mid name desc)) ''healthy'' = Some (JBool True) \<and>
   obj_get (Healthcheck_snapshot (new_NullHealthcheck fn mid name desc)) ''error'' = Some JNull"
  by (simp add: new_NullHealthcheck_def NullHealthcheck_snapshot_def)

end
