(* ===== verification/Stats.thy ===== *)
theory Stats
  imports Prelude
begin

text \<open>
  The statistics helpers of \<open>src/src/sample.ts\<close> (lines 399--486): \<open>sampleMax\<close>,
  \<open>sampleMean\<close>, \<open>sampleMin\<close>, \<open>samplePercentile\<close>, \<open>samplePercentiles\<close>,
  \<open>sampleStdDev\<close>, \<open>sampleSum\<close> and \<open>sampleVariance\<close>, each over the array of
  retained sample values. The loops are \<open>foldl\<close>s with the source's start values
  (\<open>Number.MIN_SAFE_INTEGER\<close>, \<open>Number.MAX_SAFE_INTEGER\<close>, \<open>0\<close>).
  \<open>samplePercentiles\<close> sorts the array it is given in place, so it returns the array
  after the call beside the scores; a score is \<open>None\<close> where the code computes
  \<open>NaN\<close>.

  The lemmas give each helper's closed form (\<open>Max\<close>, \<open>Min\<close>, \<open>sum_list\<close>, the
  textbook variance), the empty-sample zero values, the agreement of
  \<open>samplePercentiles\<close> with \<open>samplePercentile\<close>, and what a percentile really is:
  an element of the lexicographically sorted array when \<open>p * (n + 1)\<close> is integral,
  \<open>NaN\<close> when it is fractional and strictly inside the array.
\<close>

definition MIN_SAFE_INTEGER :: int where
  "MIN_SAFE_INTEGER = - (2 ^ 53 - 1)"

definition MAX_SAFE_INTEGER :: int where
  "MAX_SAFE_INTEGER = 2 ^ 53 - 1"

definition sampleMax :: "int list \<Rightarrow> int" where
  "sampleMax vals =
     (if vals = [] then 0
      else foldl (\<lambda>max v. if max < v then v else max) MIN_SAFE_INTEGER vals)"

definition sampleSum :: "int list \<Rightarrow> int" where
  "sampleSum vals = foldl (\<lambda>sum v. sum + v) 0 vals"

definition sampleMean :: "int list \<Rightarrow> jsnum" where
  "sampleMean vals =
     (if vals = [] then 0 else real_of_int (sampleSum vals) / real (length vals))"

definition sampleMin :: "int list \<Rightarrow> int" where
  "sampleMin vals =
     (if vals = [] then 0
      else foldl (\<lambda>min v. if min > v then v else min) MAX_SAFE_INTEGER vals)"

text \<open>
  One score of the loop of \<open>samplePercentiles\<close> (lines 448--457), over the sorted
  array. \<open>vals[pos-1]\<close> and \<open>vals[pos]\<close> are reads at a number key, so a fractional
  \<open>pos\<close> reads \<open>undefined\<close> and the arithmetic yields \<open>NaN\<close>.
\<close>

definition percentile_score :: "int list \<Rightarrow> jsnum \<Rightarrow> jsnum option" where
  "percentile_score vals p =
     (let len = length vals; pos = p * real (len + 1) in
      if pos < 1 then Some (real_of_int (vals ! 0))
      else if pos \<ge> real len then Some (real_of_int (vals ! (len - 1)))
      else (case (js_index vals (pos - 1), js_index vals pos) of
              (Some lower, Some upper) \<Rightarrow>
                Some (real_of_int lower + (pos - of_int \<lfloor>pos\<rfloor>) * real_of_int (upper - lower))
            | _ \<Rightarrow> None))"

definition samplePercentiles :: "int list \<Rightarrow> jsnum list \<Rightarrow> jsnum option list \<times> int list" where
  "samplePercentiles vals ps =
     (if vals = [] then (map (\<lambda>_. Some 0) ps, vals)
      else let sorted = js_sort vals in (map (percentile_score sorted) ps, sorted))"

definition samplePercentile :: "int list \<Rightarrow> jsnum \<Rightarrow> jsnum option \<times> int list" where
  "samplePercentile vals p = (let (scores, vals') = samplePercentiles vals [p] in (scores ! 0, vals'))"

definition sampleVariance :: "int list \<Rightarrow> jsnum" where
  "sampleVariance vals =
     (if vals = [] then 0
      else let m = sampleMean vals
           in foldl (\<lambda>sum v. sum + (real_of_int v - m) * (real_of_int v - m)) 0 vals
              / real (length vals))"

definition sampleStdDev :: "int list \<Rightarrow> jsnum" where
  "sampleStdDev vals = sqrt (sampleVariance vals)"

lemmas stats_defs [sample_defs] = sampleMax_def sampleSum_def sampleMean_def sampleMin_def
  samplePercentiles_def samplePercentile_def sampleVariance_def sampleStdDev_def

section \<open>Closed forms of the loops\<close>

lemma foldl_max_Max:
  "foldl (\<lambda>max v. if max < v then v else max) a xs = Max (insert a (set xs))"
proof (induction xs arbitrary: a)
  case Nil
  then show ?case by simp
next
  case (Cons x xs)
  have "Max (insert (if a < x then x else a) (set xs)) = Max (insert a (insert x (set xs)))"
    by (cases "xs = []") (auto simp: max_def Max_insert)
  with Cons show ?case by simp
qed

lemma foldl_min_Min:
  "foldl (\<lambda>min v. if min > v then v else min) a xs = Min (insert a (set xs))"
proof (induction xs arbitrary: a)
  case Nil
  then show ?case by simp
next
  case (Cons x xs)
  have "Min (insert (if a > x then x else a) (set xs)) = Min (insert a (insert x (set xs)))"
    by (cases "xs = []") (auto simp: min_def Min_insert)
  with Cons show ?case by simp
qed

lemma sampleSum_sum_list [simp]: "sampleSum vals = sum_list vals"
  using foldl_add_sum_list [of "\<lambda>v. v" 0 vals] by (simp add: sampleSum_def)

lemma sampleMax_Max: "vals \<noteq> [] \<Longrightarrow> sampleMax vals = max MIN_SAFE_INTEGER (Max (set vals))"
  by (simp add: sampleMax_def foldl_max_Max)

lemma sampleMin_Min: "vals \<noteq> [] \<Longrightarrow> sampleMin vals = min MAX_SAFE_INTEGER (Min (set vals))"
  by (simp add: sampleMin_def foldl_min_Min)

lemma real_sum_list: "real_of_int (sum_list vals) = (\<Sum>v\<leftarrow>vals. real_of_int v)"
  by (induction vals) simp_all

lemma sum_list_square_dev:
  "(\<Sum>v\<leftarrow>xs. (f v - m) * (f v - m)) =
     (\<Sum>v\<leftarrow>xs. f v * f v) - 2 * m * (\<Sum>v\<leftarrow>xs. f v) + real (length xs) * m * m"
  for f :: "'a \<Rightarrow> real"
  by (induction xs) (simp_all add: algebra_simps)

lemma sampleVariance_sum: "sampleVariance vals =
  (if vals = [] then 0
   else (\<Sum>v\<leftarrow>vals. (real_of_int v - sampleMean vals) * (real_of_int v - sampleMean vals))
        / real (length vals))"
  by (simp add: sampleVariance_def Let_def)

section \<open>Percentiles\<close>

lemma percentile_score_integral:
  assumes "p * real (length vals + 1) = real k" and "1 \<le> k" and "k < length vals"
  shows "percentile_score vals p = Some (real_of_int (vals ! (k - 1)))"
proof -
  have lo: "js_index vals (real k - 1) = Some (vals ! (k - 1))"
    using assms(2,3) js_index_nat [of vals "k - 1"] by (simp add: of_nat_diff)
  have hi: "js_index vals (real k) = Some (vals ! k)"
    using assms(3) by (simp add: js_index_nat)
  show ?thesis
    using assms lo hi by (simp add: percentile_score_def Let_def)
qed

lemma percentile_score_fractional:
  assumes "1 < p * real (length vals + 1)" and "p * real (length vals + 1) < real (length vals)"
    and "p * real (length vals + 1) \<noteq> of_int \<lfloor>p * real (length vals + 1)\<rfloor>"
  shows "percentile_score vals p = None"
proof -
  let ?pos = "p * real (length vals + 1)"
  have "?pos - 1 \<noteq> of_int \<lfloor>?pos - 1\<rfloor>"
    using assms(3) by simp
  then have "js_index vals (?pos - 1) = None"
    by (rule js_index_fractional)
  then show ?thesis
    using assms(1,2) by (simp add: percentile_score_def Let_def)
qed

lemma percentile_score_element:
  assumes "vals \<noteq> []" and "percentile_score vals p = Some x"
  shows "x \<in> real_of_int ` set vals"
proof -
  let ?pos = "p * real (length vals + 1)"
  consider (low) "?pos < 1" | (high) "\<not> ?pos < 1" "?pos \<ge> real (length vals)"
    | (mid) "\<not> ?pos < 1" "\<not> ?pos \<ge> real (length vals)" by blast
  then show ?thesis
  proof cases
    case low
    with assms show ?thesis by (auto simp: percentile_score_def Let_def)
  next
    case high
    with assms show ?thesis by (auto simp: percentile_score_def Let_def)
  next
    case mid
    with assms(2) obtain lower upper where
      l: "js_index vals (?pos - 1) = Some lower" and u: "js_index vals ?pos = Some upper" and
      x: "x = real_of_int lower + (?pos - of_int \<lfloor>?pos\<rfloor>) * real_of_int (upper - lower)"
      by (auto simp: percentile_score_def Let_def split: option.splits)
    from u have "?pos = of_int \<lfloor>?pos\<rfloor>" by (rule js_index_Some_integral)
    with x have "x = real_of_int lower" by simp
    moreover from l have "lower \<in> set vals" by (rule js_index_Some)
    ultimately show ?thesis by simp
  qed
qed

lemma samplePercentiles_state:
  "snd (samplePercentiles vals ps) = (if vals = [] then [] else js_sort vals)"
  by (simp add: samplePercentiles_def Let_def)

lemma samplePercentiles_map:
  "fst (samplePercentiles vals ps) =
     map (\<lambda>p. if vals = [] then Some 0 else percentile_score (js_sort vals) p) ps"
  by (simp add: samplePercentiles_def Let_def)

lemma samplePercentile_score:
  "fst (samplePercentile vals p) = (if vals = [] then Some 0 else percentile_score (js_sort vals) p)"
  by (simp add: samplePercentile_def samplePercentiles_def Let_def)

lemma samplePercentile_state:
  "snd (samplePercentile vals p) = (if vals = [] then [] else js_sort vals)"
  by (simp add: samplePercentile_def samplePercentiles_def Let_def)

lemmas percentile_eval = samplePercentile_def samplePercentiles_def percentile_score_def
  js_sort_def js_int_to_string_def js_index_def Let_def

section \<open>Properties\<close>

text \<open>
  When the rank position \<open>pos = p * (n + 1)\<close> is an integer \<open>k\<close> strictly
  inside the sample (\<open>1 \<le> k < n\<close>), \<open>samplePercentile\<close> returns the \<open>k\<close>-th
  element (1-based) of the array as the default JavaScript sort leaves it.
\<close>

theorem samplePercentile_integral:
  assumes "vals \<noteq> []" and "p * real (length vals + 1) = real k" and "1 \<le> k" and "k < length vals"
  shows "fst (samplePercentile vals p) = Some (real_of_int (js_sort vals ! (k - 1)))"
  using assms percentile_score_integral [of p "js_sort vals" k]
  by (simp add: samplePercentile_score)

theorem samplePercentile_integral_witness:
  "fst (samplePercentile [10, 20, 30, 40, 50] (1 / 2)) = Some (real_of_int (js_sort [10, 20, 30, 40, 50] ! 2))"
  using samplePercentile_integral [of "[10, 20, 30, 40, 50]" "1 / 2" 3] by simp

text \<open>
  C36. When \<open>pos = p * (n + 1)\<close> is fractional and strictly between 1 and \<open>n\<close>, the
  code indexes the array at a fractional key, reads \<open>undefined\<close>, and the
  percentile is \<open>NaN\<close>, where the spec interpolates between the two neighbouring
  order statistics.
\<close>

theorem samplePercentile_fractional_NaN:
  assumes "1 < p * real (length vals + 1)" and "p * real (length vals + 1) < real (length vals)"
    and "p * real (length vals + 1) \<noteq> of_int \<lfloor>p * real (length vals + 1)\<rfloor>"
  shows "fst (samplePercentile vals p) = None"
proof -
  from assms(1,2) have "vals \<noteq> []" by auto
  with assms show ?thesis
    using percentile_score_fractional [of p "js_sort vals"] by (simp add: samplePercentile_score)
qed

theorem samplePercentile_fractional_NaN_witness:
  "fst (samplePercentile [10, 20, 30, 40, 50] (3 / 4)) = None"
proof -
  have "(3 / 4 :: real) * real (length [10, 20, 30, 40, 50 :: int] + 1) = 9 / 2" by simp
  moreover have "\<lfloor>9 / 2 :: real\<rfloor> = 4" by simp
  ultimately show ?thesis
    using samplePercentile_fractional_NaN [of "3 / 4" "[10, 20, 30, 40, 50]"] by simp
qed

text \<open>
  C37. The default sort orders by decimal strings, not by value. On any nonempty
  sample, a percentile below the first rank answers the first element of the sample
  sorted as strings, and leaves the reservoir in that order. That element is a value of
  the sample and is least in decimal-string order, not in numeric order. For
  \<open>[9, 10]\<close> it is 10, while \<open>sampleMin\<close> is 9.
\<close>

theorem samplePercentile_lexicographic:
  assumes "vals \<noteq> []" and "p * real (length vals + 1) < 1"
  shows "samplePercentile vals p = (Some (real_of_int (hd (js_sort vals))), js_sort vals) \<and>
         hd (js_sort vals) \<in> set vals \<and>
         (\<forall>x\<in>set vals. js_int_to_string (hd (js_sort vals)) \<le> js_int_to_string x)"
proof -
  obtain y ys where yy: "js_sort vals = y # ys"
    using assms(1) by (cases "js_sort vals") auto
  have "sorted (map js_int_to_string (js_sort vals))"
    by (simp add: js_sort_def)
  then have "\<forall>x\<in>set (js_sort vals). js_int_to_string y \<le> js_int_to_string x"
    using yy by auto
  moreover have "y \<in> set vals"
    using yy set_js_sort [of vals] by (metis list.set_intros(1))
  moreover have "length vals = Suc (length ys)"
    using yy length_js_sort [of vals] by simp
  moreover have "samplePercentile vals p = (Some (real_of_int y), js_sort vals)"
    using assms yy \<open>length vals = Suc (length ys)\<close> by (simp add: percentile_eval)
  moreover have "set vals = insert y (set ys)"
    using yy set_js_sort [of vals] by simp
  ultimately show ?thesis using yy by simp
qed

theorem samplePercentile_lexicographic_witness:
  "samplePercentile [9, 10] 0 = (Some 10, [10, 9]) \<and> 10 \<in> set [9, 10::int] \<and> sampleMin [9, 10] = 9"
  using samplePercentile_lexicographic [of "[9, 10]" 0]
  by (simp add: js_sort_def js_int_to_string_def sampleMin_def MAX_SAFE_INTEGER_def)

text \<open>
  \<open>samplePercentiles\<close> agrees with \<open>samplePercentile\<close> called on each
  requested percentile alone.
\<close>

theorem samplePercentiles_consistent:
  "fst (samplePercentiles vals ps) = map (\<lambda>p. fst (samplePercentile vals p)) ps"
  by (simp add: samplePercentiles_map samplePercentile_score)

text \<open>
  A percentile query reorders the reservoir in place but keeps its multiset of
  values, and a later query on the reordered reservoir returns the same scores.
\<close>

theorem samplePercentiles_reorders_only:
  "mset (snd (samplePercentiles vals qs)) = mset vals \<and>
   fst (samplePercentiles (snd (samplePercentiles vals qs)) ps) = fst (samplePercentiles vals ps)"
  by (simp add: samplePercentiles_state samplePercentiles_map)

text \<open>
  Every defined percentile of a non-empty sample is one of the sample's values:
  the code never interpolates.
\<close>

theorem samplePercentile_is_element:
  assumes "vals \<noteq> []" and "fst (samplePercentile vals p) = Some x"
  shows "x \<in> real_of_int ` set vals"
  using assms percentile_score_element [of "js_sort vals" p x]
  by (simp add: samplePercentile_score)

theorem samplePercentile_is_element_witness:
  "real_of_int 30 \<in> real_of_int ` set [10, 20, 30, 40, 50 :: int]"
proof -
  have "fst (samplePercentile [10, 20, 30, 40, 50] (1 / 2)) = Some 30"
    by (simp add: percentile_eval)
  then show ?thesis
    using samplePercentile_is_element [of "[10, 20, 30, 40, 50]" "1 / 2" 30] by simp
qed

text \<open>
  C38. \<open>sampleMax\<close> and \<open>sampleMin\<close> are the maximum and minimum of the sample,
  clamped by the loops' start values \<open>Number.MIN_SAFE_INTEGER\<close> and
  \<open>Number.MAX_SAFE_INTEGER\<close>, and 0 on an empty sample.
\<close>

theorem sampleMax_sampleMin_closed:
  "sampleMax vals = (if vals = [] then 0 else max MIN_SAFE_INTEGER (Max (set vals))) \<and>
   sampleMin vals = (if vals = [] then 0 else min MAX_SAFE_INTEGER (Min (set vals)))"
  by (simp add: sampleMax_Max sampleMin_Min) (simp add: sampleMax_def sampleMin_def)

text \<open>
  C39. \<open>sampleVariance\<close> is the population variance: the mean of the squares minus
  the square of the mean.
\<close>

theorem sampleVariance_moments:
  assumes "vals \<noteq> []"
  shows "sampleVariance vals =
    (\<Sum>v\<leftarrow>vals. real_of_int v * real_of_int v) / real (length vals) - sampleMean vals * sampleMean vals"
proof -
  let ?n = "real (length vals)" and ?m = "sampleMean vals"
  have n: "?n > 0" using assms by simp
  have m: "?m * ?n = (\<Sum>v\<leftarrow>vals. real_of_int v)"
    using n by (simp add: sampleMean_def real_sum_list)
  have "sampleVariance vals =
      ((\<Sum>v\<leftarrow>vals. real_of_int v * real_of_int v) - 2 * ?m * (?m * ?n) + ?n * ?m * ?m) / ?n"
    using assms by (simp add: sampleVariance_sum sum_list_square_dev m)
  also have "\<dots> = (\<Sum>v\<leftarrow>vals. real_of_int v * real_of_int v) / ?n - ?m * ?m"
    using n by (simp add: field_simps)
  finally show ?thesis .
qed

theorem sampleVariance_moments_witness:
  "sampleVariance [1, 3] = (\<Sum>v\<leftarrow>[1, 3 :: int]. real_of_int v * real_of_int v) / 2
     - sampleMean [1, 3] * sampleMean [1, 3]"
  using sampleVariance_moments [of "[1, 3]"] by simp

text \<open>
  The variance is never negative, and the standard deviation is its square root.
\<close>

theorem sampleVariance_nonneg:
  "0 \<le> sampleVariance vals \<and> sampleStdDev vals * sampleStdDev vals = sampleVariance vals"
proof -
  have "0 \<le> sampleVariance vals"
    by (auto simp: sampleVariance_sum intro!: divide_nonneg_nonneg sum_list_nonneg)
  then show ?thesis by (simp add: sampleStdDev_def)
qed

text \<open>
  The spec's examples: the median of \<open>[10, 20, 30, 40, 50]\<close> is 30, and every
  percentile of an empty sample is 0.
\<close>

theorem samplePercentile_spec_examples:
  "samplePercentile [10, 20, 30, 40, 50] (1 / 2) = (Some 30, [10, 20, 30, 40, 50]) \<and>
   samplePercentiles [] ps = (replicate (length ps) (Some 0), [])"
  by (simp add: percentile_eval map_replicate_const)

end
