(* ===== verification/UniformSample.thy ===== *)
theory UniformSample
  imports Stats
begin

text \<open>
  The class \<open>UniformSample\<close> of \<open>src/src/sample.ts\<close> (lines 133--306), Vitter's
  Algorithm R. The object is the record \<open>uniform_sample\<close>: \<open>#reservoirSize\<close>,
  \<open>_count\<close> and \<open>_values\<close>. The record is extensible, because
  \<open>ExpDecaySample\<close> extends the class and calls \<open>super.clear()\<close> and the inherited
  read methods on its own state. Each method is one definition; a method that mutates
  returns the new state, and \<open>percentile\<close>/\<open>percentiles\<close> return the new state too,
  since the helper they call sorts \<open>_values\<close> in place. The value of
  \<open>Math.random()\<close> is the parameter \<open>u\<close> of \<open>uniform_update\<close>; its contract is
  \<open>0 \<le> u < 1\<close> (\<open>valid_draw\<close>).

  The lemmas show the size invariant (the reservoir holds \<open>min count R\<close> values),
  that the reservoir is a sub-multiset of the observed stream, that it is the stream
  itself while under capacity, and the replacement rule of Algorithm R: the new value
  enters a full reservoir exactly when the draw falls below \<open>R / count\<close>.
\<close>

record uniform_sample =
  reservoirSize :: int
  sample_count :: nat
  sample_values :: "int list"

definition valid_draw :: "real \<Rightarrow> bool" where
  "valid_draw u \<longleftrightarrow> 0 \<le> u \<and> u < 1"

definition new_UniformSample :: "int \<Rightarrow> uniform_sample" where
  "new_UniformSample R = \<lparr>reservoirSize = R, sample_count = 0, sample_values = []\<rparr>"

definition uniform_clear :: "'a uniform_sample_scheme \<Rightarrow> 'a uniform_sample_scheme" where
  "uniform_clear s = s\<lparr>sample_count := 0, sample_values := []\<rparr>"

definition uniform_size :: "'a uniform_sample_scheme \<Rightarrow> nat" where
  "uniform_size s = length (sample_values s)"

definition uniform_max :: "'a uniform_sample_scheme \<Rightarrow> int" where
  "uniform_max s = sampleMax (sample_values s)"

definition uniform_mean :: "'a uniform_sample_scheme \<Rightarrow> jsnum" where
  "uniform_mean s = sampleMean (sample_values s)"

definition uniform_min :: "'a uniform_sample_scheme \<Rightarrow> int" where
  "uniform_min s = sampleMin (sample_values s)"

definition uniform_percentile ::
  "jsnum \<Rightarrow> 'a uniform_sample_scheme \<Rightarrow> jsnum option \<times> 'a uniform_sample_scheme" where
  "uniform_percentile p s =
     (let (score, vals) = samplePercentile (sample_values s) p in (score, s\<lparr>sample_values := vals\<rparr>))"

definition uniform_percentiles ::
  "jsnum list \<Rightarrow> 'a uniform_sample_scheme \<Rightarrow> jsnum option list \<times> 'a uniform_sample_scheme" where
  "uniform_percentiles ps s =
     (let (scores, vals) = samplePercentiles (sample_values s) ps in (scores, s\<lparr>sample_values := vals\<rparr>))"

definition uniform_snapshot :: "'a uniform_sample_scheme \<Rightarrow> nat \<times> int list" where
  "uniform_snapshot s = (sample_count s, sample_values s)"

definition uniform_stdDev :: "'a uniform_sample_scheme \<Rightarrow> jsnum" where
  "uniform_stdDev s = sampleStdDev (sample_values s)"

definition uniform_sum :: "'a uniform_sample_scheme \<Rightarrow> int" where
  "uniform_sum s = sampleSum (sample_values s)"

text \<open>
  \<open>update\<close>: the count goes up first; below capacity the value is appended, otherwise
  \<open>r = Math.floor(Math.random() * _count)\<close> and \<open>_values[r] = i\<close> when \<open>r\<close> is below
  the length. (A negative key, impossible for a draw in \<open>[0, 1)\<close>, would write no
  array element.)
\<close>

definition uniform_update :: "real \<Rightarrow> int \<Rightarrow> 'a uniform_sample_scheme \<Rightarrow> 'a uniform_sample_scheme" where
  "uniform_update u i s =
     (let s1 = s\<lparr>sample_count := sample_count s + 1\<rparr> in
      if int (uniform_size s1) < reservoirSize s1 then s1\<lparr>sample_values := sample_values s1 @ [i]\<rparr>
      else let r = \<lfloor>u * real (sample_count s1)\<rfloor> in
           if r < int (length (sample_values s1)) \<and> 0 \<le> r
           then s1\<lparr>sample_values := (sample_values s1)[nat r := i]\<rparr>
           else s1)"

definition uniform_values :: "'a uniform_sample_scheme \<Rightarrow> int list" where
  "uniform_values s = sample_values s"

definition uniform_variance :: "'a uniform_sample_scheme \<Rightarrow> jsnum" where
  "uniform_variance s = sampleVariance (sample_values s)"

lemmas uniform_defs [sample_defs] = uniform_clear_def uniform_size_def uniform_update_def
  uniform_percentile_def uniform_percentiles_def uniform_values_def

section \<open>Runs of operations\<close>

text \<open>
  The operations that change a uniform sample, and a run of them from a state in the
  order the caller issues them.
\<close>

datatype uniform_op = UUpdate real int | UClear | UPercentiles "real list"

fun uniform_step :: "uniform_op \<Rightarrow> uniform_sample \<Rightarrow> uniform_sample" where
  "uniform_step (UUpdate u i) s = uniform_update u i s"
| "uniform_step UClear s = uniform_clear s"
| "uniform_step (UPercentiles ps) s = snd (uniform_percentiles ps s)"

definition uniform_run :: "uniform_op list \<Rightarrow> uniform_sample \<Rightarrow> uniform_sample" where
  "uniform_run ops s = foldl (\<lambda>s op. uniform_step op s) s ops"

definition uniform_updates :: "(real \<times> int) list \<Rightarrow> uniform_sample \<Rightarrow> uniform_sample" where
  "uniform_updates ups s = foldl (\<lambda>s (u, i). uniform_update u i s) s ups"

lemma uniform_run_append [simp]:
  "uniform_run (ops @ [op]) s = uniform_step op (uniform_run ops s)"
  by (simp add: uniform_run_def)

lemma uniform_updates_append [simp]:
  "uniform_updates (ups @ [(u, i)]) s = uniform_update u i (uniform_updates ups s)"
  by (simp add: uniform_updates_def)

lemma uniform_updates_Nil [simp]: "uniform_updates [] s = s"
  by (simp add: uniform_updates_def)

lemma uniform_run_Nil [simp]: "uniform_run [] s = s"
  by (simp add: uniform_run_def)

section \<open>One update, branch by branch\<close>

lemma uniform_update_count [simp]:
  "sample_count (uniform_update u i s) = Suc (sample_count s)"
  by (simp add: uniform_update_def Let_def)

lemma uniform_update_reservoirSize [simp]:
  "reservoirSize (uniform_update u i s) = reservoirSize s"
  by (simp add: uniform_update_def Let_def)

lemma uniform_update_below:
  "int (length (sample_values s)) < reservoirSize s \<Longrightarrow>
   sample_values (uniform_update u i s) = sample_values s @ [i]"
  by (simp add: uniform_update_def uniform_size_def)

lemma uniform_update_full:
  "\<not> int (length (sample_values s)) < reservoirSize s \<Longrightarrow>
   sample_values (uniform_update u i s) =
     (let r = \<lfloor>u * real (Suc (sample_count s))\<rfloor> in
      if r < int (length (sample_values s)) \<and> 0 \<le> r then (sample_values s)[nat r := i]
      else sample_values s)"
  by (simp add: uniform_update_def uniform_size_def Let_def)

lemma length_uniform_update:
  "length (sample_values (uniform_update u i s)) =
     (if int (length (sample_values s)) < reservoirSize s then Suc (length (sample_values s))
      else length (sample_values s))"
  by (simp add: uniform_update_below uniform_update_full Let_def)

lemma mset_uniform_update:
  "mset (sample_values (uniform_update u i s)) \<subseteq># mset (sample_values s) + {#i#}"
proof (cases "int (length (sample_values s)) < reservoirSize s")
  case True
  then show ?thesis by (simp add: uniform_update_below)
next
  case False
  let ?r = "\<lfloor>u * real (Suc (sample_count s))\<rfloor>"
  have "mset ((sample_values s)[nat ?r := i]) \<subseteq># mset (sample_values s) + {#i#}"
    if "?r < int (length (sample_values s))" "0 \<le> ?r"
  proof (rule mset_list_update_subseteq)
    show "nat ?r < length (sample_values s)"
      using that by (simp add: nat_less_iff)
  qed simp
  with False show ?thesis
    by (auto simp: uniform_update_full Let_def subset_mset.add_increasing2)
qed

section \<open>The size invariant\<close>

definition uniform_size_inv :: "'a uniform_sample_scheme \<Rightarrow> bool" where
  "uniform_size_inv s \<longleftrightarrow>
     length (sample_values s) = min (sample_count s) (nat (reservoirSize s))"

lemma uniform_size_inv_new: "uniform_size_inv (new_UniformSample R)"
  by (simp add: uniform_size_inv_def new_UniformSample_def)

lemma uniform_size_inv_update:
  "uniform_size_inv s \<Longrightarrow> uniform_size_inv (uniform_update u i s)"
  by (auto simp: uniform_size_inv_def length_uniform_update)

lemma uniform_size_inv_step:
  "uniform_size_inv s \<Longrightarrow> uniform_size_inv (uniform_step op s)"
proof (cases op)
  case (UUpdate u i)
  then show "uniform_size_inv s \<Longrightarrow> ?thesis" by (simp add: uniform_size_inv_update)
qed (auto simp: uniform_size_inv_def uniform_clear_def uniform_percentiles_def
       samplePercentiles_def Let_def)

lemma uniform_size_inv_run:
  "uniform_size_inv s \<Longrightarrow> uniform_size_inv (uniform_run ops s)"
  by (induction ops rule: rev_induct) (simp_all add: uniform_size_inv_step)

lemma uniform_updates_count:
  "sample_count (uniform_updates ups s) = sample_count s + length ups"
  by (induction ups rule: rev_induct) auto

lemma uniform_updates_reservoirSize [simp]:
  "reservoirSize (uniform_updates ups s) = reservoirSize s"
  by (induction ups rule: rev_induct) auto

lemma uniform_size_inv_updates:
  "uniform_size_inv s \<Longrightarrow> uniform_size_inv (uniform_updates ups s)"
  by (induction ups rule: rev_induct) (auto simp: uniform_size_inv_update)

text \<open>
  \<open>percentiles(p :: ps)\<close> is \<open>percentile(p)\<close> followed by \<open>percentiles(ps)\<close>
  on the sample it left sorted: the default sort is idempotent.
\<close>

lemma uniform_percentiles_Cons:
  "uniform_percentiles (p # ps) s =
     (let (r, s1) = uniform_percentile p s; (rs, s2) = uniform_percentiles ps s1 in (r # rs, s2))"
  by (simp add: uniform_percentiles_def uniform_percentile_def samplePercentile_def samplePercentiles_def
      Let_def split_def)

section \<open>Properties\<close>

text \<open>
  C33. Whatever sequence of \<open>update\<close>, \<open>clear\<close> and percentile queries runs on a
  fresh \<open>UniformSample(R)\<close>, and whatever the random draws, the reservoir holds
  exactly \<open>min(count, R)\<close> values: never more than the reservoir size.
\<close>

theorem uniform_run_size:
  "length (sample_values (uniform_run ops (new_UniformSample R))) =
     min (sample_count (uniform_run ops (new_UniformSample R))) (nat R)"
proof -
  have "uniform_size_inv (uniform_run ops (new_UniformSample R))"
    by (intro uniform_size_inv_run uniform_size_inv_new)
  moreover have "reservoirSize (uniform_run ops (new_UniformSample R)) = R"
  proof (induction ops rule: rev_induct)
    case (snoc op ops)
    then show ?case
      by (cases op) (simp_all add: uniform_clear_def uniform_percentiles_def Let_def split: prod.split)
  qed (simp add: new_UniformSample_def)
  ultimately show ?thesis by (simp add: uniform_size_inv_def)
qed

text \<open>
  After \<open>N\<close> updates of a fresh \<open>UniformSample(R)\<close>, \<open>count() = N\<close> and
  \<open>size() = min(N, R)\<close>: the spec's two size properties, for either relation of
  \<open>N\<close> and \<open>R\<close>.
\<close>

theorem uniform_updates_count_size:
  "sample_count (uniform_updates ups (new_UniformSample R)) = length ups \<and>
   uniform_size (uniform_updates ups (new_UniformSample R)) = min (length ups) (nat R)"
proof -
  have "uniform_size_inv (uniform_updates ups (new_UniformSample R))"
    by (intro uniform_size_inv_updates uniform_size_inv_new)
  then show ?thesis
    by (simp add: uniform_size_inv_def uniform_size_def uniform_updates_count new_UniformSample_def)
qed

text \<open>
  While the stream is no longer than the reservoir (\<open>N \<le> R\<close>), the reservoir
  is the stream itself, in arrival order: no value is replaced.
\<close>

theorem uniform_updates_under_capacity:
  assumes "int (length ups) \<le> R"
  shows "sample_values (uniform_updates ups (new_UniformSample R)) = map snd ups"
  using assms
proof (induction ups rule: rev_induct)
  case Nil
  then show ?case by (simp add: new_UniformSample_def)
next
  case (snoc up ups)
  obtain u i where up: "up = (u, i)" by (cases up)
  from snoc.prems have IH: "sample_values (uniform_updates ups (new_UniformSample R)) = map snd ups"
    by (intro snoc.IH) simp
  from snoc.prems have "int (length (map snd ups)) < R" by simp
  with IH up show ?case
    by (simp add: uniform_update_below new_UniformSample_def)
qed

theorem uniform_updates_under_capacity_witness:
  "sample_values (uniform_updates [(0, 5), (1 / 2, 7)] (new_UniformSample 3)) = [5, 7]"
  using uniform_updates_under_capacity [of "[(0 :: real, 5 :: int), (1 / 2, 7)]" 3] by simp

text \<open>
  The abstract contract of one reservoir step, on the multiset of retained values
  and the reservoir capacity: below capacity the value is added; at capacity it
  either replaces one retained value or is discarded.
\<close>

inductive reservoir_step :: "nat \<Rightarrow> int multiset \<Rightarrow> int \<Rightarrow> int multiset \<Rightarrow> bool" for cap where
  add: "size M < cap \<Longrightarrow> reservoir_step cap M x (add_mset x M)"
| replace: "size M = cap \<Longrightarrow> y \<in># M \<Longrightarrow> reservoir_step cap M x (add_mset x (M - {#y#}))"
| discard: "size M = cap \<Longrightarrow> reservoir_step cap M x M"

text \<open>
  C34. \<open>UniformSample.update\<close> refines the reservoir contract: on a sample whose
  size invariant holds, the multiset of retained values moves by one
  \<open>reservoir_step\<close> with capacity \<open>R\<close>.
\<close>

theorem uniform_update_refines:
  assumes "uniform_size_inv s"
  shows "reservoir_step (nat (reservoirSize s)) (mset (sample_values s)) i
           (mset (sample_values (uniform_update u i s)))"
proof (cases "int (length (sample_values s)) < reservoirSize s")
  case True
  then have "size (mset (sample_values s)) < nat (reservoirSize s)" by simp
  with True show ?thesis
    by (simp add: uniform_update_below reservoir_step.add)
next
  case False
  with assms have full: "size (mset (sample_values s)) = nat (reservoirSize s)"
    by (auto simp: uniform_size_inv_def)
  let ?r = "\<lfloor>u * real (Suc (sample_count s))\<rfloor>"
  show ?thesis
  proof (cases "?r < int (length (sample_values s)) \<and> 0 \<le> ?r")
    case True
    then have r: "nat ?r < length (sample_values s)" by (simp add: nat_less_iff)
    have "sample_values (uniform_update u i s) = (sample_values s)[nat ?r := i]"
      using False True by (simp add: uniform_update_full Let_def)
    moreover have "mset ((sample_values s)[nat ?r := i]) =
        add_mset i (mset (sample_values s) - {#sample_values s ! nat ?r#})"
      using r by (simp add: mset_update)
    moreover have "sample_values s ! nat ?r \<in># mset (sample_values s)"
      using r by simp
    ultimately show ?thesis
      using full by (simp add: reservoir_step.replace)
  next
    case inner: False
    have "sample_values (uniform_update u i s) = sample_values s"
      using False inner by (auto simp: uniform_update_full Let_def)
    then show ?thesis
      using full by (simp add: reservoir_step.discard)
  qed
qed

theorem uniform_update_refines_witness:
  "reservoir_step 0 {#} 4 (mset (sample_values (uniform_update (1 / 2) 4 (new_UniformSample 0))))"
  using uniform_update_refines [where s = "new_UniformSample 0" and u = "1 / 2" and i = 4]
    uniform_size_inv_new [of 0]
  by (simp add: new_UniformSample_def)

text \<open>
  The reservoir is always a sub-multiset of the values it started with plus the
  values observed since: a retained value was observed.
\<close>

theorem uniform_updates_submultiset:
  "mset (sample_values (uniform_updates ups s)) \<subseteq># mset (sample_values s) + mset (map snd ups)"
proof (induction ups rule: rev_induct)
  case Nil
  then show ?case by simp
next
  case (snoc up ups)
  obtain u i where up: "up = (u, i)" by (cases up)
  have "mset (sample_values (uniform_update u i (uniform_updates ups s))) \<subseteq>#
      mset (sample_values (uniform_updates ups s)) + {#i#}"
    by (rule mset_uniform_update)
  also have "\<dots> \<subseteq># mset (sample_values s) + mset (map snd ups) + {#i#}"
    using snoc.IH by simp
  finally show ?case by (simp add: up add.assoc)
qed

text \<open>
  C35. Algorithm R's replacement rule: once the reservoir is full, a draw \<open>u\<close> of
  \<open>Math.random()\<close> writes the new value into slot \<open>floor(u * count)\<close> exactly when
  \<open>u < size / count\<close> (the updated count), and leaves the reservoir unchanged
  otherwise; for a uniform draw the new value is kept with probability
  \<open>R / count\<close>.
\<close>

theorem uniform_update_full_rule:
  assumes "valid_draw u" and "\<not> int (length (sample_values s)) < reservoirSize s"
  shows "sample_values (uniform_update u i s) =
    (if u < real (length (sample_values s)) / real (Suc (sample_count s))
     then (sample_values s)[nat \<lfloor>u * real (Suc (sample_count s))\<rfloor> := i]
     else sample_values s)"
proof -
  let ?c = "real (Suc (sample_count s))" and ?L = "length (sample_values s)"
  have nonneg: "0 \<le> \<lfloor>u * ?c\<rfloor>"
    using assms(1) by (simp add: valid_draw_def)
  have "(\<lfloor>u * ?c\<rfloor> < int ?L) = (u * ?c < real ?L)"
    by (simp add: floor_less_iff)
  also have "\<dots> = (u < real ?L / ?c)"
    by (simp add: pos_less_divide_eq)
  finally show ?thesis
    using assms(2) nonneg by (simp add: uniform_update_full Let_def)
qed

theorem uniform_update_full_rule_witness:
  "sample_values (uniform_update (1 / 4) 9 (uniform_updates [(0, 5), (0, 7)] (new_UniformSample 2)))
     = [9, 7]"
proof -
  have s: "uniform_updates [(0, 5), (0, 7)] (new_UniformSample 2) =
      \<lparr>reservoirSize = 2, sample_count = 2, sample_values = [5, 7]\<rparr>"
    by (simp add: uniform_updates_def uniform_update_def uniform_size_def new_UniformSample_def)
  have "valid_draw (1 / 4)" by (simp add: valid_draw_def)
  from uniform_update_full_rule [OF this, of "uniform_updates [(0, 5), (0, 7)] (new_UniformSample 2)" 9]
  show ?thesis by (simp add: s)
qed

end
