(* ===== verification/ExpDecaySample.thy ===== *)
theory ExpDecaySample
  imports UniformSample
begin

text \<open>
  The class \<open>ExpDecaySample\<close> of \<open>src/src/sample.ts\<close> (lines 319--397), a subclass
  of \<open>UniformSample\<close>. Its state extends the record \<open>uniform_sample\<close> (the
  inherited \<open>_count\<close> and \<open>_values\<close>, which the inherited read methods use) with the
  private fields \<open>#reservoirSize\<close>, \<open>#alpha\<close>, \<open>#t0\<close>, \<open>#t1\<close> and \<open>#values\<close>.

  \<open>#t0\<close> and \<open>#t1\<close> are references to mutable \<open>Date\<close> objects, and the code
  mutates them with \<open>setTime\<close> while they may alias. They are modelled as references
  into an explicit store of \<open>Date\<close> objects (\<open>date_heap\<close>, after the heap of
  \<open>Imperative_HOL\<close>): \<open>new Date()\<close> allocates, \<open>getTime\<close> reads, \<open>setTime\<close>
  writes. The clock (\<open>new Date()\<close> inside a method) and \<open>Math.random()\<close> are
  parameters of the operations. A priority key is a \<open>priority\<close>: a finite real, or
  \<open>Infinity\<close>, which \<open>Math.exp(...) / 0\<close> yields.

  The lemmas show that the inherited \<open>_values\<close> array, the one every statistic
  reads, stays empty whatever the operations; that \<open>#values\<close> grows by one entry per
  update and is never bounded nor cleared; that the constructor makes \<open>#t0\<close> and
  \<open>#t1\<close> the same object an hour in the future, so that the first rescale
  multiplies every key by \<open>exp(alpha * 3600)\<close> instead of decaying it; and what
  \<open>clear\<close> does to the count and to the rescale deadline.
\<close>

section \<open>Date objects in a store\<close>

record date_heap =
  dates :: "date_ref \<Rightarrow> millis"
  date_lim :: nat

definition date_alloc :: "millis \<Rightarrow> date_heap \<Rightarrow> date_ref \<times> date_heap" where
  "date_alloc t h = (date_lim h, h\<lparr>dates := (dates h)(date_lim h := t), date_lim := Suc (date_lim h)\<rparr>)"

definition getTime :: "date_heap \<Rightarrow> date_ref \<Rightarrow> millis" where
  "getTime h r = dates h r"

definition setTime :: "date_ref \<Rightarrow> millis \<Rightarrow> date_heap \<Rightarrow> date_heap" where
  "setTime r t h = h\<lparr>dates := (dates h)(r := t)\<rparr>"

lemma getTime_setTime [simp]:
  "getTime (setTime r t h) r' = (if r' = r then t else getTime h r')"
  by (simp add: getTime_def setTime_def)

lemma date_lim_setTime [simp]: "date_lim (setTime r t h) = date_lim h"
  by (simp add: setTime_def)

lemma date_alloc_fresh [simp]: "fst (date_alloc t h) = date_lim h"
  by (simp add: date_alloc_def)

lemma getTime_date_alloc [simp]:
  "getTime (snd (date_alloc t h)) r = (if r = date_lim h then t else getTime h r)"
  by (simp add: date_alloc_def getTime_def)

lemma date_lim_date_alloc [simp]: "date_lim (snd (date_alloc t h)) = Suc (date_lim h)"
  by (simp add: date_alloc_def)

definition empty_date_heap :: date_heap where
  "empty_date_heap = \<lparr>dates = (\<lambda>_. 0), date_lim = 0\<rparr>"

lemmas date_heap_simps [js_simps] = getTime_setTime date_lim_setTime date_alloc_fresh
  getTime_date_alloc date_lim_date_alloc

section \<open>Priority keys\<close>

datatype priority = Key real | Infinity

text \<open>\<open>Math.exp(x) / f\<close> for the integer \<open>f\<close>: the quotient, or \<open>Infinity\<close> when
  \<open>f = 0\<close> (the numerator is positive).\<close>

definition priority_div :: "real \<Rightarrow> int \<Rightarrow> priority" where
  "priority_div a f = (if f = 0 then Infinity else Key (a / real_of_int f))"

text \<open>\<open>key * Math.exp(x)\<close>: the factor is positive, so \<open>Infinity\<close> stays \<open>Infinity\<close>.\<close>

fun priority_scale :: "priority \<Rightarrow> real \<Rightarrow> priority" where
  "priority_scale (Key k) c = Key (k * c)"
| "priority_scale Infinity c = Infinity"

section \<open>The sample\<close>

record exp_decay_sample = uniform_sample +
  ed_reservoirSize :: int
  ed_alpha :: real
  t0 :: date_ref
  t1 :: date_ref
  ed_values :: "(priority \<times> int) list"
  heap :: date_heap

definition rescaleThreshold :: millis where
  "rescaleThreshold = 3600000"

text \<open>
  The constructor: \<open>super(reservoirSize)\<close> gives the inherited fields;
  \<open>#t0 = new Date()\<close> allocates one object, \<open>#t1 = #t0\<close> copies the reference, and
  \<open>#t1.setTime(#t1.getTime() + rescaleThreshold)\<close> moves that one object.
\<close>

definition new_ExpDecaySample :: "real \<Rightarrow> int \<Rightarrow> millis \<Rightarrow> date_heap \<Rightarrow> exp_decay_sample" where
  "new_ExpDecaySample alpha R now h =
     (let (a, h1) = date_alloc now h;
          h2 = setTime a (getTime h1 a + rescaleThreshold) h1
      in \<lparr>reservoirSize = R, sample_count = 0, sample_values = [],
          ed_reservoirSize = R, ed_alpha = alpha, t0 = a, t1 = a, ed_values = [], heap = h2\<rparr>)"

definition ed_clear :: "millis \<Rightarrow> exp_decay_sample \<Rightarrow> exp_decay_sample" where
  "ed_clear now s =
     (let s1 = uniform_clear s;
          (c, h1) = date_alloc now (heap s1);
          h2 = setTime (t1 s1) (getTime h1 (t1 s1) + rescaleThreshold) h1
      in s1\<lparr>t0 := c, heap := h2\<rparr>)"

text \<open>
  \<open>update\<close> at wall-clock time \<open>now\<close> with draw \<open>u\<close>. The rescale re-reads the
  saved old \<open>#t0\<close> reference after \<open>#t1.setTime\<close>, so when the two alias it reads
  the new deadline.
\<close>

definition ed_rescale :: "date_ref \<Rightarrow> exp_decay_sample \<Rightarrow> exp_decay_sample" where
  "ed_rescale t s =
     (let values = ed_values s; t0_old = t0 s;
          h2 = setTime (t1 s) (getTime (heap s) t + rescaleThreshold) (heap s);
          s4 = s\<lparr>ed_values := [], t0 := t, heap := h2\<rparr>
      in s4\<lparr>ed_values := map (\<lambda>(k, v). (priority_scale k
              (exp (- ed_alpha s4 * real_of_int (getTime h2 (t0 s4) - getTime h2 t0_old) / 1000)), v))
            values\<rparr>)"

definition ed_update :: "millis \<Rightarrow> real \<Rightarrow> int \<Rightarrow> exp_decay_sample \<Rightarrow> exp_decay_sample" where
  "ed_update now u i s =
     (let (t, h1) = date_alloc now (heap s);
          s1 = s\<lparr>heap := h1, sample_count := sample_count s + 1\<rparr>;
          s2 = (if int (uniform_size s1) = ed_reservoirSize s1
                then s1\<lparr>sample_values := js_pop (sample_values s1)\<rparr> else s1);
          f = \<lfloor>u * real (sample_count s2)\<rfloor>;
          elapsed = real_of_int (getTime h1 t - getTime h1 (t0 s2)) / 1000;
          s3 = s2\<lparr>ed_values := ed_values s2 @ [(priority_div (exp (elapsed * ed_alpha s2)) f, i)]\<rparr>
      in if getTime (heap s3) t > getTime (heap s3) (t1 s3) then ed_rescale t s3 else s3)"

lemmas ed_defs [sample_defs] = new_ExpDecaySample_def ed_clear_def ed_update_def ed_rescale_def

section \<open>Runs of operations\<close>

datatype ed_op = EUpdate millis real int | EClear millis | EPercentiles "real list"

fun ed_step :: "ed_op \<Rightarrow> exp_decay_sample \<Rightarrow> exp_decay_sample" where
  "ed_step (EUpdate now u i) s = ed_update now u i s"
| "ed_step (EClear now) s = ed_clear now s"
| "ed_step (EPercentiles ps) s = snd (uniform_percentiles ps s)"

definition ed_run :: "ed_op list \<Rightarrow> exp_decay_sample \<Rightarrow> exp_decay_sample" where
  "ed_run ops s = foldl (\<lambda>s op. ed_step op s) s ops"

lemma ed_run_append [simp]: "ed_run (ops @ [op]) s = ed_step op (ed_run ops s)"
  by (simp add: ed_run_def)

lemma ed_run_Nil [simp]: "ed_run [] s = s"
  by (simp add: ed_run_def)

fun is_update :: "ed_op \<Rightarrow> bool" where
  "is_update (EUpdate now u i) = True"
| "is_update _ = False"

section \<open>Field-by-field behaviour of the operations\<close>

lemma ed_rescale_fields [simp]:
  "sample_values (ed_rescale t s) = sample_values s"
  "sample_count (ed_rescale t s) = sample_count s"
  "length (ed_values (ed_rescale t s)) = length (ed_values s)"
  "t0 (ed_rescale t s) = t"
  "t1 (ed_rescale t s) = t1 s"
  "ed_reservoirSize (ed_rescale t s) = ed_reservoirSize s"
  "date_lim (heap (ed_rescale t s)) = date_lim (heap s)"
  by (simp_all add: ed_rescale_def Let_def)

lemma ed_update_split:
  "ed_update now u i s =
     (let t = date_lim (heap s); h1 = snd (date_alloc now (heap s));
          s1 = s\<lparr>heap := h1, sample_count := sample_count s + 1\<rparr>;
          s2 = (if int (uniform_size s1) = ed_reservoirSize s1
                then s1\<lparr>sample_values := js_pop (sample_values s1)\<rparr> else s1);
          f = \<lfloor>u * real (sample_count s2)\<rfloor>;
          elapsed = real_of_int (getTime h1 t - getTime h1 (t0 s2)) / 1000;
          s3 = s2\<lparr>ed_values := ed_values s2 @ [(priority_div (exp (elapsed * ed_alpha s2)) f, i)]\<rparr>
      in if getTime (heap s3) t > getTime (heap s3) (t1 s3) then ed_rescale t s3 else s3)"
  by (simp add: ed_update_def date_alloc_def Let_def)

lemma ed_update_values_empty:
  "sample_values s = [] \<Longrightarrow> sample_values (ed_update now u i s) = []"
  by (simp add: ed_update_split Let_def)

lemma ed_update_count [simp]:
  "sample_count (ed_update now u i s) = Suc (sample_count s)"
  by (simp add: ed_update_split Let_def)

lemma ed_update_ed_values_length [simp]:
  "length (ed_values (ed_update now u i s)) = Suc (length (ed_values s))"
  by (simp add: ed_update_split Let_def)

lemma ed_update_recorded:
  "map snd (ed_values (ed_update now u i s)) = map snd (ed_values s) @ [i]"
  by (simp add: ed_update_split ed_rescale_def Let_def comp_def split_def)

lemma ed_clear_fields [simp]:
  "sample_values (ed_clear now s) = []"
  "sample_count (ed_clear now s) = 0"
  "ed_values (ed_clear now s) = ed_values s"
  "t0 (ed_clear now s) = date_lim (heap s)"
  "t1 (ed_clear now s) = t1 s"
  "date_lim (heap (ed_clear now s)) = Suc (date_lim (heap s))"
  by (simp_all add: ed_clear_def uniform_clear_def date_alloc_def setTime_def Let_def)

lemma ed_clear_deadline:
  "t1 s < date_lim (heap s) \<Longrightarrow>
   getTime (heap (ed_clear now s)) (t1 s) = getTime (heap s) (t1 s) + rescaleThreshold"
  by (simp add: ed_clear_def uniform_clear_def date_alloc_def getTime_def setTime_def Let_def)

lemma ed_percentiles_fields [simp]:
  "ed_values (snd (uniform_percentiles ps s)) = ed_values s"
  "sample_count (snd (uniform_percentiles ps s)) = sample_count s"
  "sample_values (snd (uniform_percentiles ps s)) =
     (if sample_values s = [] then [] else js_sort (sample_values s))"
  by (simp_all add: uniform_percentiles_def samplePercentiles_def Let_def)

section \<open>Invariants of runs\<close>

definition ed_wf :: "exp_decay_sample \<Rightarrow> bool" where
  "ed_wf s \<longleftrightarrow> t0 s < date_lim (heap s) \<and> t1 s < date_lim (heap s)"

lemma ed_wf_new: "ed_wf (new_ExpDecaySample alpha R now h)"
  by (simp add: ed_wf_def new_ExpDecaySample_def date_alloc_def setTime_def Let_def)

lemma ed_wf_update: "ed_wf s \<Longrightarrow> ed_wf (ed_update now u i s)"
  by (auto simp: ed_wf_def ed_update_split Let_def)

lemma ed_wf_step: "ed_wf s \<Longrightarrow> ed_wf (ed_step op s)"
  by (cases op)
    (auto simp: ed_wf_update, auto simp: ed_wf_def uniform_percentiles_def Let_def split: prod.split)

lemma ed_wf_run: "ed_wf s \<Longrightarrow> ed_wf (ed_run ops s)"
  by (induction ops rule: rev_induct) (simp_all add: ed_wf_step)

lemma ed_values_empty_run:
  "sample_values s = [] \<Longrightarrow> sample_values (ed_run ops s) = []"
proof (induction ops rule: rev_induct)
  case (snoc op ops)
  then show ?case by (cases op) (simp_all add: ed_update_values_empty)
qed simp

lemma ed_values_length_run:
  "length (ed_values (ed_run ops s)) = length (ed_values s) + length (filter is_update ops)"
proof (induction ops rule: rev_induct)
  case (snoc op ops)
  then show ?case by (cases op) simp_all
qed simp

lemma new_ExpDecaySample_fields [simp]:
  "sample_values (new_ExpDecaySample alpha R now h) = []"
  "sample_count (new_ExpDecaySample alpha R now h) = 0"
  "ed_values (new_ExpDecaySample alpha R now h) = []"
  "ed_alpha (new_ExpDecaySample alpha R now h) = alpha"
  "t0 (new_ExpDecaySample alpha R now h) = date_lim h"
  "t1 (new_ExpDecaySample alpha R now h) = date_lim h"
  "date_lim (heap (new_ExpDecaySample alpha R now h)) = Suc (date_lim h)"
  "getTime (heap (new_ExpDecaySample alpha R now h)) (date_lim h) = now + rescaleThreshold"
  by (simp_all add: new_ExpDecaySample_def date_alloc_def getTime_def setTime_def Let_def)

lemma empty_statistics:
  "sample_values s = [] \<Longrightarrow>
   uniform_size s = 0 \<and> uniform_max s = 0 \<and> uniform_min s = 0 \<and> uniform_mean s = 0 \<and>
   uniform_sum s = 0 \<and> uniform_variance s = 0 \<and> uniform_stdDev s = 0 \<and>
   fst (uniform_percentiles ps s) = map (\<lambda>_. Some 0) ps"
  by (simp add: uniform_size_def uniform_max_def uniform_min_def uniform_mean_def uniform_sum_def
      uniform_variance_def uniform_stdDev_def uniform_percentiles_def stats_defs)

section \<open>Properties\<close>

text \<open>
  C5. \<open>ExpDecaySample.update\<close> never stores a value in the inherited \<open>_values\<close>
  array, and every statistic (\<open>size\<close>, \<open>max\<close>, \<open>min\<close>, \<open>mean\<close>, \<open>sum\<close>,
  \<open>variance\<close>, \<open>stdDev\<close>, percentiles) reads that array: whatever sequence of
  operations runs on a fresh sample, every statistic is 0.
\<close>

theorem ed_run_statistics_zero:
  "uniform_size (ed_run ops (new_ExpDecaySample alpha R now h)) = 0 \<and>
   uniform_max (ed_run ops (new_ExpDecaySample alpha R now h)) = 0 \<and>
   uniform_min (ed_run ops (new_ExpDecaySample alpha R now h)) = 0 \<and>
   uniform_mean (ed_run ops (new_ExpDecaySample alpha R now h)) = 0 \<and>
   uniform_sum (ed_run ops (new_ExpDecaySample alpha R now h)) = 0 \<and>
   uniform_variance (ed_run ops (new_ExpDecaySample alpha R now h)) = 0 \<and>
   uniform_stdDev (ed_run ops (new_ExpDecaySample alpha R now h)) = 0 \<and>
   fst (uniform_percentiles ps (ed_run ops (new_ExpDecaySample alpha R now h))) = map (\<lambda>_. Some 0) ps"
  by (intro empty_statistics ed_values_empty_run) simp

text \<open>
  C6. The priority list \<open>#values\<close> gains one entry per update and loses none: no
  eviction, and \<open>clear\<close> does not empty it. Its length is the number of updates
  since construction, whatever the reservoir size.
\<close>

theorem ed_run_priority_list_unbounded:
  "length (ed_values (ed_run ops (new_ExpDecaySample alpha R now h))) = length (filter is_update ops)"
  by (simp add: ed_values_length_run)

text \<open>
  C7. The constructor leaves \<open>#t0\<close> and \<open>#t1\<close> the same \<open>Date\<close> object, set to
  one hour after construction. The first update after that hour triggers the rescale,
  which moves the shared object to the new deadline before reading the old origin
  through it: the stored key is multiplied by \<open>exp(3600 * alpha)\<close>, and ends as
  \<open>exp(alpha * (t - t_c) / 1000) / f\<close> (with \<open>t_c\<close> the construction time), not
  renormalised to the new origin.
\<close>

theorem ed_first_rescale_aliased:
  assumes "now0 + rescaleThreshold < now"
  shows "t0 (new_ExpDecaySample alpha R now0 h) = t1 (new_ExpDecaySample alpha R now0 h) \<and>
    ed_values (ed_update now u i (new_ExpDecaySample alpha R now0 h)) =
      [(priority_scale
          (priority_div (exp (real_of_int (now - (now0 + rescaleThreshold)) / 1000 * alpha)) \<lfloor>u\<rfloor>)
          (exp (3600 * alpha)), i)]"
proof -
  have "- alpha * real_of_int (now - (now + rescaleThreshold)) / 1000 = 3600 * alpha"
    by (simp add: rescaleThreshold_def)
  with assms show ?thesis
    by (simp add: ed_update_split ed_rescale_def uniform_size_def rescaleThreshold_def Let_def)
qed

theorem ed_first_rescale_aliased_witness:
  "ed_values (ed_update 3600001 0 7 (new_ExpDecaySample 1 5 0 empty_date_heap)) =
     [(priority_scale (priority_div (exp (real_of_int (3600001 - (0 + rescaleThreshold)) / 1000 * 1)) \<lfloor>0 :: real\<rfloor>)
        (exp (3600 * 1)), 7)]"
proof -
  have "(0 :: millis) + rescaleThreshold < 3600001" by (simp add: rescaleThreshold_def)
  from ed_first_rescale_aliased [OF this, where alpha = 1 and R = 5 and u = 0 and i = 7
      and h = "empty_date_heap"]
  show ?thesis by simp
qed

text \<open>
  Once \<open>#t0\<close> and \<open>#t1\<close> are distinct objects (after the first rescale or a
  \<open>clear\<close>), a rescale at time \<open>t\<close> multiplies every stored key by
  \<open>exp(-alpha * (t - t0) / 1000)\<close>, the decay to the new origin the spec describes.
\<close>

theorem ed_rescale_unaliased:
  assumes "t0 s \<noteq> t1 s" and "ed_wf s" and "getTime (heap s) (t1 s) < now"
  shows "map fst (ed_values (ed_update now u i s)) =
    map (\<lambda>k. priority_scale k (exp (- ed_alpha s * real_of_int (now - getTime (heap s) (t0 s)) / 1000)))
      (map fst (ed_values s) @
       [priority_div (exp (real_of_int (now - getTime (heap s) (t0 s)) / 1000 * ed_alpha s))
          \<lfloor>u * real (Suc (sample_count s))\<rfloor>])"
  using assms by (auto simp: ed_wf_def ed_update_split ed_rescale_def uniform_size_def Let_def)

theorem ed_rescale_unaliased_witness:
  "map fst (ed_values (ed_update 7200002 0 3 (ed_update 3600001 0 7 (new_ExpDecaySample 1 5 0 empty_date_heap)))) =
   map (\<lambda>k. priority_scale k (exp (- ed_alpha (ed_update 3600001 0 7 (new_ExpDecaySample 1 5 0 empty_date_heap)) *
        real_of_int (7200002 - getTime (heap (ed_update 3600001 0 7 (new_ExpDecaySample 1 5 0 empty_date_heap)))
          (t0 (ed_update 3600001 0 7 (new_ExpDecaySample 1 5 0 empty_date_heap)))) / 1000)))
      (map fst (ed_values (ed_update 3600001 0 7 (new_ExpDecaySample 1 5 0 empty_date_heap))) @
       [priority_div (exp (real_of_int (7200002 - getTime (heap (ed_update 3600001 0 7 (new_ExpDecaySample 1 5 0 empty_date_heap)))
          (t0 (ed_update 3600001 0 7 (new_ExpDecaySample 1 5 0 empty_date_heap)))) / 1000 *
          ed_alpha (ed_update 3600001 0 7 (new_ExpDecaySample 1 5 0 empty_date_heap))))
        \<lfloor>0 * real (Suc (sample_count (ed_update 3600001 0 7 (new_ExpDecaySample 1 5 0 empty_date_heap))))\<rfloor>])"
proof (rule ed_rescale_unaliased)
  let ?s = "ed_update 3600001 0 7 (new_ExpDecaySample 1 5 0 empty_date_heap)"
  have f: "t0 ?s = 1" "t1 ?s = 0" "date_lim (heap ?s) = 2" "getTime (heap ?s) 0 = 7200001"
    by (simp_all add: ed_update_split ed_rescale_def uniform_size_def rescaleThreshold_def
        new_ExpDecaySample_def empty_date_heap_def date_alloc_def getTime_def setTime_def Let_def)
  then show "t0 ?s \<noteq> t1 ?s" "ed_wf ?s" "getTime (heap ?s) (t1 ?s) < 7200002"
    by (simp_all add: ed_wf_def)
qed

text \<open>
  C8. The tiebreak divisor is \<open>Math.floor(Math.random() * count)\<close>, which is 0 with
  positive probability, and then the key is \<open>Infinity\<close>: the new key is
  \<open>Infinity\<close> exactly when \<open>u * count < 1\<close>, so the first update always stores
  \<open>Infinity\<close>. The spec draws the divisor from \<open>(0, count]\<close>.
\<close>

theorem ed_update_key_infinity:
  assumes "valid_draw u"
  shows "(fst (last (ed_values (ed_update now u i s))) = Infinity) \<longleftrightarrow>
         u * real (Suc (sample_count s)) < 1"
proof -
  have "0 \<le> u * real (Suc (sample_count s))" using assms by (simp add: valid_draw_def)
  then have "(\<lfloor>u * real (Suc (sample_count s))\<rfloor> = 0) = (u * real (Suc (sample_count s)) < 1)"
    by linarith
  moreover have "\<And>k c. (priority_scale k c = Infinity) = (k = Infinity)"
    by (case_tac k) simp_all
  ultimately show ?thesis
    by (simp add: ed_update_split ed_rescale_def uniform_size_def priority_div_def Let_def)
qed

theorem ed_update_key_infinity_witness:
  "fst (last (ed_values (ed_update 10 (1 / 2) 4 (new_ExpDecaySample 1 5 0 empty_date_heap))))
     = Infinity"
proof -
  have "valid_draw (1 / 2)" by (simp add: valid_draw_def)
  from ed_update_key_infinity [OF this, where now = 10 and i = 4
      and s = "new_ExpDecaySample 1 5 0 empty_date_heap"]
  show ?thesis by simp
qed

text \<open>
  C9. \<open>clear()\<close> resets the count to 0 and every statistic reads 0 afterwards, as
  the spec requires; but it moves the rescale deadline \<open>#t1\<close> one hour past its old
  value instead of to one hour after the new origin, and keeps \<open>#values\<close>.
\<close>

theorem ed_clear_behaviour:
  assumes "ed_wf s"
  shows "sample_count (ed_clear now s) = 0 \<and>
    uniform_max (ed_clear now s) = 0 \<and> uniform_min (ed_clear now s) = 0 \<and>
    uniform_mean (ed_clear now s) = 0 \<and> uniform_variance (ed_clear now s) = 0 \<and>
    getTime (heap (ed_clear now s)) (t1 (ed_clear now s)) = getTime (heap s) (t1 s) + rescaleThreshold \<and>
    ed_values (ed_clear now s) = ed_values s"
  using assms empty_statistics [of "ed_clear now s"] ed_clear_deadline [of s now]
  by (simp add: ed_wf_def)

theorem ed_clear_behaviour_witness:
  "sample_count (ed_clear 5 (new_ExpDecaySample 1 5 0 empty_date_heap)) = 0 \<and>
    uniform_max (ed_clear 5 (new_ExpDecaySample 1 5 0 empty_date_heap)) = 0 \<and>
    uniform_min (ed_clear 5 (new_ExpDecaySample 1 5 0 empty_date_heap)) = 0 \<and>
    uniform_mean (ed_clear 5 (new_ExpDecaySample 1 5 0 empty_date_heap)) = 0 \<and>
    uniform_variance (ed_clear 5 (new_ExpDecaySample 1 5 0 empty_date_heap)) = 0 \<and>
    getTime (heap (ed_clear 5 (new_ExpDecaySample 1 5 0 empty_date_heap)))
      (t1 (ed_clear 5 (new_ExpDecaySample 1 5 0 empty_date_heap))) =
      getTime (heap (new_ExpDecaySample 1 5 0 empty_date_heap)) (t1 (new_ExpDecaySample 1 5 0 empty_date_heap))
      + rescaleThreshold \<and>
    ed_values (ed_clear 5 (new_ExpDecaySample 1 5 0 empty_date_heap)) =
      ed_values (new_ExpDecaySample 1 5 0 empty_date_heap)"
  by (rule ed_clear_behaviour [OF ed_wf_new])

end
