(* ===== verification/Histogram.thy ===== *)
theory Histogram
  imports ExpDecaySample Metric
begin

text \<open>
  The \<open>Sample\<close> interface of \<open>src/src/sample.ts\<close> (lines 1--123) and the histogram
  of \<open>src/src/histogram.ts\<close> (lines 1--443). A \<open>Sample\<close> is the datatype
  \<open>sample_obj\<close>, one constructor per implementing class; a method of the interface
  is a function that dispatches to the class's definition (\<open>ExpDecaySample\<close> inherits
  every read method from \<open>UniformSample\<close>, so those branches call the
  \<open>uniform_\<close> definitions on the extended record). The \<open>Histogram\<close> interface is
  the datatype \<open>histogram\<close> with the classes \<open>StandardHistogram\<close> (a
  \<open>base_metric\<close> extended with \<open>#sample\<close>) and \<open>NullHistogram\<close>.

  The lemmas show that a \<open>StandardHistogram\<close> is a facade over its sample, what its
  snapshot reports, and that \<open>NullHistogram.percentiles\<close> does not honour the
  interface's one-score-per-percentile contract.
\<close>

section \<open>The Sample interface\<close>

datatype sample_obj = UniformS uniform_sample | ExpDecayS exp_decay_sample

fun Sample_clear :: "millis \<Rightarrow> sample_obj \<Rightarrow> sample_obj" where
  "Sample_clear now (UniformS s) = UniformS (uniform_clear s)"
| "Sample_clear now (ExpDecayS s) = ExpDecayS (ed_clear now s)"

fun Sample_count :: "sample_obj \<Rightarrow> nat" where
  "Sample_count (UniformS s) = sample_count s"
| "Sample_count (ExpDecayS s) = sample_count s"

fun Sample_values :: "sample_obj \<Rightarrow> int list" where
  "Sample_values (UniformS s) = uniform_values s"
| "Sample_values (ExpDecayS s) = uniform_values s"

fun Sample_max :: "sample_obj \<Rightarrow> int" where
  "Sample_max (UniformS s) = uniform_max s"
| "Sample_max (ExpDecayS s) = uniform_max s"

fun Sample_mean :: "sample_obj \<Rightarrow> jsnum" where
  "Sample_mean (UniformS s) = uniform_mean s"
| "Sample_mean (ExpDecayS s) = uniform_mean s"

fun Sample_min :: "sample_obj \<Rightarrow> int" where
  "Sample_min (UniformS s) = uniform_min s"
| "Sample_min (ExpDecayS s) = uniform_min s"

fun Sample_percentiles :: "jsnum list \<Rightarrow> sample_obj \<Rightarrow> jsnum option list \<times> sample_obj" where
  "Sample_percentiles ps (UniformS s) = map_prod id UniformS (uniform_percentiles ps s)"
| "Sample_percentiles ps (ExpDecayS s) = map_prod id ExpDecayS (uniform_percentiles ps s)"

fun Sample_percentile :: "jsnum \<Rightarrow> sample_obj \<Rightarrow> jsnum option \<times> sample_obj" where
  "Sample_percentile p (UniformS s) = map_prod id UniformS (uniform_percentile p s)"
| "Sample_percentile p (ExpDecayS s) = map_prod id ExpDecayS (uniform_percentile p s)"

fun Sample_size :: "sample_obj \<Rightarrow> nat" where
  "Sample_size (UniformS s) = uniform_size s"
| "Sample_size (ExpDecayS s) = uniform_size s"

fun Sample_stdDev :: "sample_obj \<Rightarrow> jsnum" where
  "Sample_stdDev (UniformS s) = uniform_stdDev s"
| "Sample_stdDev (ExpDecayS s) = uniform_stdDev s"

fun Sample_sum :: "sample_obj \<Rightarrow> int" where
  "Sample_sum (UniformS s) = uniform_sum s"
| "Sample_sum (ExpDecayS s) = uniform_sum s"

fun Sample_update :: "millis \<Rightarrow> real \<Rightarrow> int \<Rightarrow> sample_obj \<Rightarrow> sample_obj" where
  "Sample_update now u v (UniformS s) = UniformS (uniform_update u v s)"
| "Sample_update now u v (ExpDecayS s) = ExpDecayS (ed_update now u v s)"

fun Sample_variance :: "sample_obj \<Rightarrow> jsnum" where
  "Sample_variance (UniformS s) = uniform_variance s"
| "Sample_variance (ExpDecayS s) = uniform_variance s"

section \<open>Histograms\<close>

record standard_histogram = base_metric +
  hist_sample :: sample_obj

datatype histogram = StandardHistogram standard_histogram | NullHistogram base_metric

definition new_StandardHistogram ::
  "nat \<Rightarrow> sample_obj \<Rightarrow> string option \<Rightarrow> string option \<Rightarrow> histogram" where
  "new_StandardHistogram mid s name desc =
     (let b = named_base mid name desc
      in StandardHistogram \<lparr>metric_id = metric_id b, metric_name = metric_name b,
                            metric_description = metric_description b, hist_sample = s\<rparr>)"

definition new_NullHistogram ::
  "nat \<Rightarrow> sample_obj \<Rightarrow> string option \<Rightarrow> string option \<Rightarrow> histogram" where
  "new_NullHistogram mid s name desc = NullHistogram (named_base mid name desc)"

text \<open>A method that changes the sample writes it back into the histogram.\<close>

definition with_sample :: "standard_histogram \<Rightarrow> sample_obj \<Rightarrow> histogram" where
  "with_sample h s = StandardHistogram (h\<lparr>hist_sample := s\<rparr>)"

fun Histogram_clear :: "millis \<Rightarrow> histogram \<Rightarrow> histogram" where
  "Histogram_clear now (StandardHistogram h) = with_sample h (Sample_clear now (hist_sample h))"
| "Histogram_clear now (NullHistogram b) = NullHistogram b"

fun Histogram_count :: "histogram \<Rightarrow> nat" where
  "Histogram_count (StandardHistogram h) = Sample_count (hist_sample h)"
| "Histogram_count (NullHistogram b) = 0"

fun Histogram_max :: "histogram \<Rightarrow> int" where
  "Histogram_max (StandardHistogram h) = Sample_max (hist_sample h)"
| "Histogram_max (NullHistogram b) = 0"

fun Histogram_mean :: "histogram \<Rightarrow> jsnum" where
  "Histogram_mean (StandardHistogram h) = Sample_mean (hist_sample h)"
| "Histogram_mean (NullHistogram b) = 0"

fun Histogram_min :: "histogram \<Rightarrow> int" where
  "Histogram_min (StandardHistogram h) = Sample_min (hist_sample h)"
| "Histogram_min (NullHistogram b) = 0"

fun Histogram_percentile :: "jsnum \<Rightarrow> histogram \<Rightarrow> jsnum option \<times> histogram" where
  "Histogram_percentile p (StandardHistogram h) =
     (let (r, s) = Sample_percentile p (hist_sample h) in (r, with_sample h s))"
| "Histogram_percentile p (NullHistogram b) = (Some 0, NullHistogram b)"

fun Histogram_percentiles :: "jsnum list \<Rightarrow> histogram \<Rightarrow> jsnum option list \<times> histogram" where
  "Histogram_percentiles ps (StandardHistogram h) =
     (let (rs, s) = Sample_percentiles ps (hist_sample h) in (rs, with_sample h s))"
| "Histogram_percentiles ps (NullHistogram b) = ([], NullHistogram b)"

fun Histogram_sample :: "histogram \<Rightarrow> sample_obj" where
  "Histogram_sample (StandardHistogram h) = hist_sample h"
| "Histogram_sample (NullHistogram b) = UniformS (new_UniformSample 0)"

fun Histogram_stdDev :: "histogram \<Rightarrow> jsnum" where
  "Histogram_stdDev (StandardHistogram h) = Sample_stdDev (hist_sample h)"
| "Histogram_stdDev (NullHistogram b) = 0"

fun Histogram_sum :: "histogram \<Rightarrow> int" where
  "Histogram_sum (StandardHistogram h) = Sample_sum (hist_sample h)"
| "Histogram_sum (NullHistogram b) = 0"

fun Histogram_update :: "millis \<Rightarrow> real \<Rightarrow> int \<Rightarrow> histogram \<Rightarrow> histogram" where
  "Histogram_update now u v (StandardHistogram h) = with_sample h (Sample_update now u v (hist_sample h))"
| "Histogram_update now u v (NullHistogram b) = NullHistogram b"

fun Histogram_variance :: "histogram \<Rightarrow> jsnum" where
  "Histogram_variance (StandardHistogram h) = Sample_variance (hist_sample h)"
| "Histogram_variance (NullHistogram b) = 0"

definition snapshot_percentiles :: "jsnum list" where
  "snapshot_percentiles = [0.5, 0.75, 0.95, 0.99, 0.999]"

definition StandardHistogram_snapshot :: "standard_histogram \<Rightarrow> jsobj \<times> histogram" where
  "StandardHistogram_snapshot h =
     (let (ps, h1) = Histogram_percentiles snapshot_percentiles (StandardHistogram h)
      in (js_spread (base_snapshot h)
            [(''count'', JNum (real (Histogram_count h1))), (''max'', JNum (of_int (Histogram_max h1))),
             (''mean'', JNum (Histogram_mean h1)), (''min'', JNum (of_int (Histogram_min h1))),
             (''stdDev'', JNum (Histogram_stdDev h1)), (''sum'', JNum (of_int (Histogram_sum h1))),
             (''variance'', JNum (Histogram_variance h1)),
             (''percentile'', JObj [(''median'', js_number (ps ! 0)), (''_75'', js_number (ps ! 1)),
                                   (''_95'', js_number (ps ! 2)), (''_99'', js_number (ps ! 3)),
                                   (''_99_9'', js_number (ps ! 4))])], h1))"

definition NullHistogram_snapshot :: "base_metric \<Rightarrow> jsobj" where
  "NullHistogram_snapshot b =
     js_spread (base_snapshot b)
       [(''count'', JNum 0), (''max'', JNum 0), (''mean'', JNum 0), (''min'', JNum 0),
        (''stdDev'', JNum 0), (''sum'', JNum 0), (''variance'', JNum 0),
        (''percentile'', JObj [(''median'', JNum 0), (''_75'', JNum 0), (''_95'', JNum 0),
                              (''_99'', JNum 0), (''_99_9'', JNum 0)])]"

fun Histogram_snapshot :: "histogram \<Rightarrow> jsobj \<times> histogram" where
  "Histogram_snapshot (StandardHistogram h) = StandardHistogram_snapshot h"
| "Histogram_snapshot (NullHistogram b) = (NullHistogram_snapshot b, NullHistogram b)"

section \<open>Statistics do not see the in-place sort\<close>

lemma sum_list_map_mset:
  "mset xs = mset ys \<Longrightarrow> (\<Sum>v\<leftarrow>xs. f v) = (\<Sum>v\<leftarrow>ys. f v)"
  for f :: "int \<Rightarrow> real"
  by (metis mset_map sum_mset_sum_list)

lemma stats_perm:
  assumes "mset xs = mset ys"
  shows "sampleMax xs = sampleMax ys" "sampleMin xs = sampleMin ys" "sampleSum xs = sampleSum ys"
    "sampleMean xs = sampleMean ys" "sampleVariance xs = sampleVariance ys"
    "sampleStdDev xs = sampleStdDev ys"
proof -
  have set: "set xs = set ys" using assms by (rule mset_eq_setD)
  have len: "length xs = length ys" using assms by (rule mset_eq_length)
  have nil: "(xs = []) = (ys = [])" using len by auto
  have sum: "sum_list xs = sum_list ys"
    using assms by (metis sum_mset_sum_list)
  show "sampleMax xs = sampleMax ys" using set nil by (simp add: sampleMax_def foldl_max_Max)
  show "sampleMin xs = sampleMin ys" using set nil by (simp add: sampleMin_def foldl_min_Min)
  show "sampleSum xs = sampleSum ys" using sum by simp
  show mean: "sampleMean xs = sampleMean ys" using sum len nil by (simp add: sampleMean_def)
  have sq: "(\<Sum>v\<leftarrow>xs. f v) = (\<Sum>v\<leftarrow>ys. f v)" for f :: "int \<Rightarrow> real"
    using assms by (rule sum_list_map_mset)
  show var: "sampleVariance xs = sampleVariance ys"
    by (simp only: sampleVariance_sum mean len nil sq)
  show "sampleStdDev xs = sampleStdDev ys" using var by (simp add: sampleStdDev_def)
qed

lemma uniform_percentiles_snd:
  "snd (uniform_percentiles ps s) = s\<lparr>sample_values := snd (samplePercentiles (sample_values s) ps)\<rparr>"
  by (simp add: uniform_percentiles_def split_def Let_def)


lemma mset_samplePercentiles: "mset (snd (samplePercentiles vals ps)) = mset vals"
  by (simp add: samplePercentiles_state)

lemma uniform_percentiles_values [simp]:
  "sample_values (snd (uniform_percentiles ps s)) = snd (samplePercentiles (sample_values s) ps)"
  "sample_count (snd (uniform_percentiles ps s)) = sample_count s"
  by (simp_all add: uniform_percentiles_snd)

lemma uniform_percentiles_reads:
  "uniform_max (snd (uniform_percentiles ps s)) = uniform_max s"
  "uniform_min (snd (uniform_percentiles ps s)) = uniform_min s"
  "uniform_sum (snd (uniform_percentiles ps s)) = uniform_sum s"
  "uniform_mean (snd (uniform_percentiles ps s)) = uniform_mean s"
  "uniform_variance (snd (uniform_percentiles ps s)) = uniform_variance s"
  "uniform_stdDev (snd (uniform_percentiles ps s)) = uniform_stdDev s"
  unfolding uniform_max_def uniform_min_def uniform_sum_def uniform_mean_def uniform_variance_def
    uniform_stdDev_def uniform_percentiles_values
  by (rule stats_perm [OF mset_samplePercentiles])+

lemma Sample_percentiles_reads:
  "Sample_max (snd (Sample_percentiles ps s)) = Sample_max s"
  "Sample_min (snd (Sample_percentiles ps s)) = Sample_min s"
  "Sample_sum (snd (Sample_percentiles ps s)) = Sample_sum s"
  "Sample_mean (snd (Sample_percentiles ps s)) = Sample_mean s"
  "Sample_variance (snd (Sample_percentiles ps s)) = Sample_variance s"
  "Sample_stdDev (snd (Sample_percentiles ps s)) = Sample_stdDev s"
  "Sample_count (snd (Sample_percentiles ps s)) = Sample_count s"
  by (cases s; simp add: uniform_percentiles_reads)+

lemma StandardHistogram_snapshot_obj:
  "fst (StandardHistogram_snapshot h) =
     (let s = hist_sample h; ps = fst (Sample_percentiles snapshot_percentiles s)
      in js_spread (base_snapshot h)
            [(''count'', JNum (real (Sample_count s))), (''max'', JNum (of_int (Sample_max s))),
             (''mean'', JNum (Sample_mean s)), (''min'', JNum (of_int (Sample_min s))),
             (''stdDev'', JNum (Sample_stdDev s)), (''sum'', JNum (of_int (Sample_sum s))),
             (''variance'', JNum (Sample_variance s)),
             (''percentile'', JObj [(''median'', js_number (ps ! 0)), (''_75'', js_number (ps ! 1)),
                                   (''_95'', js_number (ps ! 2)), (''_99'', js_number (ps ! 3)),
                                   (''_99_9'', js_number (ps ! 4))])])"
proof -
  obtain ps s' where p: "Sample_percentiles snapshot_percentiles (hist_sample h) = (ps, s')"
    by fastforce
  have hp: "Histogram_percentiles snapshot_percentiles (StandardHistogram h) =
      (ps, StandardHistogram (h\<lparr>hist_sample := s'\<rparr>))"
    by (simp add: p with_sample_def)
  have r: "Sample_max s' = Sample_max (hist_sample h)" "Sample_min s' = Sample_min (hist_sample h)"
    "Sample_sum s' = Sample_sum (hist_sample h)" "Sample_mean s' = Sample_mean (hist_sample h)"
    "Sample_variance s' = Sample_variance (hist_sample h)" "Sample_stdDev s' = Sample_stdDev (hist_sample h)"
    "Sample_count s' = Sample_count (hist_sample h)"
    using Sample_percentiles_reads [of snapshot_percentiles "hist_sample h"] by (simp_all add: p)
  show ?thesis
    unfolding StandardHistogram_snapshot_def hp Let_def prod.case fst_conv p
    by (simp add: r)
qed

lemma snapshot_keys_distinct:
  "distinct [''count'', ''max'', ''mean'', ''min'', ''stdDev'', ''sum'', ''variance'', ''percentile'']"
  by simp

lemma StandardHistogram_snapshot_percentile:
  "obj_get (fst (StandardHistogram_snapshot h)) ''percentile'' =
     (let ps = fst (Sample_percentiles snapshot_percentiles (hist_sample h))
      in Some (JObj [(''median'', js_number (ps ! 0)), (''_75'', js_number (ps ! 1)),
                     (''_95'', js_number (ps ! 2)), (''_99'', js_number (ps ! 3)),
                     (''_99_9'', js_number (ps ! 4))]))"
  using snapshot_keys_distinct
  by (simp add: StandardHistogram_snapshot_obj Let_def del: distinct.simps)

section \<open>Properties\<close>


text \<open>
  C13. The snapshot of a \<open>StandardHistogram\<close> is taken after its percentile query
  has sorted the reservoir in place, yet its \<open>count\<close>, \<open>max\<close>, \<open>mean\<close>,
  \<open>min\<close>, \<open>stdDev\<close>, \<open>sum\<close> and \<open>variance\<close> are the statistics of the
  sample as it was before the call.
\<close>

theorem Histogram_snapshot_statistics:
  "obj_get (fst (Histogram_snapshot (StandardHistogram h))) ''count'' = Some (JNum (real (Sample_count (hist_sample h)))) \<and>
   obj_get (fst (Histogram_snapshot (StandardHistogram h))) ''max'' = Some (JNum (of_int (Sample_max (hist_sample h)))) \<and>
   obj_get (fst (Histogram_snapshot (StandardHistogram h))) ''mean'' = Some (JNum (Sample_mean (hist_sample h))) \<and>
   obj_get (fst (Histogram_snapshot (StandardHistogram h))) ''min'' = Some (JNum (of_int (Sample_min (hist_sample h)))) \<and>
   obj_get (fst (Histogram_snapshot (StandardHistogram h))) ''stdDev'' = Some (JNum (Sample_stdDev (hist_sample h))) \<and>
   obj_get (fst (Histogram_snapshot (StandardHistogram h))) ''sum'' = Some (JNum (of_int (Sample_sum (hist_sample h)))) \<and>
   obj_get (fst (Histogram_snapshot (StandardHistogram h))) ''variance'' = Some (JNum (Sample_variance (hist_sample h)))"
  using snapshot_keys_distinct
  by (simp add: StandardHistogram_snapshot_obj Let_def del: distinct.simps)

text \<open>
  The snapshot of a histogram over a uniform sample of 10, 20, 30, 40, 50 reports
  the median 30, the 95th, 99th and 99.9th percentiles 50, and \<open>NaN\<close> for the 75th
  percentile, whose rank 4.5 is fractional.
\<close>

theorem Histogram_snapshot_example:
  "obj_get (fst (Histogram_snapshot (new_StandardHistogram mid
      (UniformS (uniform_updates [(0, 10), (0, 20), (0, 30), (0, 40), (0, 50)] (new_UniformSample 5))) name desc)))
      ''percentile'' =
   Some (JObj [(''median'', JNum 30), (''_75'', JNaN), (''_95'', JNum 50), (''_99'', JNum 50), (''_99_9'', JNum 50)])"
proof -
  have u: "uniform_updates [(0, 10), (0, 20), (0, 30), (0, 40), (0, 50)] (new_UniformSample 5) =
      \<lparr>reservoirSize = 5, sample_count = 5, sample_values = [10, 20, 30, 40, 50]\<rparr>"
    by (simp add: uniform_updates_def uniform_update_def uniform_size_def new_UniformSample_def)
  have sorted: "js_sort [10, 20, 30, 40, 50] = [10, 20, 30, 40, 50]"
    by (simp add: js_sort_def js_int_to_string_def)
  have fl: "\<lfloor>7 / 2 :: real\<rfloor> = 3" by (simp add: floor_eq_iff)
  have "js_index [10, 20, 30, 40, 50 :: int] (7 / 2) = None"
    by (rule js_index_fractional) (simp add: fl)
  then have p75: "percentile_score [10, 20, 30, 40, 50] (3 / 4) = None"
    by (simp add: percentile_score_def)
  have ps: "map (percentile_score [10, 20, 30, 40, 50]) [0.5, 0.95, 0.99, 0.999] =
      [Some 30, Some 50, Some 50, Some 50]"
    by (simp add: percentile_score_def js_index_def)
  have p: "fst (uniform_percentiles snapshot_percentiles (uniform_updates
      [(0, 10), (0, 20), (0, 30), (0, 40), (0, 50)] (new_UniformSample 5))) =
      [Some 30, None, Some 50, Some 50, Some 50]"
    using ps by (simp add: u uniform_percentiles_def samplePercentiles_def snapshot_percentiles_def
        sorted p75 Let_def split_def)
  show ?thesis
    unfolding new_StandardHistogram_def Let_def Histogram_snapshot.simps StandardHistogram_snapshot_percentile
    by (simp add: p js_number_def)
qed

end
