(* ===== verification/EWMA.thy ===== *)
theory EWMA
  imports Prelude
begin

text \<open>
  The exponentially weighted moving average of \<open>src/unnamed/part_002\<close> (the module
  \<open>ewma.ts\<close>, lines 198--396): the class \<open>StandardEWMA\<close> and the factories
  \<open>newEWMA\<close>, \<open>newEWMA1\<close>, \<open>newEWMA5\<close> and \<open>newEWMA15\<close>. The object is the record
  \<open>standard_ewma\<close> with the fields \<open>#alpha\<close>, \<open>#period\<close>, \<open>#ts\<close>, \<open>#ewma\<close>,
  \<open>#sample\<close> and \<open>#init\<close>. \<open>Date.now()\<close> is the parameter \<open>now\<close>.

  \<open>rate()\<close> and \<open>update()\<close> share one catch-up sequence (the \<open>!#init\<close> block, the
  \<open>periods >= 1\<close> block and the \<open>while\<close> loop), modelled once as \<open>ewma_tick\<close>;
  the \<open>while\<close> loop, which decrements a real \<open>periods\<close> by one per iteration, is the
  function \<open>ewma_idle\<close>, whose termination measure is \<open>\<lceil>periods\<rceil>\<close>.

  The lemmas give the closed forms of the loop and of the catch-up (the rate decays by
  \<open>(1 - alpha)^k\<close> over \<open>k\<close> whole periods, the timestamp advances by whole periods),
  the catch-up bound \<open>0 \<le> now - ts < period\<close>, the idempotence of \<open>rate()\<close>, the
  bucket behaviour of \<open>update()\<close>, and the fact that \<open>rate()\<close> never performs the
  first commitment, which only \<open>update()\<close> does.
\<close>

record standard_ewma =
  ewma_alpha :: real
  ewma_period :: real
  ewma_ts :: real
  ewma_rate :: real
  ewma_sample :: real
  ewma_init :: bool

definition new_StandardEWMA :: "real \<Rightarrow> real \<Rightarrow> real \<Rightarrow> standard_ewma" where
  "new_StandardEWMA alpha period now =
     \<lparr>ewma_alpha = alpha, ewma_period = period, ewma_ts = now, ewma_rate = 0, ewma_sample = 0,
      ewma_init = False\<rparr>"

definition newEWMA :: "real \<Rightarrow> real \<Rightarrow> standard_ewma" where
  "newEWMA alpha now = new_StandardEWMA alpha 5000 now"

definition newEWMA1 :: "real \<Rightarrow> standard_ewma" where
  "newEWMA1 now = new_StandardEWMA (1 - exp (- 5 / 60 / 1)) 5000 now"

definition newEWMA5 :: "real \<Rightarrow> standard_ewma" where
  "newEWMA5 now = new_StandardEWMA (1 - exp (- 5 / 60 / 5)) 5000 now"

definition newEWMA15 :: "real \<Rightarrow> standard_ewma" where
  "newEWMA15 now = new_StandardEWMA (1 - exp (- 5 / 60 / 15)) 5000 now"

text \<open>The idle-period loop: \<open>while (periods >= 1) { ewma = (1 - alpha) * ewma; ts += period; periods -= 1 }\<close>.\<close>

function ewma_idle :: "real \<Rightarrow> standard_ewma \<Rightarrow> standard_ewma" where
  "ewma_idle periods e =
     (if periods \<ge> 1
      then ewma_idle (periods - 1)
             (e\<lparr>ewma_rate := (1 - ewma_alpha e) * ewma_rate e, ewma_ts := ewma_ts e + ewma_period e\<rparr>)
      else e)"
  by pat_completeness auto
termination
proof (relation "measure (\<lambda>(periods, e). nat \<lceil>periods\<rceil>)")
  fix periods :: real and e :: standard_ewma
  assume "1 \<le> periods"
  then show "((periods - 1, e\<lparr>ewma_rate := (1 - ewma_alpha e) * ewma_rate e,
      ewma_ts := ewma_ts e + ewma_period e\<rparr>), periods, e) \<in> measure (\<lambda>(periods, e). nat \<lceil>periods\<rceil>)"
    by simp
qed simp

declare ewma_idle.simps [simp del]

text \<open>
  The catch-up shared by \<open>rate()\<close> (lines 324--346) and \<open>update()\<close> (lines
  370--392): the first commitment when not yet initialised, one decayed commitment
  of the pending sample, then the idle loop.
\<close>

text \<open>One iteration of the catch-up loop's body: decay the rate, advance the tick.\<close>

definition ewma_decay_step :: "standard_ewma \<Rightarrow> standard_ewma" where
  "ewma_decay_step e =
     e\<lparr>ewma_rate := (1 - ewma_alpha e) * ewma_rate e, ewma_ts := ewma_ts e + ewma_period e\<rparr>"

definition ewma_tick :: "real \<Rightarrow> standard_ewma \<Rightarrow> standard_ewma" where
  "ewma_tick periods e =
     (let seconds = ewma_period e / 1000;
          (e1, p1) = (if \<not> ewma_init e
                      then (e\<lparr>ewma_rate := ewma_sample e / seconds, ewma_ts := ewma_ts e + ewma_period e,
                              ewma_init := True, ewma_sample := 0\<rparr>, periods - 1)
                      else (e, periods));
          (e2, p2) = (if p1 \<ge> 1
                      then (e1\<lparr>ewma_rate := ewma_alpha e1 * (ewma_sample e1 / seconds)
                                             + (1 - ewma_alpha e1) * ewma_rate e1,
                               ewma_sample := 0, ewma_ts := ewma_ts e1 + ewma_period e1\<rparr>, p1 - 1)
                      else (e1, p1))
      in ewma_idle p2 e2)"

definition EWMA_rate :: "real \<Rightarrow> standard_ewma \<Rightarrow> real \<times> standard_ewma" where
  "EWMA_rate now e =
     (let periods = (now - ewma_ts e) / ewma_period e in
      if periods < 1 \<or> \<not> ewma_init e then (ewma_rate e, e)
      else let e' = ewma_tick periods e in (ewma_rate e', e'))"

definition EWMA_update :: "real \<Rightarrow> real \<Rightarrow> standard_ewma \<Rightarrow> standard_ewma" where
  "EWMA_update now i e =
     (let periods = (now - ewma_ts e) / ewma_period e in
      if \<not> ewma_init e \<and> periods < 1 then e\<lparr>ewma_sample := ewma_sample e + i, ewma_rate := 0\<rparr>
      else if periods < 1 then e\<lparr>ewma_sample := ewma_sample e + i\<rparr>
      else let e' = ewma_tick periods e in e'\<lparr>ewma_sample := ewma_sample e' + i\<rparr>)"

section \<open>The idle loop\<close>

lemma ewma_idle_closed:
  "ewma_idle p e =
     e\<lparr>ewma_rate := (1 - ewma_alpha e) ^ nat \<lfloor>p\<rfloor> * ewma_rate e,
       ewma_ts := ewma_ts e + real (nat \<lfloor>p\<rfloor>) * ewma_period e\<rparr>"
proof (induction p e rule: ewma_idle.induct)
  case (1 p e)
  show ?case
  proof (cases "1 \<le> p")
    case True
    have k: "nat \<lfloor>p\<rfloor> = Suc (nat \<lfloor>p - 1\<rfloor>)"
      using True by linarith
    show ?thesis
      using "1.IH" [OF True] True
      by (simp add: ewma_idle.simps [of p e] k algebra_simps)
  next
    case False
    then have "nat \<lfloor>p\<rfloor> = 0" by linarith
    with False show ?thesis by (simp add: ewma_idle.simps [of p e])
  qed
qed

lemma ewma_idle_fields [simp]:
  "ewma_alpha (ewma_idle p e) = ewma_alpha e"
  "ewma_period (ewma_idle p e) = ewma_period e"
  "ewma_sample (ewma_idle p e) = ewma_sample e"
  "ewma_init (ewma_idle p e) = ewma_init e"
  by (simp_all add: ewma_idle_closed)

section \<open>The catch-up\<close>

lemma ewma_tick_fields [simp]:
  "ewma_alpha (ewma_tick p e) = ewma_alpha e"
  "ewma_period (ewma_tick p e) = ewma_period e"
  "ewma_init (ewma_tick p e) = True"
  by (simp_all add: ewma_tick_def Let_def)

lemma ewma_tick_sample: "1 \<le> p \<Longrightarrow> ewma_sample (ewma_tick p e) = 0"
  by (simp add: ewma_tick_def Let_def)

lemma ewma_tick_ts:
  assumes "1 \<le> p"
  shows "ewma_tick p e = ewma_tick p e\<lparr>ewma_ts := ewma_ts e + of_int \<lfloor>p\<rfloor> * ewma_period e\<rparr>"
proof -
  have "0 \<le> \<lfloor>p - 1\<rfloor>" using assms by linarith
  then have a: "real (nat \<lfloor>p - 1\<rfloor>) = of_int \<lfloor>p\<rfloor> - 1" by simp
  have b: "real (nat \<lfloor>p - 1 - 1\<rfloor>) = of_int \<lfloor>p\<rfloor> - 2" if "1 \<le> p - 1"
  proof -
    have "0 \<le> \<lfloor>p - 1 - 1\<rfloor>" using that by linarith
    then show ?thesis by simp
  qed
  have c: "\<lfloor>p\<rfloor> = 1" if "\<not> 2 \<le> p" using that assms by linarith
  show ?thesis
    using assms a b c by (simp add: ewma_tick_def ewma_idle_closed Let_def algebra_simps)
qed

lemma ewma_tick_ts_eq:
  "1 \<le> p \<Longrightarrow> ewma_ts (ewma_tick p e) = ewma_ts e + of_int \<lfloor>p\<rfloor> * ewma_period e"
  by (subst ewma_tick_ts) simp_all

lemma ewma_tick_rate:
  assumes "1 \<le> p"
  shows "ewma_rate (ewma_tick p e) =
    (1 - ewma_alpha e) ^ (nat \<lfloor>p\<rfloor> - 1) *
      (if ewma_init e
       then ewma_alpha e * (ewma_sample e / (ewma_period e / 1000)) + (1 - ewma_alpha e) * ewma_rate e
       else ewma_sample e / (ewma_period e / 1000))"
proof (cases "ewma_init e")
  case True
  have "nat \<lfloor>p - 1\<rfloor> = nat \<lfloor>p\<rfloor> - 1" using assms by linarith
  with True assms show ?thesis by (simp add: ewma_tick_def ewma_idle_closed Let_def)
next
  case False
  show ?thesis
  proof (cases "1 \<le> p - 1")
    case True
    have "nat \<lfloor>p - 1 - 1\<rfloor> = nat \<lfloor>p\<rfloor> - 1 - 1" "nat \<lfloor>p\<rfloor> - 1 = Suc (nat \<lfloor>p\<rfloor> - 1 - 1)"
      using True by linarith+
    with False True show ?thesis by (simp add: ewma_tick_def ewma_idle_closed Let_def)
  next
    case p: False
    have "nat \<lfloor>p - 1\<rfloor> = 0" "nat \<lfloor>p\<rfloor> - 1 = 0" using p assms by linarith+
    with False p show ?thesis by (simp add: ewma_tick_def ewma_idle_closed Let_def)
  qed
qed

lemma ewma_tick_bound:
  assumes "0 < ewma_period e" and "1 \<le> (now - ewma_ts e) / ewma_period e"
  shows "ewma_ts (ewma_tick ((now - ewma_ts e) / ewma_period e) e) \<le> now \<and>
         now - ewma_ts (ewma_tick ((now - ewma_ts e) / ewma_period e) e) < ewma_period e"
proof -
  let ?p = "(now - ewma_ts e) / ewma_period e"
  have eq: "?p * ewma_period e = now - ewma_ts e" using assms(1) by simp
  have "of_int \<lfloor>?p\<rfloor> * ewma_period e \<le> ?p * ewma_period e"
    using assms(1) by (intro mult_right_mono) linarith+
  moreover have "?p * ewma_period e < (of_int \<lfloor>?p\<rfloor> + 1) * ewma_period e"
    using assms(1) by (intro mult_strict_right_mono) linarith+
  ultimately show ?thesis
    using assms eq by (simp add: ewma_tick_ts_eq algebra_simps)
qed

lemma EWMA_rate_cases:
  "EWMA_rate now e =
     (if (now - ewma_ts e) / ewma_period e < 1 \<or> \<not> ewma_init e then (ewma_rate e, e)
      else (ewma_rate (ewma_tick ((now - ewma_ts e) / ewma_period e) e),
            ewma_tick ((now - ewma_ts e) / ewma_period e) e))"
  by (simp add: EWMA_rate_def Let_def)

lemma new_StandardEWMA_fields [simp]:
  "ewma_alpha (new_StandardEWMA alpha period now) = alpha"
  "ewma_period (new_StandardEWMA alpha period now) = period"
  "ewma_ts (new_StandardEWMA alpha period now) = now"
  "ewma_rate (new_StandardEWMA alpha period now) = 0"
  "ewma_sample (new_StandardEWMA alpha period now) = 0"
  "ewma_init (new_StandardEWMA alpha period now) = False"
  by (simp_all add: new_StandardEWMA_def)

lemma periods_lt_one:
  "0 < P \<Longrightarrow> ((now - ts) / P < 1) = (now - ts < P)" for P :: real
  by (simp add: pos_divide_less_eq)

lemma EWMA_update_ts:
  "0 < ewma_period e \<Longrightarrow> ewma_ts e \<le> now \<Longrightarrow>
   ewma_ts (EWMA_update now i e) \<le> now \<and> now - ewma_ts (EWMA_update now i e) < ewma_period e"
  using ewma_tick_bound [of e now] by (auto simp: EWMA_update_def Let_def periods_lt_one)

lemma EWMA_rate_ts:
  "0 < ewma_period e \<Longrightarrow> ewma_ts e \<le> now \<Longrightarrow> ewma_init (snd (EWMA_rate now e)) \<Longrightarrow>
   now - ewma_ts (snd (EWMA_rate now e)) < ewma_period e"
  using ewma_tick_bound [of e now] by (auto simp: EWMA_rate_cases periods_lt_one split: if_splits)

section \<open>Properties\<close>

text \<open>
  C1. \<open>rate()\<close> returns early while \<open>#init\<close> is false, so only \<open>update()\<close> can
  perform the first commitment. After one \<open>mark\<close> of \<open>i\<close> events at creation time,
  \<open>rate()\<close> returns 0 at every later time and changes nothing: the spec's example
  (mark 3, one period later the rate is 0.6) gives 0.
\<close>

theorem EWMA_rate_never_commits:
  "EWMA_rate now' (EWMA_update now i (newEWMA1 now)) = (0, EWMA_update now i (newEWMA1 now))"
  by (simp add: EWMA_rate_def EWMA_update_def newEWMA1_def)

text \<open>
  C2. With an \<open>update\<close> at the period boundary doing the commitment, the spec's
  numbers come out: after marking 3 and one elapsed period the rate is \<open>3/5\<close>, and
  after a second, idle period it is \<open>3/5 * (1 - alpha1)\<close>.
\<close>

theorem EWMA_commit_by_update:
  "fst (EWMA_rate (t + 5000) (EWMA_update (t + 5000) 0 (EWMA_update t 3 (newEWMA1 t)))) = 3 / 5 \<and>
   fst (EWMA_rate (t + 10000) (EWMA_update (t + 5000) 0 (EWMA_update t 3 (newEWMA1 t)))) =
     3 / 5 * (1 - ewma_alpha (newEWMA1 t))"
proof -
  let ?e = "EWMA_update (t + 5000) 0 (EWMA_update t 3 (newEWMA1 t))"
  have e: "ewma_rate ?e = 3 / 5" "ewma_ts ?e = t + 5000" "ewma_init ?e" "ewma_sample ?e = 0"
    "ewma_period ?e = 5000" "ewma_alpha ?e = 1 - exp (- 5 / 60 / 1)"
    by (simp_all add: EWMA_update_def newEWMA1_def ewma_tick_def ewma_idle_closed Let_def)
  have "EWMA_rate (t + 5000) ?e = (3 / 5, ?e)"
    using e by (simp add: EWMA_rate_def)
  moreover have "fst (EWMA_rate (t + 10000) ?e) = 3 / 5 * (1 - ewma_alpha (newEWMA1 t))"
    using e ewma_tick_rate [of 1 ?e] by (simp add: EWMA_rate_cases newEWMA1_def)
  ultimately show ?thesis by simp
qed

text \<open>
  C3. An \<open>update\<close> at least one period after the last tick commits: the new rate is
  the pending sum turned into a per-second rate (decayed into the old rate with weight
  \<open>alpha\<close> once initialised), then decayed by \<open>(1 - alpha)\<close> once per further
  whole period; the timestamp advances by the whole periods elapsed, and the pending
  sum restarts from the new value.
\<close>

theorem EWMA_update_commit:
  assumes "0 < ewma_period e" and "1 \<le> (now - ewma_ts e) / ewma_period e"
  shows "ewma_rate (EWMA_update now i e) =
      (1 - ewma_alpha e) ^ (nat \<lfloor>(now - ewma_ts e) / ewma_period e\<rfloor> - 1) *
        (if ewma_init e
         then ewma_alpha e * (ewma_sample e / (ewma_period e / 1000)) + (1 - ewma_alpha e) * ewma_rate e
         else ewma_sample e / (ewma_period e / 1000)) \<and>
    ewma_ts (EWMA_update now i e) =
      ewma_ts e + of_int \<lfloor>(now - ewma_ts e) / ewma_period e\<rfloor> * ewma_period e \<and>
    ewma_sample (EWMA_update now i e) = i \<and> ewma_init (EWMA_update now i e)"
  using assms ewma_tick_rate [of "(now - ewma_ts e) / ewma_period e" e]
    ewma_tick_ts_eq [of "(now - ewma_ts e) / ewma_period e" e]
    ewma_tick_sample [of "(now - ewma_ts e) / ewma_period e" e]
  by (simp add: EWMA_update_def Let_def)

theorem EWMA_update_commit_witness:
  "ewma_rate (EWMA_update 12000 1 (EWMA_update 0 3 (newEWMA1 0))) =
      (1 - ewma_alpha (EWMA_update 0 3 (newEWMA1 0))) ^ (nat \<lfloor>(12000 - ewma_ts (EWMA_update 0 3 (newEWMA1 0)))
        / ewma_period (EWMA_update 0 3 (newEWMA1 0))\<rfloor> - 1) *
        (if ewma_init (EWMA_update 0 3 (newEWMA1 0))
         then ewma_alpha (EWMA_update 0 3 (newEWMA1 0)) * (ewma_sample (EWMA_update 0 3 (newEWMA1 0))
           / (ewma_period (EWMA_update 0 3 (newEWMA1 0)) / 1000))
           + (1 - ewma_alpha (EWMA_update 0 3 (newEWMA1 0))) * ewma_rate (EWMA_update 0 3 (newEWMA1 0))
         else ewma_sample (EWMA_update 0 3 (newEWMA1 0)) / (ewma_period (EWMA_update 0 3 (newEWMA1 0)) / 1000)) \<and>
    ewma_ts (EWMA_update 12000 1 (EWMA_update 0 3 (newEWMA1 0))) =
      ewma_ts (EWMA_update 0 3 (newEWMA1 0)) + of_int \<lfloor>(12000 - ewma_ts (EWMA_update 0 3 (newEWMA1 0)))
        / ewma_period (EWMA_update 0 3 (newEWMA1 0))\<rfloor> * ewma_period (EWMA_update 0 3 (newEWMA1 0)) \<and>
    ewma_sample (EWMA_update 12000 1 (EWMA_update 0 3 (newEWMA1 0))) = 1 \<and>
    ewma_init (EWMA_update 12000 1 (EWMA_update 0 3 (newEWMA1 0)))"
  by (rule EWMA_update_commit) (simp_all add: EWMA_update_def newEWMA1_def)

text \<open>
  C4. After \<open>update(i)\<close> at a time \<open>now\<close> not before the last tick, the tick
  timestamp is within one period behind \<open>now\<close>: the catch-up loop consumes every
  whole elapsed period and no more.
\<close>

theorem EWMA_update_catch_up_bound:
  assumes "0 < ewma_period e" and "ewma_ts e \<le> now"
  shows "ewma_ts (EWMA_update now i e) \<le> now \<and> now - ewma_ts (EWMA_update now i e) < ewma_period e"
  using assms by (rule EWMA_update_ts)

theorem EWMA_update_catch_up_bound_witness:
  "ewma_ts (EWMA_update 12000 1 (newEWMA1 0)) \<le> 12000 \<and>
   12000 - ewma_ts (EWMA_update 12000 1 (newEWMA1 0)) < ewma_period (newEWMA1 0)"
  using EWMA_update_catch_up_bound [of "newEWMA1 0" 12000 1] by (simp add: newEWMA1_def)

text \<open>
  Calling \<open>rate()\<close> twice at the same time returns the same value and leaves the
  state as the first call left it: a read at an unchanged time is idempotent.
\<close>

theorem EWMA_rate_idempotent:
  assumes "0 < ewma_period e" and "ewma_ts e \<le> now"
  shows "EWMA_rate now (snd (EWMA_rate now e)) = EWMA_rate now e"
proof (cases "(now - ewma_ts e) / ewma_period e < 1 \<or> \<not> ewma_init e")
  case True
  then show ?thesis by (simp add: EWMA_rate_cases)
next
  case False
  let ?e' = "ewma_tick ((now - ewma_ts e) / ewma_period e) e"
  from False assms have "now - ewma_ts ?e' < ewma_period ?e'"
    using ewma_tick_bound [of e now] by simp
  with assms(1) have "(now - ewma_ts ?e') / ewma_period ?e' < 1"
    by (simp add: periods_lt_one)
  with False show ?thesis by (simp add: EWMA_rate_cases)
qed

theorem EWMA_rate_idempotent_witness:
  "EWMA_rate 7000 (snd (EWMA_rate 7000 (EWMA_update 5000 0 (EWMA_update 0 3 (newEWMA1 0))))) =
   EWMA_rate 7000 (EWMA_update 5000 0 (EWMA_update 0 3 (newEWMA1 0)))"
  by (rule EWMA_rate_idempotent) (simp_all add: EWMA_update_def newEWMA1_def ewma_tick_def ewma_idle_closed Let_def)

text \<open>
  Within the current period of an initialised EWMA, \<open>update(i)\<close> only adds
  \<open>i\<close> to the pending sum and \<open>rate()\<close> returns the committed rate without
  changing anything: the committed rate changes only at period boundaries.
\<close>

theorem EWMA_within_period:
  assumes "0 < ewma_period e" and "now - ewma_ts e < ewma_period e" and "ewma_init e"
  shows "EWMA_update now i e = e\<lparr>ewma_sample := ewma_sample e + i\<rparr> \<and> EWMA_rate now e = (ewma_rate e, e)"
  using assms by (simp add: EWMA_update_def EWMA_rate_def periods_lt_one)

theorem EWMA_within_period_witness:
  "EWMA_update 7000 2 (EWMA_update 5000 0 (EWMA_update 0 3 (newEWMA1 0))) =
     (EWMA_update 5000 0 (EWMA_update 0 3 (newEWMA1 0)))\<lparr>ewma_sample :=
        ewma_sample (EWMA_update 5000 0 (EWMA_update 0 3 (newEWMA1 0))) + 2\<rparr> \<and>
   EWMA_rate 7000 (EWMA_update 5000 0 (EWMA_update 0 3 (newEWMA1 0))) =
     (ewma_rate (EWMA_update 5000 0 (EWMA_update 0 3 (newEWMA1 0))), EWMA_update 5000 0 (EWMA_update 0 3 (newEWMA1 0)))"
  by (rule EWMA_within_period) (simp_all add: EWMA_update_def newEWMA1_def ewma_tick_def ewma_idle_closed Let_def)

text \<open>
  The decay constants of \<open>newEWMA1\<close>, \<open>newEWMA5\<close> and \<open>newEWMA15\<close> lie
  strictly between 0 and 1, and a longer window decays more slowly.
\<close>

theorem EWMA_alpha_bounds:
  "0 < ewma_alpha (newEWMA15 now) \<and> ewma_alpha (newEWMA15 now) < ewma_alpha (newEWMA5 now) \<and>
   ewma_alpha (newEWMA5 now) < ewma_alpha (newEWMA1 now) \<and> ewma_alpha (newEWMA1 now) < 1"
  by (simp add: newEWMA1_def newEWMA5_def newEWMA15_def)

text \<open>
  C32. The catch-up loop \<open>while (periods >= 1)\<close> of \<open>update()\<close> terminates for every
  real \<open>periods\<close> (the measure is \<open>\<lceil>periods\<rceil>\<close>), and it runs its body exactly
  \<open>\<lfloor>periods\<rfloor>\<close> times, none when \<open>periods < 1\<close>.
\<close>

theorem ewma_idle_iterations:
  "ewma_idle p e = (ewma_decay_step ^^ nat \<lfloor>p\<rfloor>) e"
proof (induction p e rule: ewma_idle.induct)
  case (1 p e)
  show ?case
  proof (cases "1 \<le> p")
    case True
    have k: "nat \<lfloor>p\<rfloor> = Suc (nat \<lfloor>p - 1\<rfloor>)"
      using True by linarith
    have "ewma_idle p e = ewma_idle (p - 1) (ewma_decay_step e)"
      using True by (simp add: ewma_idle.simps [of p e] ewma_decay_step_def)
    also have "\<dots> = (ewma_decay_step ^^ nat \<lfloor>p - 1\<rfloor>) (ewma_decay_step e)"
      using "1.IH" [OF True] by (simp add: ewma_decay_step_def [abs_def])
    finally show ?thesis
      by (simp only: k funpow_Suc_right comp_def)
  next
    case False
    then have "nat \<lfloor>p\<rfloor> = 0" by linarith
    with False show ?thesis by (simp add: ewma_idle.simps [of p e])
  qed
qed

end
