(* ===== verification/Meter.thy ===== *)
theory Meter
  imports EWMA Metric
begin

text \<open>
  The meter of \<open>src/unnamed/part_003\<close> (the module \<open>meter.ts\<close>): the interface
  \<open>Meter\<close> (lines 11--70) is the datatype \<open>meter\<close> with one constructor per class,
  \<open>StandardMeter\<close> (lines 162--311) and \<open>NullMeter\<close> (lines 72--160); each method
  is one function that dispatches on it. The state of a \<open>StandardMeter\<close> is the record
  \<open>standard_meter\<close>, an extension of \<open>base_metric\<close> with \<open>#count\<close>, the three
  EWMAs \<open>#a1\<close>, \<open>#a5\<close>, \<open>#a15\<close> and the start time \<open>#start\<close>. The clock
  (\<open>new Date()\<close>, \<open>Date.now()\<close>) is the parameter \<open>now\<close> in milliseconds; one
  method call reads it once.

  The lemmas show what \<open>mark\<close> does to the count and the EWMAs, the closed form of
  \<open>rateMean\<close>, and that marks made only within the first five seconds of a meter
  never show in its 1-, 5- or 15-minute rates.
\<close>

record standard_meter = base_metric +
  meter_count :: jsnum
  meter_a1 :: standard_ewma
  meter_a5 :: standard_ewma
  meter_a15 :: standard_ewma
  meter_start :: millis

definition new_StandardMeter :: "nat \<Rightarrow> string option \<Rightarrow> string option \<Rightarrow> millis \<Rightarrow> standard_meter" where
  "new_StandardMeter mid name desc now =
     (let b = named_base mid name desc
      in \<lparr>metric_id = metric_id b, metric_name = metric_name b, metric_description = metric_description b,
          meter_count = 0, meter_a1 = newEWMA1 (real_of_int now), meter_a5 = newEWMA5 (real_of_int now),
          meter_a15 = newEWMA15 (real_of_int now), meter_start = now\<rparr>)"

definition StandardMeter_mark :: "millis \<Rightarrow> jsnum \<Rightarrow> standard_meter \<Rightarrow> standard_meter" where
  "StandardMeter_mark now i m =
     m\<lparr>meter_count := meter_count m + i,
       meter_a1 := EWMA_update (real_of_int now) i (meter_a1 m),
       meter_a5 := EWMA_update (real_of_int now) i (meter_a5 m),
       meter_a15 := EWMA_update (real_of_int now) i (meter_a15 m)\<rparr>"

definition StandardMeter_rate1 :: "millis \<Rightarrow> standard_meter \<Rightarrow> jsnum \<times> standard_meter" where
  "StandardMeter_rate1 now m =
     (let (r, e) = EWMA_rate (real_of_int now) (meter_a1 m) in (r, m\<lparr>meter_a1 := e\<rparr>))"

definition StandardMeter_rate5 :: "millis \<Rightarrow> standard_meter \<Rightarrow> jsnum \<times> standard_meter" where
  "StandardMeter_rate5 now m =
     (let (r, e) = EWMA_rate (real_of_int now) (meter_a5 m) in (r, m\<lparr>meter_a5 := e\<rparr>))"

definition StandardMeter_rate15 :: "millis \<Rightarrow> standard_meter \<Rightarrow> jsnum \<times> standard_meter" where
  "StandardMeter_rate15 now m =
     (let (r, e) = EWMA_rate (real_of_int now) (meter_a15 m) in (r, m\<lparr>meter_a15 := e\<rparr>))"

definition StandardMeter_rateMean :: "millis \<Rightarrow> standard_meter \<Rightarrow> jsnum" where
  "StandardMeter_rateMean now m =
     (let elapsed = real_of_int (now - meter_start m) / 1000 in meter_count m / (1 + elapsed))"

text \<open>\<open>snapshot()\<close> evaluates its properties in order, and \<open>rate1\<close>..\<open>rate15\<close> advance the EWMAs.\<close>

definition StandardMeter_snapshot :: "millis \<Rightarrow> standard_meter \<Rightarrow> jsobj \<times> standard_meter" where
  "StandardMeter_snapshot now m =
     (let (r1, m1) = StandardMeter_rate1 now m;
          (r5, m2) = StandardMeter_rate5 now m1;
          (r15, m3) = StandardMeter_rate15 now m2
      in (js_spread (base_snapshot m)
            [(''count'', JNum (meter_count m)), (''rate1'', JNum r1), (''rate5'', JNum r5),
             (''rate15'', JNum r15), (''rateMean'', JNum (StandardMeter_rateMean now m3))], m3))"

definition NullMeter_snapshot :: "base_metric \<Rightarrow> jsobj" where
  "NullMeter_snapshot b =
     js_spread (base_snapshot b)
       [(''count'', JNum 0), (''rate1'', JNum 0), (''rate5'', JNum 0), (''rate15'', JNum 0),
        (''rateMean'', JNum 0)]"

section \<open>The Meter interface\<close>

datatype meter = StandardMeter standard_meter | NullMeter base_metric

definition new_NullMeter :: "nat \<Rightarrow> string option \<Rightarrow> string option \<Rightarrow> meter" where
  "new_NullMeter mid name desc = NullMeter (named_base mid name desc)"

fun Meter_count :: "meter \<Rightarrow> jsnum" where
  "Meter_count (StandardMeter m) = meter_count m"
| "Meter_count (NullMeter b) = 0"

fun Meter_mark :: "millis \<Rightarrow> jsnum \<Rightarrow> meter \<Rightarrow> meter" where
  "Meter_mark now i (StandardMeter m) = StandardMeter (StandardMeter_mark now i m)"
| "Meter_mark now i (NullMeter b) = NullMeter b"

fun Meter_rate1 :: "millis \<Rightarrow> meter \<Rightarrow> jsnum \<times> meter" where
  "Meter_rate1 now (StandardMeter m) = map_prod id StandardMeter (StandardMeter_rate1 now m)"
| "Meter_rate1 now (NullMeter b) = (0, NullMeter b)"

fun Meter_rate5 :: "millis \<Rightarrow> meter \<Rightarrow> jsnum \<times> meter" where
  "Meter_rate5 now (StandardMeter m) = map_prod id StandardMeter (StandardMeter_rate5 now m)"
| "Meter_rate5 now (NullMeter b) = (0, NullMeter b)"

fun Meter_rate15 :: "millis \<Rightarrow> meter \<Rightarrow> jsnum \<times> meter" where
  "Meter_rate15 now (StandardMeter m) = map_prod id StandardMeter (StandardMeter_rate15 now m)"
| "Meter_rate15 now (NullMeter b) = (0, NullMeter b)"

fun Meter_rateMean :: "millis \<Rightarrow> meter \<Rightarrow> jsnum" where
  "Meter_rateMean now (StandardMeter m) = StandardMeter_rateMean now m"
| "Meter_rateMean now (NullMeter b) = 0"

fun Meter_snapshot :: "millis \<Rightarrow> meter \<Rightarrow> jsobj \<times> meter" where
  "Meter_snapshot now (StandardMeter m) = map_prod id StandardMeter (StandardMeter_snapshot now m)"
| "Meter_snapshot now (NullMeter b) = (NullMeter_snapshot b, NullMeter b)"

section \<open>Lemmas\<close>

lemma StandardMeter_mark_fields [simp]:
  "meter_count (StandardMeter_mark now i m) = meter_count m + i"
  "meter_start (StandardMeter_mark now i m) = meter_start m"
  "metric_id (StandardMeter_mark now i m) = metric_id m"
  "metric_name (StandardMeter_mark now i m) = metric_name m"
  "metric_description (StandardMeter_mark now i m) = metric_description m"
  by (simp_all add: StandardMeter_mark_def)

lemma new_StandardMeter_fields [simp]:
  "meter_count (new_StandardMeter mid name desc now) = 0"
  "meter_start (new_StandardMeter mid name desc now) = now"
  "meter_a1 (new_StandardMeter mid name desc now) = newEWMA1 (real_of_int now)"
  "meter_a5 (new_StandardMeter mid name desc now) = newEWMA5 (real_of_int now)"
  "meter_a15 (new_StandardMeter mid name desc now) = newEWMA15 (real_of_int now)"
  "metric_id (new_StandardMeter mid name desc now) = mid"
  by (simp_all add: new_StandardMeter_def)

text \<open>
  An EWMA created at \<open>t0\<close> and updated only before \<open>t0 + period\<close> is still
  uninitialised with rate 0: each update falls in the first bucket.
\<close>

lemma EWMA_first_period_updates:
  assumes "0 < ewma_period e" and "\<not> ewma_init e" and "ewma_rate e = 0"
    and "\<forall>(t, i) \<in> set marks. t - ewma_ts e < ewma_period e"
  shows "\<not> ewma_init (foldl (\<lambda>e (t, i). EWMA_update t i e) e marks) \<and>
         ewma_rate (foldl (\<lambda>e (t, i). EWMA_update t i e) e marks) = 0 \<and>
         ewma_ts (foldl (\<lambda>e (t, i). EWMA_update t i e) e marks) = ewma_ts e \<and>
         ewma_period (foldl (\<lambda>e (t, i). EWMA_update t i e) e marks) = ewma_period e"
  using assms
proof (induction marks arbitrary: e)
  case (Cons m marks)
  obtain t i where m: "m = (t, i)" by (cases m)
  with Cons.prems have "(t - ewma_ts e) / ewma_period e < 1"
    by (simp add: periods_lt_one)
  then have "EWMA_update t i e = e\<lparr>ewma_sample := ewma_sample e + i, ewma_rate := 0\<rparr>"
    using Cons.prems by (simp add: EWMA_update_def)
  with Cons.prems Cons.IH [of "e\<lparr>ewma_sample := ewma_sample e + i, ewma_rate := 0\<rparr>"] m
  show ?case by simp
qed simp

definition meter_marks :: "(millis \<times> jsnum) list \<Rightarrow> standard_meter \<Rightarrow> standard_meter" where
  "meter_marks marks m = foldl (\<lambda>m (t, i). StandardMeter_mark t i m) m marks"

lemma meter_marks_ewmas:
  "meter_a1 (meter_marks marks m) = foldl (\<lambda>e (t, i). EWMA_update t i e) (meter_a1 m) (map (\<lambda>(t, i). (real_of_int t, i)) marks) \<and>
   meter_a5 (meter_marks marks m) = foldl (\<lambda>e (t, i). EWMA_update t i e) (meter_a5 m) (map (\<lambda>(t, i). (real_of_int t, i)) marks) \<and>
   meter_a15 (meter_marks marks m) = foldl (\<lambda>e (t, i). EWMA_update t i e) (meter_a15 m) (map (\<lambda>(t, i). (real_of_int t, i)) marks)"
  by (induction marks arbitrary: m) (auto simp: meter_marks_def StandardMeter_mark_def)

lemma meter_marks_fields [simp]:
  "meter_count (meter_marks marks m) = meter_count m + sum_list (map snd marks)"
  "meter_start (meter_marks marks m) = meter_start m"
  by (induction marks arbitrary: m) (auto simp: meter_marks_def algebra_simps)

lemma EWMA_rate_uninit: "\<not> ewma_init e \<Longrightarrow> EWMA_rate now e = (ewma_rate e, e)"
  by (simp add: EWMA_rate_def)

lemma first_period_rate_zero:
  assumes "\<forall>(t, i) \<in> set marks. t < now0 + 5000"
    and "e = new_StandardEWMA alpha 5000 (real_of_int now0)"
  shows "fst (EWMA_rate now (foldl (\<lambda>e (t, i). EWMA_update t i e) e (map (\<lambda>(t, i). (real_of_int t, i)) marks))) = 0"
proof -
  have "\<forall>(t, i) \<in> set (map (\<lambda>(t, i). (real_of_int t, i)) marks). t - ewma_ts e < ewma_period e"
    using assms by auto
  then have "\<not> ewma_init (foldl (\<lambda>e (t, i). EWMA_update t i e) e (map (\<lambda>(t, i). (real_of_int t, i)) marks)) \<and>
      ewma_rate (foldl (\<lambda>e (t, i). EWMA_update t i e) e (map (\<lambda>(t, i). (real_of_int t, i)) marks)) = 0"
    using EWMA_first_period_updates [of e] assms(2) by simp
  then show ?thesis by (simp add: EWMA_rate_uninit)
qed

section \<open>Properties\<close>

text \<open>
  C14. Marks made only within the first five seconds of a \<open>StandardMeter\<close> never
  show in its rates: at any later time \<open>rate1()\<close>, \<open>rate5()\<close> and
  \<open>rate15()\<close> are 0, because no mark triggers the first EWMA commitment and
  \<open>rate()\<close> never does.
\<close>

theorem meter_first_period_rates_zero:
  assumes "\<forall>(t, i) \<in> set marks. t < now0 + 5000"
  shows "fst (StandardMeter_rate1 now (meter_marks marks (new_StandardMeter mid name desc now0))) = 0 \<and>
         fst (StandardMeter_rate5 now (meter_marks marks (new_StandardMeter mid name desc now0))) = 0 \<and>
         fst (StandardMeter_rate15 now (meter_marks marks (new_StandardMeter mid name desc now0))) = 0"
  using assms meter_marks_ewmas [of marks "new_StandardMeter mid name desc now0"]
    first_period_rate_zero [of marks now0 _ "1 - exp (- 5 / 60 / 1)" "real_of_int now"]
    first_period_rate_zero [of marks now0 _ "1 - exp (- 5 / 60 / 5)" "real_of_int now"]
    first_period_rate_zero [of marks now0 _ "1 - exp (- 5 / 60 / 15)" "real_of_int now"]
  by (simp add: StandardMeter_rate1_def StandardMeter_rate5_def StandardMeter_rate15_def
      newEWMA1_def newEWMA5_def newEWMA15_def split_def)

theorem meter_first_period_rates_zero_witness:
  "fst (StandardMeter_rate1 600000 (meter_marks [(0, 3), (4999, 2)] (new_StandardMeter 0 None None 0))) = 0 \<and>
   fst (StandardMeter_rate5 600000 (meter_marks [(0, 3), (4999, 2)] (new_StandardMeter 0 None None 0))) = 0 \<and>
   fst (StandardMeter_rate15 600000 (meter_marks [(0, 3), (4999, 2)] (new_StandardMeter 0 None None 0))) = 0"
  by (rule meter_first_period_rates_zero) simp

text \<open>
  A meter's count is the sum of its marks, and \<open>rateMean()\<close> is that count over
  one plus the seconds since creation; in particular \<open>mark(5)\<close> followed at once by
  \<open>rateMean()\<close> gives 5, the spec's example.
\<close>

theorem meter_count_rateMean:
  "meter_count (meter_marks marks (new_StandardMeter mid name desc now0)) = sum_list (map snd marks) \<and>
   StandardMeter_rateMean now (meter_marks marks (new_StandardMeter mid name desc now0)) =
     sum_list (map snd marks) / (1 + real_of_int (now - now0) / 1000) \<and>
   StandardMeter_rateMean now0 (StandardMeter_mark now0 5 (new_StandardMeter mid name desc now0)) = 5"
  by (simp add: StandardMeter_rateMean_def)

end
