(* ===== verification/Timer.thy ===== *)
theory Timer
  imports Histogram Meter
begin

text \<open>
  The timer of \<open>src/src/histogram.ts\<close> (lines 444--994). A \<open>StandardTimer\<close> is a
  \<open>base_metric\<close> extended with the private fields \<open>#hist\<close> (a
  \<open>StandardHistogram\<close> over \<open>new ExpDecaySample(0.015, 1028)\<close>) and
  \<open>#meter\<close> (a \<open>StandardMeter\<close>); the \<open>Timer\<close> interface is the datatype
  \<open>timer\<close> with the classes \<open>StandardTimer\<close> and \<open>NullTimer\<close>. Every read
  delegates to the histogram or the meter; \<open>update\<close> updates the histogram and
  marks the meter once. \<open>time(f)\<close> takes the outcome of \<open>f\<close> as a parameter: it
  returns or it throws a value, and a throw propagates as \<open>Inl\<close>.

  The invariant \<open>timer_inv\<close> says the histogram is a standard histogram over a
  decaying sample whose inherited \<open>_values\<close> array is empty and whose count is the
  meter's count. Every operation keeps it, so the timer's statistics are 0 whatever
  it records, and its snapshot takes \<open>count\<close> from the meter and the identity from
  the timer.
\<close>

section \<open>Timers\<close>

record standard_timer = base_metric +
  timer_hist :: histogram
  timer_meter :: meter

datatype timer = StandardTimer standard_timer | NullTimer base_metric

text \<open>
  \<open>super()\<close> takes the id \<open>mid\<close>; \<open>new StandardMeter()\<close> runs next and takes
  \<open>mid + 1\<close>; the histogram is constructed after its sample and takes \<open>mid + 2\<close>.
\<close>

definition new_StandardTimer ::
  "nat \<Rightarrow> string option \<Rightarrow> string option \<Rightarrow> millis \<Rightarrow> date_heap \<Rightarrow> standard_timer" where
  "new_StandardTimer mid name desc now h =
     (let b = named_base mid name desc
      in \<lparr>metric_id = metric_id b, metric_name = metric_name b, metric_description = metric_description b,
          timer_hist = new_StandardHistogram (mid + 2) (ExpDecayS (new_ExpDecaySample 0.015 1028 now h)) None None,
          timer_meter = StandardMeter (new_StandardMeter (mid + 1) None None now)\<rparr>)"

definition new_NullTimer :: "nat \<Rightarrow> string option \<Rightarrow> string option \<Rightarrow> timer" where
  "new_NullTimer mid name desc = NullTimer (named_base mid name desc)"

fun Timer_count :: "timer \<Rightarrow> nat" where
  "Timer_count (StandardTimer t) = Histogram_count (timer_hist t)"
| "Timer_count (NullTimer b) = 0"

fun Timer_max :: "timer \<Rightarrow> int" where
  "Timer_max (StandardTimer t) = Histogram_max (timer_hist t)"
| "Timer_max (NullTimer b) = 0"

fun Timer_mean :: "timer \<Rightarrow> jsnum" where
  "Timer_mean (StandardTimer t) = Histogram_mean (timer_hist t)"
| "Timer_mean (NullTimer b) = 0"

fun Timer_min :: "timer \<Rightarrow> int" where
  "Timer_min (StandardTimer t) = Histogram_min (timer_hist t)"
| "Timer_min (NullTimer b) = 0"

fun Timer_percentile :: "jsnum \<Rightarrow> timer \<Rightarrow> jsnum option \<times> timer" where
  "Timer_percentile p (StandardTimer t) =
     (let (r, h) = Histogram_percentile p (timer_hist t) in (r, StandardTimer (t\<lparr>timer_hist := h\<rparr>)))"
| "Timer_percentile p (NullTimer b) = (Some 0, NullTimer b)"

fun Timer_percentiles :: "jsnum list \<Rightarrow> timer \<Rightarrow> jsnum option list \<times> timer" where
  "Timer_percentiles ps (StandardTimer t) =
     (let (rs, h) = Histogram_percentiles ps (timer_hist t) in (rs, StandardTimer (t\<lparr>timer_hist := h\<rparr>)))"
| "Timer_percentiles ps (NullTimer b) = ([], NullTimer b)"

fun Timer_rate1 :: "millis \<Rightarrow> timer \<Rightarrow> jsnum \<times> timer" where
  "Timer_rate1 now (StandardTimer t) =
     (let (r, m) = Meter_rate1 now (timer_meter t) in (r, StandardTimer (t\<lparr>timer_meter := m\<rparr>)))"
| "Timer_rate1 now (NullTimer b) = (0, NullTimer b)"

fun Timer_rate5 :: "millis \<Rightarrow> timer \<Rightarrow> jsnum \<times> timer" where
  "Timer_rate5 now (StandardTimer t) =
     (let (r, m) = Meter_rate5 now (timer_meter t) in (r, StandardTimer (t\<lparr>timer_meter := m\<rparr>)))"
| "Timer_rate5 now (NullTimer b) = (0, NullTimer b)"

fun Timer_rate15 :: "millis \<Rightarrow> timer \<Rightarrow> jsnum \<times> timer" where
  "Timer_rate15 now (StandardTimer t) =
     (let (r, m) = Meter_rate15 now (timer_meter t) in (r, StandardTimer (t\<lparr>timer_meter := m\<rparr>)))"
| "Timer_rate15 now (NullTimer b) = (0, NullTimer b)"

fun Timer_rateMean :: "millis \<Rightarrow> timer \<Rightarrow> jsnum" where
  "Timer_rateMean now (StandardTimer t) = Meter_rateMean now (timer_meter t)"
| "Timer_rateMean now (NullTimer b) = 0"

text \<open>\<open>{...this.#hist.snapshot(), ...this.#meter.snapshot(), ...super.snapshot()}\<close>\<close>

definition StandardTimer_snapshot :: "millis \<Rightarrow> standard_timer \<Rightarrow> jsobj \<times> timer" where
  "StandardTimer_snapshot now t =
     (let (hs, h) = Histogram_snapshot (timer_hist t);
          (ms, m) = Meter_snapshot now (timer_meter t)
      in (js_spread (js_spread (js_spread [] hs) ms) (base_snapshot t),
          StandardTimer (t\<lparr>timer_hist := h, timer_meter := m\<rparr>)))"

definition NullTimer_snapshot :: "base_metric \<Rightarrow> jsobj" where
  "NullTimer_snapshot b =
     js_spread (base_snapshot b)
       [(''count'', JNum 0), (''rate1'', JNum 0), (''rate5'', JNum 0), (''rate15'', JNum 0),
        (''rateMean'', JNum 0), (''max'', JNum 0), (''mean'', JNum 0), (''min'', JNum 0),
        (''stdDev'', JNum 0), (''sum'', JNum 0), (''variance'', JNum 0),
        (''percentile'', JObj [(''median'', JNum 0), (''_75'', JNum 0), (''_95'', JNum 0),
                              (''_99'', JNum 0), (''_99_9'', JNum 0)])]"

fun Timer_snapshot :: "millis \<Rightarrow> timer \<Rightarrow> jsobj \<times> timer" where
  "Timer_snapshot now (StandardTimer t) = StandardTimer_snapshot now t"
| "Timer_snapshot now (NullTimer b) = (NullTimer_snapshot b, NullTimer b)"

fun Timer_stdDev :: "timer \<Rightarrow> jsnum" where
  "Timer_stdDev (StandardTimer t) = Histogram_stdDev (timer_hist t)"
| "Timer_stdDev (NullTimer b) = 0"

fun Timer_update :: "millis \<Rightarrow> real \<Rightarrow> int \<Rightarrow> timer \<Rightarrow> timer" where
  "Timer_update now u v (StandardTimer t) =
     (let h = Histogram_update now u v (timer_hist t);
          m = Meter_mark now 1 (timer_meter t)
      in StandardTimer (t\<lparr>timer_hist := h, timer_meter := m\<rparr>))"
| "Timer_update now u v (NullTimer b) = NullTimer b"

text \<open>\<open>updateSince(start)\<close> records \<open>new Date().getTime() - start.getTime()\<close>.\<close>

fun Timer_updateSince :: "millis \<Rightarrow> real \<Rightarrow> millis \<Rightarrow> timer \<Rightarrow> timer" where
  "Timer_updateSince now u start (StandardTimer t) = Timer_update now u (now - start) (StandardTimer t)"
| "Timer_updateSince now u start (NullTimer b) = NullTimer b"

text \<open>
  \<open>time(f)\<close> reads the clock (\<open>now0\<close>), calls \<open>f\<close>, whose outcome is
  \<open>thrown\<close> (\<open>Some e\<close> when it throws \<open>e\<close>), and on return calls
  \<open>updateSince\<close> at \<open>now1\<close>. \<open>NullTimer.time\<close> has an empty body and never calls \<open>f\<close>.
\<close>

fun Timer_time :: "millis \<Rightarrow> millis \<Rightarrow> real \<Rightarrow> 'e option \<Rightarrow> timer \<Rightarrow> 'e + timer" where
  "Timer_time now0 now1 u thrown (StandardTimer t) =
     (case thrown of Some e \<Rightarrow> Inl e | None \<Rightarrow> Inr (Timer_updateSince now1 u now0 (StandardTimer t)))"
| "Timer_time now0 now1 u thrown (NullTimer b) = Inr (NullTimer b)"

fun Timer_variance :: "timer \<Rightarrow> jsnum" where
  "Timer_variance (StandardTimer t) = Histogram_variance (timer_hist t)"
| "Timer_variance (NullTimer b) = 0"

fun Timer_sum :: "timer \<Rightarrow> int" where
  "Timer_sum (StandardTimer t) = Histogram_sum (timer_hist t)"
| "Timer_sum (NullTimer b) = 0"

section \<open>Runs of timer operations\<close>

datatype timer_op = TUpdate millis real int | TUpdateSince millis real millis
  | TTime millis millis real "string option" | TPercentile real | TPercentiles "real list"
  | TRate1 millis | TRate5 millis | TRate15 millis | TSnapshot millis

text \<open>A call of \<open>time\<close> whose \<open>f\<close> throws leaves the timer as it was.\<close>

fun timer_step :: "timer_op \<Rightarrow> timer \<Rightarrow> timer" where
  "timer_step (TUpdate now u v) tm = Timer_update now u v tm"
| "timer_step (TUpdateSince now u start) tm = Timer_updateSince now u start tm"
| "timer_step (TTime now0 now1 u thrown) tm =
     (case Timer_time now0 now1 u thrown tm of Inl e \<Rightarrow> tm | Inr tm' \<Rightarrow> tm')"
| "timer_step (TPercentile p) tm = snd (Timer_percentile p tm)"
| "timer_step (TPercentiles ps) tm = snd (Timer_percentiles ps tm)"
| "timer_step (TRate1 now) tm = snd (Timer_rate1 now tm)"
| "timer_step (TRate5 now) tm = snd (Timer_rate5 now tm)"
| "timer_step (TRate15 now) tm = snd (Timer_rate15 now tm)"
| "timer_step (TSnapshot now) tm = snd (Timer_snapshot now tm)"

definition timer_run :: "timer_op list \<Rightarrow> timer \<Rightarrow> timer" where
  "timer_run ops tm = foldl (\<lambda>tm op. timer_step op tm) tm ops"

fun records :: "timer_op \<Rightarrow> bool" where
  "records (TUpdate now u v) = True"
| "records (TUpdateSince now u start) = True"
| "records (TTime now0 now1 u thrown) = (thrown = None)"
| "records _ = False"

text \<open>
  The invariant of a standard timer, and the durations it has recorded (the values of
  the decaying sample's priority list), by which the lemmas state what it holds.
\<close>

fun timer_inv :: "timer \<Rightarrow> bool" where
  "timer_inv (StandardTimer t) =
     (case (timer_hist t, timer_meter t) of
        (StandardHistogram h, StandardMeter m) \<Rightarrow>
          (case hist_sample h of
             ExpDecayS s \<Rightarrow> sample_values s = [] \<and> meter_count m = real (sample_count s)
           | UniformS s \<Rightarrow> False)
      | _ \<Rightarrow> False)"
| "timer_inv (NullTimer b) = True"

fun timer_recorded :: "timer \<Rightarrow> int list" where
  "timer_recorded (StandardTimer t) =
     (case timer_hist t of
        StandardHistogram h \<Rightarrow>
          (case hist_sample h of ExpDecayS s \<Rightarrow> map snd (ed_values s) | UniformS s \<Rightarrow> sample_values s)
      | NullHistogram b \<Rightarrow> [])"
| "timer_recorded (NullTimer b) = []"

lemma timer_run_append [simp]: "timer_run (ops @ [op]) tm = timer_step op (timer_run ops tm)"
  by (simp add: timer_run_def)

lemma timer_run_Nil [simp]: "timer_run [] tm = tm"
  by (simp add: timer_run_def)

section \<open>Frame lemmas of the parts\<close>

lemma meter_count_rates [simp]:
  "meter_count (snd (StandardMeter_rate1 now m)) = meter_count m"
  "meter_count (snd (StandardMeter_rate5 now m)) = meter_count m"
  "meter_count (snd (StandardMeter_rate15 now m)) = meter_count m"
  by (simp_all add: StandardMeter_rate1_def StandardMeter_rate5_def StandardMeter_rate15_def split_def Let_def)

lemma StandardMeter_snapshot_count:
  "meter_count (snd (StandardMeter_snapshot now m)) = meter_count m"
  "obj_get (fst (StandardMeter_snapshot now m)) ''count'' = Some (JNum (meter_count m))"
  by (simp_all add: StandardMeter_snapshot_def split_def Let_def obj_get_js_spread)

lemma uniform_percentile_fields [simp]:
  "sample_count (snd (uniform_percentile p s)) = sample_count s"
  "sample_values (snd (uniform_percentile p s)) =
     (if sample_values s = [] then [] else js_sort (sample_values s))"
  by (simp_all add: uniform_percentile_def samplePercentile_def samplePercentiles_def Let_def split_def)

lemma StandardHistogram_snapshot_state:
  "snd (StandardHistogram_snapshot h) = with_sample h (snd (Sample_percentiles snapshot_percentiles (hist_sample h)))"
  by (simp add: StandardHistogram_snapshot_def split_def Let_def)

section \<open>The timer invariant\<close>

lemma timer_inv_StandardTimer:
  "timer_inv (StandardTimer t) \<longleftrightarrow>
   (\<exists>h m s. timer_hist t = StandardHistogram h \<and> timer_meter t = StandardMeter m \<and>
     hist_sample h = ExpDecayS s \<and> sample_values s = [] \<and> meter_count m = real (sample_count s))"
  by (auto split: histogram.splits meter.splits sample_obj.splits)

declare timer_inv.simps(1) [simp del]

lemma timer_inv_new: "timer_inv (StandardTimer (new_StandardTimer mid name desc now h))"
  by (simp add: timer_inv_StandardTimer new_StandardTimer_def new_StandardHistogram_def Let_def)

lemma timer_inv_step: "timer_inv tm \<Longrightarrow> timer_inv (timer_step op tm)"
proof (cases tm)
  case (StandardTimer t)
  assume "timer_inv tm"
  then obtain h m s where t: "timer_hist t = StandardHistogram h" "timer_meter t = StandardMeter m"
    "hist_sample h = ExpDecayS s" "sample_values s = []" "meter_count m = real (sample_count s)"
    using StandardTimer timer_inv_StandardTimer by blast
  show ?thesis
    using t unfolding StandardTimer
    by (cases op) (auto simp: timer_inv_StandardTimer with_sample_def ed_update_values_empty
        StandardMeter_snapshot_count StandardTimer_snapshot_def StandardHistogram_snapshot_state
        split_def Let_def split: option.splits sum.splits)
next
  case (NullTimer b)
  then show ?thesis by (cases op) simp_all
qed

lemma timer_inv_run: "timer_inv tm \<Longrightarrow> timer_inv (timer_run ops tm)"
  by (induction ops rule: rev_induct) (simp_all add: timer_inv_step)

lemma timer_step_count:
  assumes "timer_inv (StandardTimer t)"
  shows "\<exists>t'. timer_step op (StandardTimer t) = StandardTimer t' \<and>
           Timer_count (StandardTimer t') = Timer_count (StandardTimer t) + (if records op then 1 else 0)"
proof -
  obtain h m s where t: "timer_hist t = StandardHistogram h" "timer_meter t = StandardMeter m"
    "hist_sample h = ExpDecayS s"
    using assms timer_inv_StandardTimer by blast
  show ?thesis
    using t
    by (cases op) (auto simp: with_sample_def StandardTimer_snapshot_def StandardHistogram_snapshot_state
        split_def Let_def split: option.splits)
qed

lemma timer_run_count:
  "timer_inv (StandardTimer t) \<Longrightarrow>
   \<exists>t'. timer_run ops (StandardTimer t) = StandardTimer t' \<and> timer_inv (StandardTimer t') \<and>
     Timer_count (StandardTimer t') = Timer_count (StandardTimer t) + length (filter records ops)"
proof (induction ops rule: rev_induct)
  case (snoc op ops)
  then obtain t' where t': "timer_run ops (StandardTimer t) = StandardTimer t'" "timer_inv (StandardTimer t')"
    "Timer_count (StandardTimer t') = Timer_count (StandardTimer t) + length (filter records ops)"
    by blast
  obtain t'' where "timer_step op (StandardTimer t') = StandardTimer t''"
    "Timer_count (StandardTimer t'') = Timer_count (StandardTimer t') + (if records op then 1 else 0)"
    using timer_step_count [OF t'(2)] by blast
  moreover have "timer_inv (timer_step op (StandardTimer t'))"
    by (rule timer_inv_step [OF t'(2)])
  ultimately show ?case using t' by auto
qed simp

lemma timer_inv_statistics:
  "timer_inv (StandardTimer t) \<Longrightarrow>
   Timer_max (StandardTimer t) = 0 \<and> Timer_min (StandardTimer t) = 0 \<and> Timer_mean (StandardTimer t) = 0 \<and>
   Timer_sum (StandardTimer t) = 0 \<and> Timer_variance (StandardTimer t) = 0 \<and> Timer_stdDev (StandardTimer t) = 0"
  by (auto simp: timer_inv_StandardTimer empty_statistics)

lemma histogram_snapshot_distinct:
  "distinct (map fst (fst (StandardHistogram_snapshot h)))"
  by (simp add: StandardHistogram_snapshot_obj Let_def distinct_js_spread)

lemma meter_snapshot_distinct:
  "distinct (map fst (fst (StandardMeter_snapshot now m)))"
  by (simp add: StandardMeter_snapshot_def split_def Let_def distinct_js_spread)

lemma StandardMeter_snapshot_keys:
  "k \<notin> {''id'', ''name'', ''description'', ''count'', ''rate1'', ''rate5'', ''rate15'', ''rateMean''} \<Longrightarrow>
   obj_get (fst (StandardMeter_snapshot now m)) k = None"
  by (simp add: StandardMeter_snapshot_def split_def Let_def)

lemma StandardTimer_snapshot_get:
  assumes "timer_hist t = StandardHistogram h" and "timer_meter t = StandardMeter m"
  shows "obj_get (fst (StandardTimer_snapshot now t)) k =
     (case obj_get (base_snapshot t) k of Some v \<Rightarrow> Some v
      | None \<Rightarrow> (case obj_get (fst (StandardMeter_snapshot now m)) k of Some v \<Rightarrow> Some v
                 | None \<Rightarrow> obj_get (fst (StandardHistogram_snapshot h)) k))"
  using assms histogram_snapshot_distinct [of h] meter_snapshot_distinct [of now m]
  by (simp add: StandardTimer_snapshot_def split_def Let_def distinct_js_spread split: option.splits)

section \<open>Properties\<close>

text \<open>
  C10. A \<open>StandardTimer\<close> records into a decaying sample, which never fills the
  inherited \<open>_values\<close> array its statistics read: after any sequence of
  \<open>update\<close>, \<open>updateSince\<close>, \<open>time\<close>, percentile, rate and snapshot calls on a
  new timer, \<open>count()\<close> is the number of durations recorded and \<open>max()\<close>,
  \<open>min()\<close>, \<open>mean()\<close>, \<open>sum()\<close>, \<open>variance()\<close> and \<open>stdDev()\<close> are 0
  (the spec's round trip \<open>update(100)\<close> expects \<open>max() = 100\<close>).
\<close>

theorem timer_run_statistics_zero:
  "Timer_count (timer_run ops (StandardTimer (new_StandardTimer mid name desc now h))) = length (filter records ops) \<and>
   Timer_max (timer_run ops (StandardTimer (new_StandardTimer mid name desc now h))) = 0 \<and>
   Timer_min (timer_run ops (StandardTimer (new_StandardTimer mid name desc now h))) = 0 \<and>
   Timer_mean (timer_run ops (StandardTimer (new_StandardTimer mid name desc now h))) = 0 \<and>
   Timer_sum (timer_run ops (StandardTimer (new_StandardTimer mid name desc now h))) = 0 \<and>
   Timer_variance (timer_run ops (StandardTimer (new_StandardTimer mid name desc now h))) = 0 \<and>
   Timer_stdDev (timer_run ops (StandardTimer (new_StandardTimer mid name desc now h))) = 0"
proof -
  obtain t' where t': "timer_run ops (StandardTimer (new_StandardTimer mid name desc now h)) = StandardTimer t'"
    "timer_inv (StandardTimer t')"
    "Timer_count (StandardTimer t') = Timer_count (StandardTimer (new_StandardTimer mid name desc now h)) + length (filter records ops)"
    using timer_run_count [OF timer_inv_new] by blast
  have "Timer_count (StandardTimer (new_StandardTimer mid name desc now h)) = 0"
    by (simp add: new_StandardTimer_def new_StandardHistogram_def Let_def)
  then show ?thesis using t' timer_inv_statistics [OF t'(2)] by simp
qed

text \<open>
  In a timer snapshot, \<open>id\<close>, \<open>name\<close> and \<open>description\<close> are the
  timer's own (the spread of \<open>super.snapshot()\<close> comes last), \<open>count\<close> is the
  meter's, which equals the histogram's count, and the histogram's fields \<open>max\<close> and
  \<open>percentile\<close> are 0.
\<close>

theorem Timer_snapshot_sources:
  assumes "timer_inv (StandardTimer t)"
  shows "obj_get (fst (Timer_snapshot now (StandardTimer t))) ''id'' = Some (JNum (real (metric_id t))) \<and>
         obj_get (fst (Timer_snapshot now (StandardTimer t))) ''count'' =
           Some (JNum (real (Timer_count (StandardTimer t)))) \<and>
         obj_get (fst (Timer_snapshot now (StandardTimer t))) ''max'' = Some (JNum 0) \<and>
         obj_get (fst (Timer_snapshot now (StandardTimer t))) ''percentile'' =
           Some (JObj [(''median'', JNum 0), (''_75'', JNum 0), (''_95'', JNum 0), (''_99'', JNum 0), (''_99_9'', JNum 0)])"
proof -
  obtain h m s where t: "timer_hist t = StandardHistogram h" "timer_meter t = StandardMeter m"
    "hist_sample h = ExpDecayS s" "sample_values s = []" "meter_count m = real (sample_count s)"
    using assms timer_inv_StandardTimer by blast
  have get: "obj_get (fst (StandardTimer_snapshot now t)) k =
     (case obj_get (base_snapshot t) k of Some v \<Rightarrow> Some v
      | None \<Rightarrow> (case obj_get (fst (StandardMeter_snapshot now m)) k of Some v \<Rightarrow> Some v
                 | None \<Rightarrow> obj_get (fst (StandardHistogram_snapshot h)) k))" for k
    by (rule StandardTimer_snapshot_get [OF t(1,2)])
  have e: "sample_values s = [] \<Longrightarrow> fst (uniform_percentiles snapshot_percentiles s) = map (\<lambda>_. Some 0) snapshot_percentiles"
    by (simp add: empty_statistics)
  show ?thesis
    using t e
    by (simp add: get StandardMeter_snapshot_count StandardMeter_snapshot_keys StandardHistogram_snapshot_obj
        StandardHistogram_snapshot_percentile Let_def empty_statistics snapshot_percentiles_def js_number_def)
qed

theorem Timer_snapshot_sources_witness:
  "obj_get (fst (Timer_snapshot 0 (StandardTimer (new_StandardTimer 7 None None 0 empty_date_heap)))) ''id'' = Some (JNum 7) \<and>
   obj_get (fst (Timer_snapshot 0 (StandardTimer (new_StandardTimer 7 None None 0 empty_date_heap)))) ''count'' =
     Some (JNum (real (Timer_count (StandardTimer (new_StandardTimer 7 None None 0 empty_date_heap))))) \<and>
   obj_get (fst (Timer_snapshot 0 (StandardTimer (new_StandardTimer 7 None None 0 empty_date_heap)))) ''max'' = Some (JNum 0) \<and>
   obj_get (fst (Timer_snapshot 0 (StandardTimer (new_StandardTimer 7 None None 0 empty_date_heap)))) ''percentile'' =
     Some (JObj [(''median'', JNum 0), (''_75'', JNum 0), (''_95'', JNum 0), (''_99'', JNum 0), (''_99_9'', JNum 0)])"
  using Timer_snapshot_sources [OF timer_inv_new, of 0 7 None None 0 empty_date_heap]
  by (simp add: new_StandardTimer_def Let_def)

text \<open>
  C11. \<open>time(f)\<close> on a \<open>StandardTimer\<close> propagates an exception of \<open>f\<close> and then
  records nothing; when \<open>f\<close> returns it records one duration, the time between the two
  clock readings. \<open>NullTimer.time(f)\<close> never calls \<open>f\<close>, so it neither runs its
  effects nor raises its exception.
\<close>

theorem Timer_time_outcomes:
  assumes "timer_inv (StandardTimer t)"
  shows "Timer_time now0 now1 u (Some e) (StandardTimer t) = Inl e \<and>
         (\<exists>t'. Timer_time now0 now1 u None (StandardTimer t) = Inr (StandardTimer t') \<and>
            Timer_count (StandardTimer t') = Suc (Timer_count (StandardTimer t)) \<and>
            timer_recorded (StandardTimer t') = timer_recorded (StandardTimer t) @ [now1 - now0]) \<and>
         Timer_time now0 now1 u thrown (NullTimer b) = Inr (NullTimer b)"
proof -
  obtain h m s where t: "timer_hist t = StandardHistogram h" "timer_meter t = StandardMeter m"
    "hist_sample h = ExpDecayS s"
    using assms timer_inv_StandardTimer by blast
  show ?thesis
    using t by (simp add: with_sample_def ed_update_recorded)
qed

theorem Timer_time_outcomes_witness:
  "Timer_time 0 40 (1 / 2) (Some ''boom'') (StandardTimer (new_StandardTimer 7 None None 0 empty_date_heap)) = Inl ''boom'' \<and>
   (\<exists>t'. Timer_time 0 40 (1 / 2) (None :: string option) (StandardTimer (new_StandardTimer 7 None None 0 empty_date_heap)) =
       Inr (StandardTimer t') \<and>
     Timer_count (StandardTimer t') = Suc (Timer_count (StandardTimer (new_StandardTimer 7 None None 0 empty_date_heap))) \<and>
     timer_recorded (StandardTimer t') = timer_recorded (StandardTimer (new_StandardTimer 7 None None 0 empty_date_heap)) @ [40 - 0]) \<and>
   Timer_time 0 40 (1 / 2) (Some ''boom'') (NullTimer (named_base 9 None None)) = Inr (NullTimer (named_base 9 None None))"
  by (rule Timer_time_outcomes [OF timer_inv_new])

end
