(* ===== verification/Registry.thy ===== *)
theory Registry
  imports Counter Gauge Healthcheck Timer
begin

text \<open>
  The registry of \<open>src/src/metric.ts\<close> (lines 293--1150). Metrics are objects that
  the registry and the application share, so they live in an explicit store: the
  record \<open>world\<close> maps a reference (the metric's id, which \<open>BaseMetric.COUNTER\<close>
  makes unique) to the metric object, and also holds the counter \<open>COUNTER\<close>, the
  module flag \<open>_useNullMetrics\<close> and the module's \<open>defaultRegistry\<close>. A
  \<open>Registry\<close> is its array \<open>#metrics\<close> of \<open>Registration\<close>s (a reference and the
  name read from the metric when it was registered); a method of the registry takes
  the registry and the world and returns what it changed. A \<open>getOrRegister\<close> method
  returns \<open>getByName(name)[0]\<close>, an optional reference, and one that throws
  returns \<open>Inl\<close> with the message.

  The lemmas show that the names of the registrations stay distinct, that
  \<open>getOrRegister\<close> returns the first registration of the name whatever its kind,
  what the errors do, what \<open>removeMetrics\<close> removes, and that the typed lists leave
  out the null metrics; and that the registry refines a map from names to metric
  references (\<open>reg_abs\<close>, \<open>abs_step\<close>). The module functions on
  \<open>defaultRegistry\<close> are in the theory \<open>DefaultRegistry\<close>.
\<close>

section \<open>Metric objects and the store\<close>

datatype metric = MCounter counter | MGauge gauge | MHealthcheck healthcheck
  | MHistogram histogram | MMeter meter | MTimer timer

fun metric_getName :: "metric \<Rightarrow> string" where
  "metric_getName (MCounter (StandardCounter c)) = getName c"
| "metric_getName (MCounter (NullCounter b)) = getName b"
| "metric_getName (MGauge (StandardGauge g)) = getName g"
| "metric_getName (MGauge (FunctionalGauge g)) = getName g"
| "metric_getName (MGauge (NullGauge b)) = getName b"
| "metric_getName (MHealthcheck (StandardHealthcheck h)) = getName h"
| "metric_getName (MHealthcheck (NullHealthcheck b)) = getName b"
| "metric_getName (MHistogram (StandardHistogram h)) = getName h"
| "metric_getName (MHistogram (NullHistogram b)) = getName b"
| "metric_getName (MMeter (StandardMeter m)) = getName m"
| "metric_getName (MMeter (NullMeter b)) = getName b"
| "metric_getName (MTimer (StandardTimer t)) = getName t"
| "metric_getName (MTimer (NullTimer b)) = getName b"

record registration =
  reg_ref :: nat
  reg_name :: string

type_synonym registry = "registration list"

record world =
  store :: "nat \<Rightarrow> metric option"
  next_id :: nat
  use_null :: bool
  default_registry :: registry

text \<open>
  The other two fields of a \<open>Registry\<close>: the default clock (a \<open>Clock\<close> of
  \<open>clock.ts\<close>, which is not in the sources, so its type is a parameter) and the name
  factory, with their accessors. Nothing in the sources reads them.
\<close>

record 'c registry_settings =
  defaultClock :: 'c
  nameFactory :: "string \<Rightarrow> string \<Rightarrow> metric \<Rightarrow> string"

definition defaultNameFactory :: "string \<Rightarrow> string \<Rightarrow> metric \<Rightarrow> string" where
  "defaultNameFactory baseName metricName metric = baseName @ ''.'' @ metricName"

definition new_registry_settings :: "'c \<Rightarrow> 'c registry_settings" where
  "new_registry_settings stdClock = \<lparr>defaultClock = stdClock, nameFactory = defaultNameFactory\<rparr>"

definition setNameFactory :: "(string \<Rightarrow> string \<Rightarrow> metric \<Rightarrow> string) \<Rightarrow> 'c registry_settings \<Rightarrow> 'c registry_settings" where
  "setNameFactory f s = s\<lparr>nameFactory := f\<rparr>"

definition getDefaultClock :: "'c registry_settings \<Rightarrow> 'c" where
  "getDefaultClock s = defaultClock s"

definition setDefaultClock :: "'c \<Rightarrow> 'c registry_settings \<Rightarrow> 'c registry_settings" where
  "setDefaultClock c s = s\<lparr>defaultClock := c\<rparr>"

text \<open>
  \<open>new C(...)\<close> for a metric class: the constructor takes \<open>k\<close> ids from
  \<open>BaseMetric.COUNTER\<close> (three for a \<open>StandardTimer\<close>, whose meter and histogram
  are metrics too), and the object is stored at its own id.
\<close>

definition alloc :: "nat \<Rightarrow> (nat \<Rightarrow> metric) \<Rightarrow> world \<Rightarrow> nat \<times> world" where
  "alloc k mk w =
     (let r = next_id w in (r, w\<lparr>store := (store w)(r \<mapsto> mk r), next_id := next_id w + k\<rparr>))"

text \<open>\<open>useNullMetrics(t = true)\<close>\<close>

definition useNullMetrics :: "bool option \<Rightarrow> world \<Rightarrow> bool \<times> world" where
  "useNullMetrics t w = (js_default True t, w\<lparr>use_null := js_default True t\<rparr>)"

definition new_Registration :: "nat \<Rightarrow> world \<Rightarrow> registration" where
  "new_Registration r w =
     \<lparr>reg_ref = r, reg_name = (case store w r of Some m \<Rightarrow> metric_getName m | None \<Rightarrow> '''')\<rparr>"

section \<open>Type tests and lists\<close>

fun isCounter :: "metric \<Rightarrow> bool" where
  "isCounter (MCounter (StandardCounter c)) = True"
| "isCounter _ = False"

fun isGauge :: "metric \<Rightarrow> bool" where
  "isGauge (MGauge (StandardGauge g)) = True"
| "isGauge (MGauge (FunctionalGauge g)) = True"
| "isGauge _ = False"

fun isHealthcheck :: "metric \<Rightarrow> bool" where
  "isHealthcheck (MHealthcheck (StandardHealthcheck h)) = True"
| "isHealthcheck _ = False"

fun isHistogram :: "metric \<Rightarrow> bool" where
  "isHistogram (MHistogram (StandardHistogram h)) = True"
| "isHistogram _ = False"

fun isMeter :: "metric \<Rightarrow> bool" where
  "isMeter (MMeter (StandardMeter m)) = True"
| "isMeter _ = False"

fun isTimer :: "metric \<Rightarrow> bool" where
  "isTimer (MTimer (StandardTimer t)) = True"
| "isTimer _ = False"

text \<open>\<open>this.#metrics.filter((m) => Registry.isX(m.metricRef)).map((r) => r.metricRef)\<close>\<close>

definition typed_list :: "(metric \<Rightarrow> bool) \<Rightarrow> world \<Rightarrow> registry \<Rightarrow> nat list" where
  "typed_list is w reg =
     map reg_ref (filter (\<lambda>m. case store w (reg_ref m) of Some x \<Rightarrow> is x | None \<Rightarrow> False) reg)"

definition getCounterList :: "world \<Rightarrow> registry \<Rightarrow> nat list" where
  "getCounterList = typed_list isCounter"

definition getGaugeList :: "world \<Rightarrow> registry \<Rightarrow> nat list" where
  "getGaugeList = typed_list isGauge"

definition getHealthcheckList :: "world \<Rightarrow> registry \<Rightarrow> nat list" where
  "getHealthcheckList = typed_list isHealthcheck"

definition getHistogramList :: "world \<Rightarrow> registry \<Rightarrow> nat list" where
  "getHistogramList = typed_list isHistogram"

definition getMeterList :: "world \<Rightarrow> registry \<Rightarrow> nat list" where
  "getMeterList = typed_list isMeter"

definition getTimerList :: "world \<Rightarrow> registry \<Rightarrow> nat list" where
  "getTimerList = typed_list isTimer"

definition getMetricList :: "registry \<Rightarrow> nat list" where
  "getMetricList reg = map reg_ref reg"

text \<open>\<open>getMetrics()\<close> fills a \<open>Map\<close> in order, a later registration of a name overwriting.\<close>

definition getMetrics :: "registry \<Rightarrow> string \<Rightarrow> nat option" where
  "getMetrics reg = foldl (\<lambda>mp r. mp(reg_name r \<mapsto> reg_ref r)) Map.empty reg"

definition getByName :: "string \<Rightarrow> registry \<Rightarrow> nat list" where
  "getByName name reg = map reg_ref (filter (\<lambda>m. reg_name m = name) reg)"

text \<open>The typed \<open>getXsByName\<close> are casts of \<open>getByName\<close>: they do not check the kind.\<close>

definition getMetricsByName :: "string \<Rightarrow> registry \<Rightarrow> nat list" where
  "getMetricsByName = getByName"

definition getCountersByName :: "string \<Rightarrow> registry \<Rightarrow> nat list" where
  "getCountersByName = getByName"

definition getGaugesByName :: "string \<Rightarrow> registry \<Rightarrow> nat list" where
  "getGaugesByName = getByName"

definition getHealthchecksByName :: "string \<Rightarrow> registry \<Rightarrow> nat list" where
  "getHealthchecksByName = getByName"

definition getHistogramsByName :: "string \<Rightarrow> registry \<Rightarrow> nat list" where
  "getHistogramsByName = getByName"

definition getMetersByName :: "string \<Rightarrow> registry \<Rightarrow> nat list" where
  "getMetersByName = getByName"

definition getTimersByName :: "string \<Rightarrow> registry \<Rightarrow> nat list" where
  "getTimersByName = getByName"

section \<open>Registration and removal\<close>

text \<open>\<open>Array.prototype.indexOf\<close> on references, \<open>None\<close> for \<open>-1\<close>.\<close>

fun index_of :: "'a \<Rightarrow> 'a list \<Rightarrow> nat option" where
  "index_of x [] = None"
| "index_of x (y # ys) = (if x = y then Some 0 else map_option Suc (index_of x ys))"

definition removeMetrics :: "string \<Rightarrow> registry \<Rightarrow> registry" where
  "removeMetrics name reg =
     foldl (\<lambda>reg m. case index_of m (map reg_ref reg) of
                       Some i \<Rightarrow> take i reg @ drop (Suc i) reg
                     | None \<Rightarrow> reg)
       reg (getByName name reg)"

definition registerMetric :: "nat \<Rightarrow> world \<Rightarrow> registry \<Rightarrow> registry" where
  "registerMetric r w reg =
     (case store w r of
        Some m \<Rightarrow> if getByName (metric_getName m) reg \<noteq> [] then reg else reg @ [new_Registration r w]
      | None \<Rightarrow> reg)"

text \<open>\<open>getByName(name)[0]\<close>: the first registration of the name, \<open>undefined\<close> when none.\<close>

definition first_of :: "nat list \<Rightarrow> nat option" where
  "first_of xs = (case xs of [] \<Rightarrow> None | x # _ \<Rightarrow> Some x)"

text \<open>
  The shared body of \<open>getOrRegisterCounter\<close>, \<open>Gauge\<close>, \<open>Meter\<close> and \<open>Timer\<close>:
  two independent guards on \<open>hasName\<close> and the flag, the standard and the null
  constructor (with the ids each takes), and the final lookup.
\<close>

definition get_or_register ::
  "string \<Rightarrow> nat \<times> (nat \<Rightarrow> metric) \<Rightarrow> nat \<times> (nat \<Rightarrow> metric) \<Rightarrow> world \<Rightarrow> registry \<Rightarrow>
   nat option \<times> world \<times> registry" where
  "get_or_register name std nul w reg =
     (let hasName = getByName name reg \<noteq> [];
          (w1, reg1) = (if \<not> hasName \<and> \<not> use_null w
                        then let (r, w') = alloc (fst std) (snd std) w in (w', registerMetric r w' reg)
                        else (w, reg));
          (w2, reg2) = (if \<not> hasName \<and> use_null w1
                        then let (r, w') = alloc (fst nul) (snd nul) w1 in (w', registerMetric r w' reg1)
                        else (w1, reg1))
      in (first_of (getByName name reg2), w2, reg2))"

definition getOrRegisterCounter ::
  "string \<Rightarrow> string option \<Rightarrow> world \<Rightarrow> registry \<Rightarrow> nat option \<times> world \<times> registry" where
  "getOrRegisterCounter name desc =
     get_or_register name (1, \<lambda>i. MCounter (StandardCounter (new_StandardCounter i (Some name) desc)))
       (1, \<lambda>i. MCounter (new_NullCounter i (Some name) desc))"

definition getOrRegisterGauge ::
  "string \<Rightarrow> string option \<Rightarrow> world \<Rightarrow> registry \<Rightarrow> nat option \<times> world \<times> registry" where
  "getOrRegisterGauge name desc =
     get_or_register name (1, \<lambda>i. MGauge (StandardGauge (new_StandardGauge i (Some name) desc)))
       (1, \<lambda>i. MGauge (new_NullGauge i (Some name) desc))"

definition getOrRegisterMeter ::
  "string \<Rightarrow> string option \<Rightarrow> millis \<Rightarrow> world \<Rightarrow> registry \<Rightarrow> nat option \<times> world \<times> registry" where
  "getOrRegisterMeter name desc now =
     get_or_register name (1, \<lambda>i. MMeter (StandardMeter (new_StandardMeter i (Some name) desc now)))
       (1, \<lambda>i. MMeter (new_NullMeter i (Some name) desc))"

definition getOrRegisterTimer ::
  "string \<Rightarrow> string option \<Rightarrow> millis \<Rightarrow> world \<Rightarrow> registry \<Rightarrow> nat option \<times> world \<times> registry" where
  "getOrRegisterTimer name desc now =
     get_or_register name (3, \<lambda>i. MTimer (StandardTimer (new_StandardTimer i (Some name) desc now empty_date_heap)))
       (1, \<lambda>i. MTimer (new_NullTimer i (Some name) desc))"

definition getOrRegisterHealthcheck ::
  "string \<Rightarrow> hc_fn option \<Rightarrow> string option \<Rightarrow> world \<Rightarrow> registry \<Rightarrow> (string + nat option) \<times> world \<times> registry" where
  "getOrRegisterHealthcheck name fn desc w reg =
     (if getByName name reg = [] \<and> fn = None
      then (Inl ''expected fn to be defined for unregistered healthcheck'', w, reg)
      else let f = js_default ([], None) fn;
               (r, w', reg') = get_or_register name
                 (1, \<lambda>i. MHealthcheck (StandardHealthcheck (new_StandardHealthcheck f i (Some name) desc)))
                 (1, \<lambda>i. MHealthcheck (new_NullHealthcheck f i (Some name) desc)) w reg
           in (Inr r, w', reg'))"

text \<open>
  \<open>getOrRegisterHistogram\<close> guards its two constructors also on
  \<open>typeof s !== 'undefined'\<close>, which the throw above them makes true.
\<close>

definition getOrRegisterHistogram ::
  "string \<Rightarrow> sample_obj option \<Rightarrow> string option \<Rightarrow> world \<Rightarrow> registry \<Rightarrow> (string + nat option) \<times> world \<times> registry" where
  "getOrRegisterHistogram name s desc w reg =
     (if getByName name reg = [] \<and> s = None
      then (Inl ''expected sample to be defined for unregistered histogram'', w, reg)
      else case s of
             None \<Rightarrow> (Inr (first_of (getByName name reg)), w, reg)
           | Some smp \<Rightarrow>
               let (r, w', reg') = get_or_register name
                     (1, \<lambda>i. MHistogram (new_StandardHistogram i smp (Some name) desc))
                     (1, \<lambda>i. MHistogram (new_NullHistogram i smp (Some name) desc)) w reg
               in (Inr r, w', reg'))"

section \<open>Running the healthchecks\<close>

text \<open>
  \<open>runAllHealthchecks()\<close> takes the list of healthchecks, then calls \<open>check()\<close> on
  each in order; an exception of one ends the loop and propagates.
\<close>

fun run_checks :: "nat list \<Rightarrow> world \<Rightarrow> (string + unit) \<times> world" where
  "run_checks [] w = (Inr (), w)"
| "run_checks (r # rs) w =
     (case store w r of
        Some (MHealthcheck h) \<Rightarrow>
          (let (res, h') = Healthcheck_check h;
               w' = w\<lparr>store := (store w)(r \<mapsto> MHealthcheck h')\<rparr>
           in case res of Inl e \<Rightarrow> (Inl e, w') | Inr _ \<Rightarrow> run_checks rs w')
      | _ \<Rightarrow> run_checks rs w)"

definition runAllHealthchecks :: "world \<Rightarrow> registry \<Rightarrow> (string + unit) \<times> world" where
  "runAllHealthchecks w reg = run_checks (getHealthcheckList w reg) w"

text \<open>
  What \<open>check()\<close> of the object at a reference returns and leaves there; other
  metrics are not checked.
\<close>

fun check_result :: "metric option \<Rightarrow> string + unit" where
  "check_result (Some (MHealthcheck h)) = fst (Healthcheck_check h)"
| "check_result _ = Inr ()"

fun check_obj :: "metric option \<Rightarrow> metric option" where
  "check_obj (Some (MHealthcheck h)) = Some (MHealthcheck (snd (Healthcheck_check h)))"
| "check_obj x = x"

section \<open>Runs of registry operations\<close>

datatype reg_op = OpCounter string "string option" | OpGauge string "string option"
  | OpMeter string "string option" millis | OpTimer string "string option" millis
  | OpHealthcheck string "hc_fn option" "string option" | OpHistogram string "sample_obj option" "string option"
  | OpRegister nat | OpRemove string | OpRunChecks | OpUseNull "bool option"

fun reg_step :: "reg_op \<Rightarrow> world \<times> registry \<Rightarrow> world \<times> registry" where
  "reg_step (OpCounter n d) (w, reg) = snd (getOrRegisterCounter n d w reg)"
| "reg_step (OpGauge n d) (w, reg) = snd (getOrRegisterGauge n d w reg)"
| "reg_step (OpMeter n d now) (w, reg) = snd (getOrRegisterMeter n d now w reg)"
| "reg_step (OpTimer n d now) (w, reg) = snd (getOrRegisterTimer n d now w reg)"
| "reg_step (OpHealthcheck n f d) (w, reg) = snd (getOrRegisterHealthcheck n f d w reg)"
| "reg_step (OpHistogram n s d) (w, reg) = snd (getOrRegisterHistogram n s d w reg)"
| "reg_step (OpRegister r) (w, reg) = (w, registerMetric r w reg)"
| "reg_step (OpRemove n) (w, reg) = (w, removeMetrics n reg)"
| "reg_step OpRunChecks (w, reg) = (snd (runAllHealthchecks w reg), reg)"
| "reg_step (OpUseNull t) (w, reg) = (snd (useNullMetrics t w), reg)"

definition reg_run :: "reg_op list \<Rightarrow> world \<times> registry \<Rightarrow> world \<times> registry" where
  "reg_run ops s = foldl (\<lambda>s op. reg_step op s) s ops"

text \<open>
  The module's initial state: \<open>BaseMetric.COUNTER = 0\<close>, \<open>_useNullMetrics = false\<close>,
  \<open>defaultRegistry = new Registry()\<close>, and no metric objects yet.
\<close>

definition initial_world :: world where
  "initial_world = \<lparr>store = Map.empty, next_id = 0, use_null = False, default_registry = []\<rparr>"

text \<open>
  Well-formedness of the world and a registry: every registration refers to a stored
  object with an id already handed out, and no object is stored at an id not yet
  handed out.
\<close>

definition world_wf :: "world \<Rightarrow> registry \<Rightarrow> bool" where
  "world_wf w reg \<longleftrightarrow>
     (\<forall>m\<in>set reg. reg_ref m < next_id w \<and> store w (reg_ref m) \<noteq> None) \<and>
     (\<forall>r. next_id w \<le> r \<longrightarrow> store w r = None)"

section \<open>The registry as a map from names to metrics\<close>

text \<open>
  The abstraction of a registry: the map from each registered name to the object of its
  first registration. Its invariant: the world is well formed, names are distinct, and
  each registration's name is the current name of its object. \<open>abs_step\<close> is what
  each operation does to the abstract map: lookup-or-insert with the next id for the
  \<open>getOrRegister\<close> family (none when the required argument is missing), insert if
  absent for \<open>registerMetric\<close>, delete for \<open>removeMetrics\<close>.
\<close>

definition reg_abs :: "registry \<Rightarrow> string \<rightharpoonup> nat" where
  "reg_abs reg = map_of (map (\<lambda>m. (reg_name m, reg_ref m)) reg)"

definition names_current :: "world \<Rightarrow> registry \<Rightarrow> bool" where
  "names_current w reg \<longleftrightarrow> (\<forall>m\<in>set reg. map_option metric_getName (store w (reg_ref m)) = Some (reg_name m))"

definition reg_inv :: "world \<Rightarrow> registry \<Rightarrow> bool" where
  "reg_inv w reg \<longleftrightarrow> world_wf w reg \<and> distinct (map reg_name reg) \<and> names_current w reg"

fun abs_step :: "world \<Rightarrow> reg_op \<Rightarrow> (string \<rightharpoonup> nat) \<Rightarrow> (string \<rightharpoonup> nat)" where
  "abs_step w (OpCounter n d) M = (if n \<in> dom M then M else M(n \<mapsto> next_id w))"
| "abs_step w (OpGauge n d) M = (if n \<in> dom M then M else M(n \<mapsto> next_id w))"
| "abs_step w (OpMeter n d now) M = (if n \<in> dom M then M else M(n \<mapsto> next_id w))"
| "abs_step w (OpTimer n d now) M = (if n \<in> dom M then M else M(n \<mapsto> next_id w))"
| "abs_step w (OpHealthcheck n f d) M = (if n \<in> dom M \<or> f = None then M else M(n \<mapsto> next_id w))"
| "abs_step w (OpHistogram n s d) M = (if n \<in> dom M \<or> s = None then M else M(n \<mapsto> next_id w))"
| "abs_step w (OpRegister r) M =
     (case store w r of None \<Rightarrow> M
      | Some m \<Rightarrow> if metric_getName m \<in> dom M then M else M(metric_getName m \<mapsto> r))"
| "abs_step w (OpRemove n) M = M(n := None)"
| "abs_step w OpRunChecks M = M"
| "abs_step w (OpUseNull t) M = M"

section \<open>Lemmas on lookups and registration\<close>

lemma getByName_append [simp]:
  "getByName name (reg @ [x]) = getByName name reg @ (if reg_name x = name then [reg_ref x] else [])"
  by (simp add: getByName_def)

lemma getByName_Nil_iff: "getByName name reg = [] \<longleftrightarrow> name \<notin> set (map reg_name reg)"
  by (auto simp: getByName_def filter_empty_conv)

lemma first_of_simps [simp]: "first_of [] = None" "first_of (x # xs) = Some x"
  by (simp_all add: first_of_def)

lemma alloc_eq:
  "alloc k mk w = (next_id w, w\<lparr>store := (store w)(next_id w \<mapsto> mk (next_id w)), next_id := next_id w + k\<rparr>)"
  by (simp add: alloc_def Let_def)

lemma getName_constructed [simp]:
  "getName (new_StandardCounter i (Some n) d) = n"
  "metric_getName (MCounter (new_NullCounter i (Some n) d)) = n"
  "getName (new_StandardGauge i (Some n) d) = n"
  "metric_getName (MGauge (new_NullGauge i (Some n) d)) = n"
  "getName (new_StandardMeter i (Some n) d now) = n"
  "metric_getName (MMeter (new_NullMeter i (Some n) d)) = n"
  "getName (new_StandardTimer i (Some n) d now h) = n"
  "metric_getName (MTimer (new_NullTimer i (Some n) d)) = n"
  "getName (new_StandardHealthcheck f i (Some n) d) = n"
  "metric_getName (MHealthcheck (new_NullHealthcheck f i (Some n) d)) = n"
  "metric_getName (MHistogram (new_StandardHistogram i s (Some n) d)) = n"
  "metric_getName (MHistogram (new_NullHistogram i s (Some n) d)) = n"
  by (simp_all add: getName_def new_StandardCounter_def new_NullCounter_def new_StandardGauge_def
      new_NullGauge_def new_StandardMeter_def new_NullMeter_def new_StandardTimer_def new_NullTimer_def
      new_StandardHealthcheck_def new_NullHealthcheck_def new_StandardHistogram_def new_NullHistogram_def Let_def)

lemma getByName_Nil [simp]: "getByName name [] = []"
  by (simp add: getByName_def)

lemma registerMetric_fresh:
  assumes "store w r = Some m"
  shows "registerMetric r w reg =
           (if getByName (metric_getName m) reg \<noteq> [] then reg
            else reg @ [\<lparr>reg_ref = r, reg_name = metric_getName m\<rparr>])"
  using assms by (simp add: registerMetric_def new_Registration_def)

lemma get_or_register_eq:
  assumes "metric_getName (snd std (next_id w)) = name" and "metric_getName (snd nul (next_id w)) = name"
  shows "get_or_register name std nul w reg =
     (case getByName name reg of
        r # _ \<Rightarrow> (Some r, w, reg)
      | [] \<Rightarrow> (let (k, mk) = (if use_null w then nul else std)
              in (Some (next_id w), w\<lparr>store := (store w)(next_id w \<mapsto> mk (next_id w)), next_id := next_id w + k\<rparr>,
                  reg @ [\<lparr>reg_ref = next_id w, reg_name = name\<rparr>])))"
  using assms
  by (cases "getByName name reg")
    (auto simp: get_or_register_def alloc_eq registerMetric_fresh split_def Let_def)

lemma get_or_register_hasName:
  "getByName name reg = r # rs \<Longrightarrow> get_or_register name std nul w reg = (Some r, w, reg)"
  by (simp add: get_or_register_def)

lemma distinct_registerMetric:
  "distinct (map reg_name reg) \<Longrightarrow> distinct (map reg_name (registerMetric r w reg))"
  by (auto simp: registerMetric_def new_Registration_def getByName_Nil_iff split: option.splits)

lemma distinct_get_or_register:
  "distinct (map reg_name reg) \<Longrightarrow> distinct (map reg_name (snd (snd (get_or_register name std nul w reg))))"
  by (simp add: get_or_register_def split_def Let_def distinct_registerMetric)

lemma distinct_remove_nth:
  "distinct xs \<Longrightarrow> distinct (take i xs @ drop (Suc i) xs)"
  using set_take_disj_set_drop_if_distinct [of xs i "Suc i"] by auto

lemma distinct_removeMetrics:
  "distinct (map reg_name reg) \<Longrightarrow> distinct (map reg_name (removeMetrics name reg))"
proof -
  have "distinct (map reg_name reg) \<Longrightarrow>
      distinct (map reg_name (foldl (\<lambda>reg m. case index_of m (map reg_ref reg) of
          Some i \<Rightarrow> take i reg @ drop (Suc i) reg | None \<Rightarrow> reg) reg xs))" for xs
  proof (induction xs arbitrary: reg)
    case (Cons x xs)
    then show ?case
      using distinct_remove_nth [of "map reg_name reg"]
      by (simp split: option.split add: take_map [symmetric] drop_map [symmetric])
  qed simp
  then show "distinct (map reg_name reg) \<Longrightarrow> distinct (map reg_name (removeMetrics name reg))"
    by (simp add: removeMetrics_def)
qed

lemma index_of_Some: "index_of x xs = Some i \<Longrightarrow> x \<in> set xs"
  by (induction xs arbitrary: i) (auto split: if_splits)

lemma remove_first_distinct:
  "distinct (map reg_ref reg) \<Longrightarrow>
   (case index_of x (map reg_ref reg) of Some i \<Rightarrow> take i reg @ drop (Suc i) reg | None \<Rightarrow> reg) =
     filter (\<lambda>m. reg_ref m \<noteq> x) reg"
proof (induction reg)
  case (Cons m reg)
  show ?case
  proof (cases "index_of x (map reg_ref reg)")
    case None
    then show ?thesis using Cons by (auto simp: filter_id_conv)
  next
    case (Some i)
    then show ?thesis using Cons by (auto dest: index_of_Some intro: filter_True [symmetric])
  qed
qed simp

lemma removeMetrics_fold:
  "distinct (map reg_ref reg) \<Longrightarrow>
   foldl (\<lambda>reg m. case index_of m (map reg_ref reg) of
       Some i \<Rightarrow> take i reg @ drop (Suc i) reg | None \<Rightarrow> reg) reg xs =
     filter (\<lambda>m. reg_ref m \<notin> set xs) reg"
proof (induction xs arbitrary: reg)
  case (Cons x xs)
  have "distinct (map reg_ref (filter (\<lambda>m. reg_ref m \<noteq> x) reg))"
    using Cons.prems by (simp add: distinct_map_filter)
  with Cons show ?case by (simp add: remove_first_distinct conj_commute)
qed simp

lemma ref_in_getByName:
  assumes "distinct (map reg_ref reg)" and "m \<in> set reg"
  shows "reg_ref m \<in> set (getByName name reg) \<longleftrightarrow> reg_name m = name"
proof -
  have "inj_on reg_ref (set reg)" using assms(1) by (simp add: distinct_map)
  with assms(2) show ?thesis by (auto simp: getByName_def dest: inj_onD)
qed

lemma reg_run_snoc [simp]: "reg_run (ops @ [op]) s = reg_step op (reg_run ops s)"
  by (simp add: reg_run_def)

lemma distinct_reg_step:
  "distinct (map reg_name (snd s)) \<Longrightarrow> distinct (map reg_name (snd (reg_step op s)))"
  by (cases s, cases op)
    (simp_all add: getOrRegisterCounter_def getOrRegisterGauge_def getOrRegisterMeter_def
      getOrRegisterTimer_def getOrRegisterHealthcheck_def getOrRegisterHistogram_def split_def Let_def
      distinct_get_or_register distinct_registerMetric distinct_removeMetrics split: option.split)

lemma typed_list_fresh:
  assumes "\<forall>m\<in>set reg. reg_ref m < next_id w"
  shows "typed_list is (w\<lparr>store := (store w)(next_id w \<mapsto> x), next_id := n\<rparr>) (reg @ [\<lparr>reg_ref = next_id w, reg_name = name\<rparr>]) =
           typed_list is w reg @ (if is x then [next_id w] else [])"
proof -
  have "filter (\<lambda>m. case ((store w)(next_id w \<mapsto> x)) (reg_ref m) of Some x \<Rightarrow> is x | None \<Rightarrow> False) reg =
        filter (\<lambda>m. case store w (reg_ref m) of Some x \<Rightarrow> is x | None \<Rightarrow> False) reg"
    using assms by (intro filter_cong) auto
  then show ?thesis by (simp add: typed_list_def)
qed

lemma getOrRegisterCounter_eq:
  "getOrRegisterCounter name desc w reg =
     (case getByName name reg of
        r # _ \<Rightarrow> (Some r, w, reg)
      | [] \<Rightarrow> (Some (next_id w),
              w\<lparr>store := (store w)(next_id w \<mapsto>
                   MCounter (if use_null w then new_NullCounter (next_id w) (Some name) desc
                             else StandardCounter (new_StandardCounter (next_id w) (Some name) desc))),
                 next_id := Suc (next_id w)\<rparr>,
              reg @ [\<lparr>reg_ref = next_id w, reg_name = name\<rparr>]))"
  unfolding getOrRegisterCounter_def
  by (subst get_or_register_eq) (simp_all split: list.split)

lemma world_wf_stored: "world_wf w reg \<Longrightarrow> store w r = Some m \<Longrightarrow> r < next_id w"
  by (metis not_less option.distinct(1) world_wf_def)

lemma world_wf_use_null [simp]: "world_wf (w\<lparr>use_null := b\<rparr>) reg = world_wf w reg"
  by (simp add: world_wf_def)

lemma world_wf_registerMetric:
  assumes "world_wf w reg"
  shows "world_wf w (registerMetric r w reg)"
proof (cases "store w r")
  case None
  then show ?thesis using assms by (simp add: registerMetric_def)
next
  case (Some m)
  have "r < next_id w" using world_wf_stored [OF assms Some] .
  with Some assms show ?thesis by (auto simp: world_wf_def registerMetric_def new_Registration_def)
qed

lemma world_wf_alloc:
  assumes "world_wf w reg" and "0 < k"
  shows "world_wf (w\<lparr>store := (store w)(next_id w \<mapsto> x), next_id := next_id w + k\<rparr>) reg"
  using assms by (auto simp: world_wf_def)

lemma world_wf_get_or_register:
  assumes "world_wf w reg" and "0 < fst std" and "0 < fst nul"
  shows "world_wf (fst (snd (get_or_register name std nul w reg))) (snd (snd (get_or_register name std nul w reg)))"
  using assms
  by (auto simp: get_or_register_def alloc_eq split_def Let_def intro!: world_wf_registerMetric world_wf_alloc)

lemma set_removeMetrics: "set (removeMetrics name reg) \<subseteq> set reg"
proof -
  have "set (foldl (\<lambda>reg m. case index_of m (map reg_ref reg) of
          Some i \<Rightarrow> take i reg @ drop (Suc i) reg | None \<Rightarrow> reg) reg xs) \<subseteq> set reg" for xs
  proof (induction xs arbitrary: reg)
    case (Cons x xs)
    have "set (case index_of x (map reg_ref reg) of Some i \<Rightarrow> take i reg @ drop (Suc i) reg | None \<Rightarrow> reg) \<subseteq> set reg"
      by (auto split: option.split dest: in_set_takeD in_set_dropD)
    with Cons.IH show ?case by (simp, blast)
  qed simp
  then show ?thesis by (simp add: removeMetrics_def)
qed

lemma run_checks_frame:
  "next_id (snd (run_checks rs w)) = next_id w \<and>
   (\<forall>r. store (snd (run_checks rs w)) r = None \<longleftrightarrow> store w r = None)"
proof (induction rs arbitrary: w)
  case (Cons r rs)
  then show ?case
    by (auto simp: split_def Let_def split: option.splits metric.splits sum.splits)
qed simp

lemma world_wf_run_checks:
  "world_wf w reg \<Longrightarrow> world_wf (snd (run_checks rs w)) reg"
  using run_checks_frame [of rs w] by (simp add: world_wf_def)

lemma world_wf_reg_step_pair:
  assumes wf: "world_wf w reg"
  shows "world_wf (fst (reg_step op (w, reg))) (snd (reg_step op (w, reg)))"
proof (cases op)
  case (OpRemove n)
  then show ?thesis using wf set_removeMetrics [of n reg] by (auto simp: world_wf_def)
qed (use wf in \<open>simp_all add: getOrRegisterCounter_def getOrRegisterGauge_def getOrRegisterMeter_def
      getOrRegisterTimer_def getOrRegisterHealthcheck_def getOrRegisterHistogram_def world_wf_get_or_register
      world_wf_registerMetric runAllHealthchecks_def world_wf_run_checks useNullMetrics_def split_def Let_def
      split: option.split\<close>)

lemma world_wf_reg_step:
  "world_wf (fst s) (snd s) \<Longrightarrow> world_wf (fst (reg_step op s)) (snd (reg_step op s))"
  using world_wf_reg_step_pair [of "fst s" "snd s" op] by simp

section \<open>Refinement of the name map\<close>

lemma dom_reg_abs [simp]: "dom (reg_abs reg) = set (map reg_name reg)"
  by (force simp: reg_abs_def dom_map_of_conv_image_fst)

lemma reg_abs_snoc [simp]:
  "reg_abs (reg @ [x]) = (if reg_name x \<in> set (map reg_name reg) then reg_abs reg else (reg_abs reg)(reg_name x \<mapsto> reg_ref x))"
proof -
  have eq: "reg_abs (reg @ [x]) = [reg_name x \<mapsto> reg_ref x] ++ reg_abs reg" by (simp add: reg_abs_def)
  show ?thesis
  proof (cases "reg_name x \<in> set (map reg_name reg)")
    case True
    then obtain v where "reg_abs reg (reg_name x) = Some v"
      using dom_reg_abs [of reg] by (metis domD)
    then show ?thesis using True by (auto simp: eq fun_eq_iff map_add_def split: option.split)
  next
    case False
    then have "reg_abs reg (reg_name x) = None"
      using dom_reg_abs [of reg] by (metis domIff)
    then show ?thesis using False by (auto simp: eq fun_eq_iff map_add_def split: option.split)
  qed
qed

lemma reg_abs_filter:
  "reg_abs (filter (\<lambda>m. reg_name m \<noteq> n) reg) = (reg_abs reg)(n := None)"
  by (induction reg) (auto simp: reg_abs_def fun_eq_iff)

lemma getByName_reg_abs:
  "distinct (map reg_name reg) \<Longrightarrow>
   getByName name reg = (case reg_abs reg name of None \<Rightarrow> [] | Some r \<Rightarrow> [r])"
proof (induction reg)
  case (Cons m reg)
  have get: "getByName name (m # reg) = (if reg_name m = name then reg_ref m # getByName name reg else getByName name reg)"
    by (simp add: getByName_def)
  have abs: "reg_abs (m # reg) name = (if name = reg_name m then Some (reg_ref m) else reg_abs reg name)"
    by (simp add: reg_abs_def)
  show ?case
  proof (cases "reg_name m = name")
    case True
    with Cons.prems have "getByName name reg = []" by (simp add: getByName_Nil_iff)
    with True show ?thesis by (simp add: get abs)
  next
    case False
    with Cons show ?thesis by (simp add: get abs)
  qed
qed (simp add: reg_abs_def)

lemma reg_inv_distinct_refs:
  assumes "reg_inv w reg"
  shows "distinct (map reg_ref reg)"
proof -
  have "inj_on reg_ref (set reg)"
  proof (rule inj_onI)
    fix a b assume ab: "a \<in> set reg" "b \<in> set reg" "reg_ref a = reg_ref b"
    have "map_option metric_getName (store w (reg_ref a)) = Some (reg_name a)"
      "map_option metric_getName (store w (reg_ref b)) = Some (reg_name b)"
      using ab(1,2) assms by (auto simp: reg_inv_def names_current_def)
    then have "reg_name a = reg_name b" using ab(3) by simp
    with ab assms show "a = b"
      by (auto simp: reg_inv_def distinct_map dest: inj_onD intro: registration.equality)
  qed
  moreover have "distinct reg" using assms by (simp add: reg_inv_def distinct_map)
  ultimately show ?thesis by (simp add: distinct_map)
qed


lemma names_current_fresh:
  assumes "world_wf w reg" and "names_current w reg"
  shows "names_current (w\<lparr>store := (store w)(next_id w \<mapsto> x), next_id := n\<rparr>) reg"
proof -
  have "\<forall>m\<in>set reg. reg_ref m \<noteq> next_id w" using assms(1) by (auto simp: world_wf_def)
  with assms(2) show ?thesis by (simp add: names_current_def)
qed

lemma get_or_register_refines:
  assumes inv: "reg_inv w reg" and k: "0 < fst std" "0 < fst nul"
    and names: "metric_getName (snd std (next_id w)) = name" "metric_getName (snd nul (next_id w)) = name"
  shows "reg_abs (snd (snd (get_or_register name std nul w reg))) =
           (if name \<in> dom (reg_abs reg) then reg_abs reg else (reg_abs reg)(name \<mapsto> next_id w)) \<and>
         reg_inv (fst (snd (get_or_register name std nul w reg))) (snd (snd (get_or_register name std nul w reg)))"
proof -
  have wf: "world_wf (fst (snd (get_or_register name std nul w reg))) (snd (snd (get_or_register name std nul w reg)))"
    using inv k by (simp add: reg_inv_def world_wf_get_or_register)
  have dist: "distinct (map reg_name (snd (snd (get_or_register name std nul w reg))))"
    using inv by (simp add: reg_inv_def distinct_get_or_register)
  show ?thesis
  proof (cases "getByName name reg")
    case Nil
    then have "name \<notin> set (map reg_name reg)" by (simp add: getByName_Nil_iff)
    moreover have "names_current (w\<lparr>store := (store w)(next_id w \<mapsto> snd (if use_null w then nul else std) (next_id w)),
        next_id := next_id w + fst (if use_null w then nul else std)\<rparr>) reg"
      using inv by (simp add: reg_inv_def names_current_fresh)
    ultimately show ?thesis
      using Nil wf dist names get_or_register_eq [OF names, of reg]
      by (auto simp: reg_inv_def names_current_def split_def split: if_splits)
  next
    case (Cons r rs)
    then have "name \<in> set (map reg_name reg)" using getByName_Nil_iff [of name reg] by auto
    then show ?thesis using Cons inv by (simp add: get_or_register_hasName)
  qed
qed

lemma registerMetric_refines:
  assumes inv: "reg_inv w reg"
  shows "reg_abs (registerMetric r w reg) = abs_step w (OpRegister r) (reg_abs reg) \<and>
         reg_inv w (registerMetric r w reg)"
proof (cases "store w r")
  case None
  then show ?thesis using inv by (simp add: registerMetric_def)
next
  case (Some m)
  have wf: "world_wf w (registerMetric r w reg)" using inv by (simp add: reg_inv_def world_wf_registerMetric)
  have dist: "distinct (map reg_name (registerMetric r w reg))" using inv by (simp add: reg_inv_def distinct_registerMetric)
  show ?thesis
    using Some inv wf dist
    by (auto simp: registerMetric_fresh getByName_Nil_iff reg_inv_def names_current_def)
qed

lemma Healthcheck_check_name [simp]:
  "metric_getName (MHealthcheck (snd (Healthcheck_check h))) = metric_getName (MHealthcheck h)"
  by (cases h) (simp_all add: hc_calls_standard split_def Let_def getName_def)

lemma run_checks_names:
  "map_option metric_getName (store (snd (run_checks rs w)) r) = map_option metric_getName (store w r)"
proof (induction rs arbitrary: w)
  case (Cons x rs)
  then show ?case
    by (auto simp: split_def Let_def hc_calls_standard getName_def
        split: option.splits metric.splits sum.splits healthcheck.splits prod.splits)
qed simp

lemma reg_inv_run_checks:
  "reg_inv w reg \<Longrightarrow> reg_inv (snd (run_checks rs w)) reg"
  by (simp add: reg_inv_def world_wf_run_checks names_current_def run_checks_names)


lemma removeMetrics_filter:
  "distinct (map reg_ref reg) \<Longrightarrow> removeMetrics name reg = filter (\<lambda>m. reg_name m \<noteq> name) reg"
  unfolding removeMetrics_def removeMetrics_fold
  using ref_in_getByName by (auto intro: filter_cong)

lemma removeMetrics_refines:
  assumes inv: "reg_inv w reg"
  shows "reg_abs (removeMetrics n reg) = (reg_abs reg)(n := None) \<and> reg_inv w (removeMetrics n reg)"
proof -
  have eq: "removeMetrics n reg = filter (\<lambda>m. reg_name m \<noteq> n) reg"
    using removeMetrics_filter [OF reg_inv_distinct_refs [OF inv]] .
  have "reg_inv w (filter (\<lambda>m. reg_name m \<noteq> n) reg)"
    using inv by (auto simp: reg_inv_def world_wf_def names_current_def distinct_map_filter)
  then show ?thesis by (simp add: eq reg_abs_filter)
qed

lemma reg_step_refines:
  assumes inv: "reg_inv w reg"
  shows "reg_abs (snd (reg_step op (w, reg))) = abs_step w op (reg_abs reg) \<and>
         reg_inv (fst (reg_step op (w, reg))) (snd (reg_step op (w, reg)))"
proof (cases op)
  case (OpCounter n d)
  then show ?thesis
    using get_or_register_refines [OF inv, of "(1, \<lambda>i. MCounter (StandardCounter (new_StandardCounter i (Some n) d)))"
        "(1, \<lambda>i. MCounter (new_NullCounter i (Some n) d))" n]
    by (simp add: getOrRegisterCounter_def)
next
  case (OpGauge n d)
  then show ?thesis
    using get_or_register_refines [OF inv, of "(1, \<lambda>i. MGauge (StandardGauge (new_StandardGauge i (Some n) d)))"
        "(1, \<lambda>i. MGauge (new_NullGauge i (Some n) d))" n]
    by (simp add: getOrRegisterGauge_def)
next
  case (OpMeter n d now)
  then show ?thesis
    using get_or_register_refines [OF inv, of "(1, \<lambda>i. MMeter (StandardMeter (new_StandardMeter i (Some n) d now)))"
        "(1, \<lambda>i. MMeter (new_NullMeter i (Some n) d))" n]
    by (simp add: getOrRegisterMeter_def)
next
  case (OpTimer n d now)
  then show ?thesis
    using get_or_register_refines [OF inv,
        of "(3, \<lambda>i. MTimer (StandardTimer (new_StandardTimer i (Some n) d now empty_date_heap)))"
        "(1, \<lambda>i. MTimer (new_NullTimer i (Some n) d))" n]
    by (simp add: getOrRegisterTimer_def)
next
  case (OpHealthcheck n f d)
  then show ?thesis
    using get_or_register_refines [OF inv,
        of "(1, \<lambda>i. MHealthcheck (StandardHealthcheck (new_StandardHealthcheck (js_default ([], None) f) i (Some n) d)))"
        "(1, \<lambda>i. MHealthcheck (new_NullHealthcheck (js_default ([], None) f) i (Some n) d))" n]
      inv getByName_Nil_iff [of n reg]
    by (auto simp: getOrRegisterHealthcheck_def split_def Let_def)
next
  case (OpHistogram n s d)
  show ?thesis
  proof (cases s)
    case None
    then show ?thesis using OpHistogram inv getByName_Nil_iff [of n reg]
      by (auto simp: getOrRegisterHistogram_def)
  next
    case (Some smp)
    then show ?thesis
      using OpHistogram get_or_register_refines [OF inv,
          of "(1, \<lambda>i. MHistogram (new_StandardHistogram i smp (Some n) d))"
          "(1, \<lambda>i. MHistogram (new_NullHistogram i smp (Some n) d))" n]
      by (simp add: getOrRegisterHistogram_def split_def Let_def)
  qed
next
  case (OpRegister r)
  then show ?thesis using registerMetric_refines [OF inv, of r] by simp
next
  case (OpRemove n)
  then show ?thesis using removeMetrics_refines [OF inv, of n] by simp
next
  case OpRunChecks
  then show ?thesis using reg_inv_run_checks [OF inv] by (simp add: runAllHealthchecks_def)
next
  case (OpUseNull t)
  then show ?thesis using inv
    by (simp add: useNullMetrics_def reg_inv_def names_current_def world_wf_def)
qed

lemma run_checks_Cons:
  "run_checks (r # rs) w =
     (case check_result (store w r) of
        Inl e \<Rightarrow> (Inl e, w\<lparr>store := (store w)(r := check_obj (store w r))\<rparr>)
      | Inr _ \<Rightarrow> run_checks rs (w\<lparr>store := (store w)(r := check_obj (store w r))\<rparr>))"
  by (cases "store w r" rule: check_obj.cases)
    (auto simp: split_def Let_def map_upd_triv fun_upd_idem split: sum.split)

lemma run_checks_outcome:
  assumes "distinct rs"
  shows "run_checks rs w =
    (let ok = (\<lambda>r. check_result (store w r) = Inr ());
         checked = takeWhile ok rs @ take 1 (dropWhile ok rs)
     in (case dropWhile ok rs of [] \<Rightarrow> Inr () | r # _ \<Rightarrow> check_result (store w r),
         w\<lparr>store := \<lambda>r. if r \<in> set checked then check_obj (store w r) else store w r\<rparr>))"
  using assms
proof (induction rs arbitrary: w)
  case Nil
  then show ?case by simp
next
  case (Cons r rs)
  define ok where "ok = (\<lambda>x. check_result (store w x) = Inr ())"
  let ?w' = "w\<lparr>store := (store w)(r := check_obj (store w r))\<rparr>"
  have nr: "r \<notin> set rs" and d: "distinct rs" using Cons.prems by auto
  have same: "x \<in> set rs \<Longrightarrow> store ?w' x = store w x" for x using nr by auto
  have ok': "(\<lambda>x. check_result (store ?w' x) = Inr ()) x = ok x" if "x \<in> set rs" for x
    using that nr by (auto simp: ok_def)
  have tw: "takeWhile (\<lambda>x. check_result (store ?w' x) = Inr ()) rs = takeWhile ok rs"
    by (rule takeWhile_cong) (use nr in \<open>auto simp: ok_def\<close>)
  have dw: "dropWhile (\<lambda>x. check_result (store ?w' x) = Inr ()) rs = dropWhile ok rs"
    by (rule dropWhile_cong) (use nr in \<open>auto simp: ok_def\<close>)
  have sub: "set (takeWhile ok rs @ take 1 (dropWhile ok rs)) \<subseteq> set rs"
    by (auto dest: set_dropWhileD set_takeWhileD in_set_takeD)
  have hd_in: "dropWhile ok rs = x # xs \<Longrightarrow> x \<in> set rs" for x xs
    by (metis list.set_intros(1) set_dropWhileD)
  have hd_not: "dropWhile ok rs = x # xs \<Longrightarrow> \<not> ok x" for x xs
    by (metis hd_dropWhile list.distinct(1) list.sel(1))
  have IH: "run_checks rs ?w' =
      (case dropWhile ok rs of [] \<Rightarrow> Inr () | x # _ \<Rightarrow> check_result (store w x),
       ?w'\<lparr>store := \<lambda>x. if x \<in> set (takeWhile ok rs @ take 1 (dropWhile ok rs)) then check_obj (store ?w' x)
                        else store ?w' x\<rparr>)"
    using Cons.IH [OF d, of ?w'] hd_in hd_not same by (simp only: Let_def tw dw split: list.split) auto
  show ?case
  proof (cases "check_result (store w r)")
    case (Inl e)
    then show ?thesis by (simp add: run_checks_Cons fun_eq_iff del: run_checks.simps)
  next
    case (Inr u)
    then have u: "ok r" by (simp add: ok_def)
    have st: "(\<lambda>x. if x \<in> set (takeWhile ok rs @ take 1 (dropWhile ok rs)) then check_obj (store ?w' x) else store ?w' x) =
        (\<lambda>x. if x \<in> set (takeWhile ok (r # rs) @ take 1 (dropWhile ok (r # rs))) then check_obj (store w x) else store w x)"
      using u sub nr by (auto simp: fun_eq_iff)
    have "run_checks (r # rs) w = run_checks rs ?w'"
      using Inr by (simp add: run_checks_Cons del: run_checks.simps)
    also have "\<dots> = (case dropWhile ok (r # rs) of [] \<Rightarrow> Inr () | x # _ \<Rightarrow> check_result (store w x),
       w\<lparr>store := \<lambda>x. if x \<in> set (takeWhile ok (r # rs) @ take 1 (dropWhile ok (r # rs))) then check_obj (store w x)
                      else store w x\<rparr>)"
      using u by (simp only: IH st) simp
    finally show ?thesis by (simp only: ok_def Let_def)
  qed
qed


lemma index_of_first: "r \<notin> set xs \<Longrightarrow> index_of r (xs @ r # ys) = Some (length xs)"
  by (induction xs) auto

section \<open>Properties\<close>

text \<open>
  C18. When no metric object is registered twice, \<open>removeMetrics(name)\<close>, which
  looks up each metric of that name and splices out the first registration holding it,
  removes exactly the registrations of that name and keeps the order of the others.
\<close>

theorem removeMetrics_exact:
  assumes "distinct (map reg_ref reg)"
  shows "removeMetrics name reg = filter (\<lambda>m. reg_name m \<noteq> name) reg"
  using assms by (rule removeMetrics_filter)

theorem removeMetrics_exact_witness:
  "removeMetrics ''a'' [\<lparr>reg_ref = 0, reg_name = ''a''\<rparr>, \<lparr>reg_ref = 1, reg_name = ''b''\<rparr>] =
     filter (\<lambda>m. reg_name m \<noteq> ''a'') [\<lparr>reg_ref = 0, reg_name = ''a''\<rparr>, \<lparr>reg_ref = 1, reg_name = ''b''\<rparr>]"
  by (rule removeMetrics_exact) simp

text \<open>
  C19. \<open>removeMetrics(n)\<close> removes by object, not by name. Suppose the one object
  registered under \<open>n\<close> was registered earlier under another name, as happens when
  it is renamed with \<open>setName\<close> and registered again. Then \<open>indexOf\<close> finds that
  earlier registration, which is spliced out, and \<open>n\<close> stays registered.
\<close>

theorem removeMetrics_renamed_object:
  assumes "reg_ref x \<notin> reg_ref ` set xs" and "reg_name x \<noteq> n" and "getByName n (xs @ x # ys) = [reg_ref x]"
  shows "removeMetrics n (xs @ x # ys) = xs @ ys \<and> getByName n (removeMetrics n (xs @ x # ys)) = [reg_ref x]"
proof -
  have "index_of (reg_ref x) (map reg_ref xs @ reg_ref x # map reg_ref ys) = Some (length xs)"
    using assms(1) index_of_first [of "reg_ref x" "map reg_ref xs" "map reg_ref ys"] by auto
  then have rm: "removeMetrics n (xs @ x # ys) = xs @ ys"
    using assms(3) by (simp add: removeMetrics_def)
  have "getByName n (xs @ ys) = getByName n (xs @ x # ys)"
    using assms(2) by (simp add: getByName_def)
  with rm assms(3) show ?thesis by simp
qed

theorem removeMetrics_renamed_object_witness:
  "removeMetrics ''b'' [\<lparr>reg_ref = 0, reg_name = ''a''\<rparr>, \<lparr>reg_ref = 0, reg_name = ''b''\<rparr>] =
     [\<lparr>reg_ref = 0, reg_name = ''b''\<rparr>] \<and>
   getByName ''b'' (removeMetrics ''b'' [\<lparr>reg_ref = 0, reg_name = ''a''\<rparr>, \<lparr>reg_ref = 0, reg_name = ''b''\<rparr>]) = [0]"
  using removeMetrics_renamed_object [of "\<lparr>reg_ref = 0, reg_name = ''a''\<rparr>" "[]" "''b''" "[\<lparr>reg_ref = 0, reg_name = ''b''\<rparr>]"]
  by (simp add: getByName_def)

text \<open>
  C16. Starting from an empty registry, after any sequence of \<open>getOrRegister\<close>,
  \<open>registerMetric\<close>, \<open>removeMetrics\<close>, \<open>runAllHealthchecks\<close> and
  \<open>useNullMetrics\<close> calls, no two registrations have the same name.
\<close>

theorem registry_names_distinct:
  "distinct (map reg_name (snd (reg_run ops (w, []))))"
  by (induction ops rule: rev_induct) (simp_all add: reg_run_def distinct_reg_step)

text \<open>
  C17. \<open>getOrRegisterCounter(name)\<close> returns the first registration of the name,
  whatever kind of metric it holds (a meter registered under that name is returned as
  the counter), and changes nothing; when the name is free it constructs a
  \<open>StandardCounter\<close>, or a \<open>NullCounter\<close> under \<open>useNullMetrics\<close>, with the
  next id, stores it, appends its registration and returns it.
\<close>

theorem getOrRegisterCounter_cases:
  "getOrRegisterCounter name desc w reg =
     (case getByName name reg of
        r # _ \<Rightarrow> (Some r, w, reg)
      | [] \<Rightarrow> (Some (next_id w),
              w\<lparr>store := (store w)(next_id w \<mapsto>
                   MCounter (if use_null w then new_NullCounter (next_id w) (Some name) desc
                             else StandardCounter (new_StandardCounter (next_id w) (Some name) desc))),
                 next_id := Suc (next_id w)\<rparr>,
              reg @ [\<lparr>reg_ref = next_id w, reg_name = name\<rparr>]))"
  by (rule getOrRegisterCounter_eq)

text \<open>
  \<open>getOrRegisterHistogram\<close> without a sample and \<open>getOrRegisterHealthcheck\<close>
  without a function throw their error, changing nothing, when the name is not
  registered; when it is, they return its first registration.
\<close>

theorem getOrRegister_missing_argument:
  "getOrRegisterHistogram name None desc w reg =
     (case getByName name reg of
        [] \<Rightarrow> (Inl ''expected sample to be defined for unregistered histogram'', w, reg)
      | r # _ \<Rightarrow> (Inr (Some r), w, reg)) \<and>
   getOrRegisterHealthcheck name None desc w reg =
     (case getByName name reg of
        [] \<Rightarrow> (Inl ''expected fn to be defined for unregistered healthcheck'', w, reg)
      | r # _ \<Rightarrow> (Inr (Some r), w, reg))"
  by (cases "getByName name reg")
    (simp_all add: getOrRegisterHistogram_def getOrRegisterHealthcheck_def get_or_register_hasName)

text \<open>
  C20. Under \<open>useNullMetrics\<close>, \<open>getOrRegisterCounter\<close> of a new name registers a
  \<open>NullCounter\<close>: it is in \<open>getMetricList()\<close> but \<open>getCounterList()\<close>, which
  tests \<open>instanceof StandardCounter\<close>, is unchanged.
\<close>

theorem null_metrics_unlisted:
  assumes "use_null w" and "getByName name reg = []" and "\<forall>m\<in>set reg. reg_ref m < next_id w"
  shows "fst (getOrRegisterCounter name desc w reg) = Some (next_id w) \<and>
         next_id w \<in> set (getMetricList (snd (snd (getOrRegisterCounter name desc w reg)))) \<and>
         getCounterList (fst (snd (getOrRegisterCounter name desc w reg))) (snd (snd (getOrRegisterCounter name desc w reg))) =
           getCounterList w reg"
  using assms
  by (simp add: getOrRegisterCounter_eq getMetricList_def getCounterList_def typed_list_fresh
      new_NullCounter_def)

theorem null_metrics_unlisted_witness:
  "fst (getOrRegisterCounter ''requests'' None \<lparr>store = Map.empty, next_id = 0, use_null = True, default_registry = []\<rparr> []) =
     Some (next_id \<lparr>store = Map.empty, next_id = 0, use_null = True, default_registry = []\<rparr>) \<and>
   next_id \<lparr>store = Map.empty, next_id = 0, use_null = True, default_registry = []\<rparr> \<in>
     set (getMetricList (snd (snd (getOrRegisterCounter ''requests'' None \<lparr>store = Map.empty, next_id = 0, use_null = True, default_registry = []\<rparr> [])))) \<and>
   getCounterList (fst (snd (getOrRegisterCounter ''requests'' None \<lparr>store = Map.empty, next_id = 0, use_null = True, default_registry = []\<rparr> [])))
       (snd (snd (getOrRegisterCounter ''requests'' None \<lparr>store = Map.empty, next_id = 0, use_null = True, default_registry = []\<rparr> []))) =
     getCounterList \<lparr>store = Map.empty, next_id = 0, use_null = True, default_registry = []\<rparr> []"
  by (rule null_metrics_unlisted) simp_all

text \<open>
  C21. \<open>runAllHealthchecks()\<close> checks the healthchecks of \<open>getHealthcheckList()\<close>
  in order up to and including the first whose function throws: each checked one is left
  as its \<open>check()\<close> leaves it, the error of the throwing one propagates, and the
  healthchecks after it are not checked. When none throws, all are checked and it
  returns normally.
\<close>

theorem runAllHealthchecks_outcome:
  assumes "reg_inv w reg"
  shows "runAllHealthchecks w reg =
     (let hcs = getHealthcheckList w reg; ok = (\<lambda>r. check_result (store w r) = Inr ());
          checked = takeWhile ok hcs @ take 1 (dropWhile ok hcs)
      in (case dropWhile ok hcs of [] \<Rightarrow> Inr () | r # _ \<Rightarrow> check_result (store w r),
          w\<lparr>store := \<lambda>r. if r \<in> set checked then check_obj (store w r) else store w r\<rparr>))"
proof -
  have "distinct (getHealthcheckList w reg)"
    using reg_inv_distinct_refs [OF assms] by (simp add: getHealthcheckList_def typed_list_def distinct_map_filter)
  then show ?thesis by (simp add: runAllHealthchecks_def run_checks_outcome Let_def)
qed

theorem runAllHealthchecks_outcome_witness:
  "runAllHealthchecks \<lparr>store = [0 \<mapsto> MHealthcheck (StandardHealthcheck (new_StandardHealthcheck ([HcUnhealthy ''slow''], Some ''down'') 0 (Some ''db'') None)),
                  1 \<mapsto> MHealthcheck (StandardHealthcheck (new_StandardHealthcheck ([], None) 1 (Some ''cache'') None))],
         next_id = 2, use_null = False, default_registry = []\<rparr> [\<lparr>reg_ref = 0, reg_name = ''db''\<rparr>, \<lparr>reg_ref = 1, reg_name = ''cache''\<rparr>] =
     (let hcs = getHealthcheckList \<lparr>store = [0 \<mapsto> MHealthcheck (StandardHealthcheck (new_StandardHealthcheck ([HcUnhealthy ''slow''], Some ''down'') 0 (Some ''db'') None)),
                  1 \<mapsto> MHealthcheck (StandardHealthcheck (new_StandardHealthcheck ([], None) 1 (Some ''cache'') None))],
         next_id = 2, use_null = False, default_registry = []\<rparr> [\<lparr>reg_ref = 0, reg_name = ''db''\<rparr>, \<lparr>reg_ref = 1, reg_name = ''cache''\<rparr>]; ok = (\<lambda>r. check_result (store \<lparr>store = [0 \<mapsto> MHealthcheck (StandardHealthcheck (new_StandardHealthcheck ([HcUnhealthy ''slow''], Some ''down'') 0 (Some ''db'') None)),
                  1 \<mapsto> MHealthcheck (StandardHealthcheck (new_StandardHealthcheck ([], None) 1 (Some ''cache'') None))],
         next_id = 2, use_null = False, default_registry = []\<rparr> r) = Inr ());
          checked = takeWhile ok hcs @ take 1 (dropWhile ok hcs)
      in (case dropWhile ok hcs of [] \<Rightarrow> Inr () | r # _ \<Rightarrow> check_result (store \<lparr>store = [0 \<mapsto> MHealthcheck (StandardHealthcheck (new_StandardHealthcheck ([HcUnhealthy ''slow''], Some ''down'') 0 (Some ''db'') None)),
                  1 \<mapsto> MHealthcheck (StandardHealthcheck (new_StandardHealthcheck ([], None) 1 (Some ''cache'') None))],
         next_id = 2, use_null = False, default_registry = []\<rparr> r),
          \<lparr>store = [0 \<mapsto> MHealthcheck (StandardHealthcheck (new_StandardHealthcheck ([HcUnhealthy ''slow''], Some ''down'') 0 (Some ''db'') None)),
                  1 \<mapsto> MHealthcheck (StandardHealthcheck (new_StandardHealthcheck ([], None) 1 (Some ''cache'') None))],
         next_id = 2, use_null = False, default_registry = []\<rparr>\<lparr>store := \<lambda>r. if r \<in> set checked then check_obj (store \<lparr>store = [0 \<mapsto> MHealthcheck (StandardHealthcheck (new_StandardHealthcheck ([HcUnhealthy ''slow''], Some ''down'') 0 (Some ''db'') None)),
                  1 \<mapsto> MHealthcheck (StandardHealthcheck (new_StandardHealthcheck ([], None) 1 (Some ''cache'') None))],
         next_id = 2, use_null = False, default_registry = []\<rparr> r) else store \<lparr>store = [0 \<mapsto> MHealthcheck (StandardHealthcheck (new_StandardHealthcheck ([HcUnhealthy ''slow''], Some ''down'') 0 (Some ''db'') None)),
                  1 \<mapsto> MHealthcheck (StandardHealthcheck (new_StandardHealthcheck ([], None) 1 (Some ''cache'') None))],
         next_id = 2, use_null = False, default_registry = []\<rparr> r\<rparr>))"
  by (rule runAllHealthchecks_outcome)
    (simp add: reg_inv_def world_wf_def names_current_def new_StandardHealthcheck_def getName_def)

text \<open>
  Every registry operation keeps the world well formed: registrations point to
  stored objects, and \<open>BaseMetric.COUNTER\<close> stays above every stored id, so a new
  metric never overwrites an object the application or a registry still holds.
\<close>

theorem registry_world_wf:
  "world_wf w reg \<Longrightarrow> world_wf (fst (reg_run ops (w, reg))) (snd (reg_run ops (w, reg)))"
  by (induction ops rule: rev_induct) (simp_all add: reg_run_def world_wf_reg_step)

theorem registry_world_wf_witness:
  "world_wf (fst (reg_run [OpCounter ''requests'' None, OpTimer ''latency'' None 0, OpRemove ''requests'']
       (initial_world, []))) (snd (reg_run [OpCounter ''requests'' None, OpTimer ''latency'' None 0, OpRemove ''requests'']
       (initial_world, [])))"
  by (rule registry_world_wf) (simp add: world_wf_def initial_world_def)

text \<open>
  C15. The registry refines a map from names to metric references. Under the invariant
  (a well-formed world, distinct names, and each registration named as its object is),
  \<open>getByName\<close> is a lookup in the abstract map \<open>reg_abs\<close>, every registry
  operation acts on the abstract map as \<open>abs_step\<close> says (lookup-or-insert with the
  next id, insert if absent, delete, or nothing), and keeps the invariant.
\<close>

theorem registry_refines_map:
  assumes "reg_inv w reg"
  shows "getByName name reg = (case reg_abs reg name of None \<Rightarrow> [] | Some r \<Rightarrow> [r]) \<and>
         reg_abs (snd (reg_step op (w, reg))) = abs_step w op (reg_abs reg) \<and>
         reg_inv (fst (reg_step op (w, reg))) (snd (reg_step op (w, reg)))"
  using reg_step_refines [OF assms, of op] getByName_reg_abs [of reg name] assms
  by (simp add: reg_inv_def)

theorem registry_refines_map_witness:
  "getByName ''requests'' [] = (case reg_abs [] ''requests'' of None \<Rightarrow> [] | Some r \<Rightarrow> [r]) \<and>
   reg_abs (snd (reg_step (OpCounter ''requests'' None) (initial_world, []))) =
     abs_step initial_world (OpCounter ''requests'' None) (reg_abs []) \<and>
   reg_inv (fst (reg_step (OpCounter ''requests'' None) (initial_world, [])))
     (snd (reg_step (OpCounter ''requests'' None) (initial_world, [])))"
  by (rule registry_refines_map) (simp add: reg_inv_def world_wf_def names_current_def initial_world_def)

end
