(* ===== verification/Reporter.thy ===== *)
theory Reporter
  imports Registry
begin

text \<open>
  The reporters: the abstract class \<open>Reporter\<close> of \<open>src/src/metric.ts\<close> (lines
  152--292), the Graphite driver of \<open>src/src/graphite.ts\<close> and the InfluxDB v2
  driver of \<open>src/src/influxDBv2.ts\<close>. A report of one metric is the list of lines it
  writes (to the console, the socket or the HTTP payload), each line as the metric path,
  the value the template reads from the metric (\<open>None\<close> for \<open>undefined\<close>) and the
  timestamp; the conversion of numbers to decimal text by the template literal is not
  modelled, and \<open>influx_render\<close> takes it as a parameter. Taking a snapshot of a
  histogram, a meter or a timer changes the object (it sorts the sample, ticks the
  EWMAs), so a report is a function of the store of \<open>Registry\<close> that writes the
  object back. The readings of \<open>Date.now()\<close> and the results of a
  \<open>FunctionalGauge\<close>'s function during a report are parameters (\<open>call_env\<close>).

  The life cycle \<open>start\<close>/\<open>stop\<close> is a step relation over the interval timers of
  the JavaScript event loop (\<open>js_timers\<close>), generic in what a flush does. The
  Graphite socket is the sequence of calls made on it, and the network is the events it
  emits. The InfluxDB \<open>POST\<close> is its outcome, and a callback is the default one or an
  application function by name.
\<close>

section \<open>Reading a snapshot\<close>

text \<open>
  \<open>obj.a\<close> and \<open>obj.a.b\<close> in a template literal: a missing property reads
  \<open>undefined\<close> (\<open>None\<close>). The snapshots always hold an object at \<open>percentile\<close>,
  the only key read at depth two.
\<close>

fun js_path :: "jsobj \<Rightarrow> string list \<Rightarrow> jsval option" where
  "js_path obj [] = None"
| "js_path obj [k] = obj_get obj k"
| "js_path obj (k # ks) = (case obj_get obj k of Some (JObj obj') \<Rightarrow> js_path obj' ks | _ \<Rightarrow> None)"

text \<open>\<open>(hc.healthy) ? 1 : 0\<close>: JavaScript truthiness.\<close>

fun js_truthy :: "jsval option \<Rightarrow> bool" where
  "js_truthy None = False"
| "js_truthy (Some (JNum x)) = (x \<noteq> 0)"
| "js_truthy (Some (JStr s)) = (s \<noteq> [])"
| "js_truthy (Some (JBool b)) = b"
| "js_truthy (Some JNull) = False"
| "js_truthy (Some JNaN) = False"
| "js_truthy (Some (JErr e)) = True"
| "js_truthy (Some (JObj obj)) = True"

text \<open>\<open>(m as Counter)\<close> and the other casts, applied after the matching \<open>Registry.isX(m)\<close>.\<close>

fun as_counter :: "metric \<Rightarrow> counter" where "as_counter (MCounter c) = c"
fun as_gauge :: "metric \<Rightarrow> gauge" where "as_gauge (MGauge g) = g"
fun as_healthcheck :: "metric \<Rightarrow> healthcheck" where "as_healthcheck (MHealthcheck h) = h"
fun as_histogram :: "metric \<Rightarrow> histogram" where "as_histogram (MHistogram h) = h"
fun as_meter :: "metric \<Rightarrow> meter" where "as_meter (MMeter m) = m"
fun as_timer :: "metric \<Rightarrow> timer" where "as_timer (MTimer t) = t"

text \<open>
  What one report call reads from outside: \<open>Date.now()\<close> for the timestamp, the
  clock the snapshot's rates read, and what a \<open>FunctionalGauge\<close>'s function returns.
\<close>

record call_env =
  ce_ts :: millis
  ce_now :: millis
  ce_fn :: jsnum

type_synonym line = "string \<times> jsval option \<times> int"

definition metric_lines :: "string \<Rightarrow> int \<Rightarrow> jsobj \<Rightarrow> (string \<times> string list) list \<Rightarrow> line list" where
  "metric_lines name ts obj keys = map (\<lambda>(suffix, path). (name @ ''.'' @ suffix, js_path obj path, ts)) keys"

text \<open>The snapshot of the metric kinds with a snapshot that changes the object.\<close>

definition snapshot_of :: "millis \<Rightarrow> metric \<Rightarrow> jsobj \<times> metric" where
  "snapshot_of now m =
     (if isHistogram m then map_prod id MHistogram (Histogram_snapshot (as_histogram m))
      else if isMeter m then map_prod id MMeter (Meter_snapshot now (as_meter m))
      else map_prod id MTimer (Timer_snapshot now (as_timer m)))"

section \<open>The Reporter base class\<close>

record reporter =
  rep_process :: "nat option"
  rep_flushInterval :: jsnum

definition new_Reporter :: "jsnum \<Rightarrow> string + reporter" where
  "new_Reporter flushInterval =
     (if flushInterval \<le> 0 then Inl ''flushInterval must be > 0''
      else Inr \<lparr>rep_process = None, rep_flushInterval = flushInterval\<rparr>)"

definition writer_histogram_fields :: "(string \<times> string list) list" where
  "writer_histogram_fields =
     [(''count'', [''count'']), (''min'', [''min'']), (''max'', [''max'']), (''mean'', [''mean'']),
      (''sum'', [''sum'']), (''stddev'', [''stddev'']), (''variance'', [''variance'']),
      (''median'', [''median'']), (''percentile.75'', [''percentile'', ''_75'']),
      (''percentile.95'', [''percentile'', ''_95'']), (''percentile.99'', [''percentile'', ''_99'']),
      (''percentile.99_9'', [''percentile'', ''_99_9''])]"

definition meter_fields :: "(string \<times> string list) list" where
  "meter_fields =
     [(''count'', [''count'']), (''rate.1min'', [''rate1'']), (''rate.5min'', [''rate5'']),
      (''rate.15min'', [''rate15'']), (''rate.mean'', [''rateMean''])]"

definition timer_fields :: "(string \<times> string list) list" where
  "timer_fields =
     [(''count'', [''count'']), (''min'', [''min'']), (''max'', [''max'']), (''mean'', [''mean'']),
      (''sum'', [''sum'']), (''stddev'', [''stddev'']), (''variance'', [''variance'']),
      (''median'', [''median'']), (''percentile.75'', [''percentile'', ''_75'']),
      (''percentile.95'', [''percentile'', ''_95'']), (''percentile.99'', [''percentile'', ''_99'']),
      (''percentile.99_9'', [''percentile'', ''_99_9'']), (''rate.1min'', [''rate1'']),
      (''rate.5min'', [''rate5'']), (''rate.15min'', [''rate15'']), (''rate.mean'', [''rateMean''])]"

text \<open>\<open>defaultWriter(m)\<close>: one console line per value; healthchecks are not written.\<close>

definition Reporter_defaultWriter :: "call_env \<Rightarrow> metric \<Rightarrow> line list \<times> metric" where
  "Reporter_defaultWriter e m =
     (let name = metric_getName m; ts = ce_ts e div 1000
      in if isCounter m then ([(name, Some (JNum (Counter_count (as_counter m))), ts)], m)
         else if isGauge m then ([(name, Some (JNum (Gauge_value (ce_fn e) (as_gauge m))), ts)], m)
         else if isHistogram m then
           (let (h, m') = snapshot_of (ce_now e) m in (metric_lines name ts h writer_histogram_fields, m'))
         else if isMeter m then
           (let (s, m') = snapshot_of (ce_now e) m in (metric_lines name ts s meter_fields, m'))
         else if isTimer m then
           (let (t, m') = snapshot_of (ce_now e) m in (metric_lines name ts t timer_fields, m'))
         else ([], m))"

text \<open>
  The loop of \<open>once()\<close> over \<open>getMetricList()\<close>: the \<open>i\<close>-th call reads
  \<open>env i\<close>, and the object it changed is written back before the next call.
\<close>

fun report_from ::
  "(call_env \<Rightarrow> metric \<Rightarrow> 'l list \<times> metric) \<Rightarrow> (nat \<Rightarrow> call_env) \<Rightarrow> nat \<Rightarrow> nat list \<Rightarrow> world \<Rightarrow>
   'l list \<times> world" where
  "report_from rep env i [] w = ([], w)"
| "report_from rep env i (r # rs) w =
     (case store w r of
        None \<Rightarrow> report_from rep env (Suc i) rs w
      | Some m \<Rightarrow>
          (let (ls, m') = rep (env i) m;
               (ls', w') = report_from rep env (Suc i) rs (w\<lparr>store := (store w)(r \<mapsto> m')\<rparr>)
           in (ls @ ls', w')))"

definition Reporter_once :: "(nat \<Rightarrow> call_env) \<Rightarrow> world \<Rightarrow> registry \<Rightarrow> line list \<times> world" where
  "Reporter_once env w reg = report_from Reporter_defaultWriter env 0 (getMetricList reg) w"

text \<open>
  The interval timers of the event loop: the active handles and the next handle
  \<open>setInterval\<close> returns. \<open>clearInterval(undefined)\<close> does nothing.
\<close>

record js_timers =
  intervals :: "nat list"
  next_handle :: nat

definition clearInterval :: "nat option \<Rightarrow> js_timers \<Rightarrow> js_timers" where
  "clearInterval h tm = (case h of None \<Rightarrow> tm | Some h \<Rightarrow> tm\<lparr>intervals := removeAll h (intervals tm)\<rparr>)"

definition setInterval :: "js_timers \<Rightarrow> nat \<times> js_timers" where
  "setInterval tm =
     (next_handle tm, tm\<lparr>intervals := intervals tm @ [next_handle tm], next_handle := Suc (next_handle tm)\<rparr>)"

text \<open>\<open>start()\<close> is \<open>async\<close> but awaits nothing: its body runs to the end at the call.\<close>

definition Reporter_start :: "reporter \<Rightarrow> js_timers \<Rightarrow> reporter \<times> js_timers" where
  "Reporter_start r tm =
     (let (h, tm') = setInterval (clearInterval (rep_process r) tm) in (r\<lparr>rep_process := Some h\<rparr>, tm'))"

definition Reporter_stop :: "reporter \<Rightarrow> js_timers \<Rightarrow> js_timers" where
  "Reporter_stop r tm = clearInterval (rep_process r) tm"

section \<open>Graphite\<close>

record graphite_config =
  gc_port :: jsnum
  gc_addr :: string
  gc_flush_interval :: jsnum
  gc_prefix :: string

text \<open>
  The socket is recorded by the calls the driver makes on it, in order; what the network
  then does is outside the sources and shows only as the events it emits. A callback
  held in \<open>#errorCb\<close> is the default one or a function of the application.
\<close>

datatype sock_call = SConnect jsnum string | SSetKeepAlive bool jsnum | SDestroy

datatype error_cb = DefaultErrorCb | UserErrorCb nat

record graphite = reporter +
  g_config :: graphite_config
  g_socket :: "sock_call list"
  g_errorCb :: error_cb

text \<open>
  The constructor: \<open>super(...)\<close> may throw; then the fields \<open>#socket\<close> and
  \<open>#errorCb\<close> are initialised, the event handlers installed (\<open>graphite_on\<close>), and
  the socket connected with keep-alive.
\<close>

definition new_Graphite :: "graphite_config \<Rightarrow> string + graphite" where
  "new_Graphite config =
     (case new_Reporter (gc_flush_interval config) of
        Inl e \<Rightarrow> Inl e
      | Inr r \<Rightarrow> Inr \<lparr>rep_process = rep_process r, rep_flushInterval = rep_flushInterval r, g_config = config,
                    g_socket = [SConnect (gc_port config) (gc_addr config), SSetKeepAlive True 2000],
                    g_errorCb = DefaultErrorCb\<rparr>)"

datatype sock_event = EvConnectionAttemptFailed | EvConnectionAttemptTimeout | EvDrop | EvClose
  | EvError string | EvTimeout

text \<open>
  The handlers the constructor installs: each calls the current \<open>#errorCb\<close> with a
  new \<open>Error\<close> (its message), and all but the \<open>error\<close> handler destroy the socket.
  The result is the driver afterwards and the callback calls made.
\<close>

fun graphite_on :: "sock_event \<Rightarrow> graphite \<Rightarrow> graphite \<times> (error_cb \<times> string) list" where
  "graphite_on EvConnectionAttemptFailed g =
     (g\<lparr>g_socket := g_socket g @ [SDestroy]\<rparr>, [(g_errorCb g, ''connectionAttemptFailed'')])"
| "graphite_on EvConnectionAttemptTimeout g =
     (g\<lparr>g_socket := g_socket g @ [SDestroy]\<rparr>, [(g_errorCb g, ''connectionAttemptTimeout'')])"
| "graphite_on EvDrop g = (g\<lparr>g_socket := g_socket g @ [SDestroy]\<rparr>, [(g_errorCb g, ''drop'')])"
| "graphite_on EvClose g = (g\<lparr>g_socket := g_socket g @ [SDestroy]\<rparr>, [(g_errorCb g, ''close'')])"
| "graphite_on (EvError name) g = (g, [(g_errorCb g, name)])"
| "graphite_on EvTimeout g = (g\<lparr>g_socket := g_socket g @ [SDestroy]\<rparr>, [(g_errorCb g, ''timeout'')])"

definition Graphite_connect :: "jsnum \<Rightarrow> string \<Rightarrow> graphite \<Rightarrow> graphite" where
  "Graphite_connect port addr g =
     g\<lparr>g_config := (g_config g)\<lparr>gc_port := port, gc_addr := addr\<rparr>, g_socket := g_socket g @ [SConnect port addr]\<rparr>"

text \<open>\<open>defaultErrorCb(err)\<close> logs \<open>[GRAPHITE ERROR] ${err}\<close>; an \<open>Error\<close> prints as \<open>Error: message\<close>.\<close>

definition Graphite_defaultErrorCb :: "string \<Rightarrow> string" where
  "Graphite_defaultErrorCb msg = ''[GRAPHITE ERROR] Error: '' @ msg"

definition Graphite_onError :: "error_cb \<Rightarrow> graphite \<Rightarrow> graphite" where
  "Graphite_onError fn g = g\<lparr>g_errorCb := fn\<rparr>"

definition getProperName :: "string \<Rightarrow> metric \<Rightarrow> string" where
  "getProperName prefix m = (if prefix \<noteq> '''' then prefix @ ''.'' @ metric_getName m else metric_getName m)"

definition graphite_histogram_fields :: "(string \<times> string list) list" where
  "graphite_histogram_fields =
     [(''count'', [''count'']), (''max'', [''max'']), (''mean'', [''mean'']), (''min'', [''min'']),
      (''stdDev'', [''stdDev'']), (''sum'', [''sum'']), (''variance'', [''variance'']),
      (''percentile.median'', [''percentile'', ''median'']),
      (''percentile.75'', [''percentile'', ''_75'']), (''percentile.95'', [''percentile'', ''_95'']),
      (''percentile.99'', [''percentile'', ''_99'']), (''percentile.99_9'', [''percentile'', ''_99_9''])]"

text \<open>
  \<open>reporter(m)\<close>: the healthcheck branch has no \<open>return\<close> and falls through to the
  later tests, which a healthcheck fails.
\<close>

definition graphite_reporter :: "string \<Rightarrow> call_env \<Rightarrow> metric \<Rightarrow> line list \<times> metric" where
  "graphite_reporter prefix e m =
     (let name = getProperName prefix m; ts = ce_ts e div 1000
      in if isCounter m then ([(name, Some (JNum (Counter_count (as_counter m))), ts)], m)
         else if isGauge m then ([(name, Some (JNum (Gauge_value (ce_fn e) (as_gauge m))), ts)], m)
         else
           (let hc = (if isHealthcheck m
                      then [(name @ ''.healthy'',
                             Some (JNum (if js_truthy (obj_get (Healthcheck_snapshot (as_healthcheck m)) ''healthy'')
                                         then 1 else 0)), ts)]
                      else [])
            in if isHistogram m then
                 (let (h, m') = snapshot_of (ce_now e) m in (hc @ metric_lines name ts h graphite_histogram_fields, m'))
               else if isMeter m then
                 (let (s, m') = snapshot_of (ce_now e) m in (hc @ metric_lines name ts s meter_fields, m'))
               else if isTimer m then
                 (let (t, m') = snapshot_of (ce_now e) m in (hc @ metric_lines name ts t timer_fields, m'))
               else (hc, m)))"

definition Graphite_once :: "graphite \<Rightarrow> (nat \<Rightarrow> call_env) \<Rightarrow> world \<Rightarrow> registry \<Rightarrow> line list \<times> world" where
  "Graphite_once g env w reg = report_from (graphite_reporter (gc_prefix (g_config g))) env 0 (getMetricList reg) w"

text \<open>\<open>stop()\<close>: \<open>super.stop()\<close> clears the interval, then the socket is destroyed.\<close>

definition Graphite_stop :: "graphite \<Rightarrow> js_timers \<Rightarrow> graphite \<times> js_timers" where
  "Graphite_stop g tm = (g\<lparr>g_socket := g_socket g @ [SDestroy]\<rparr>, Reporter_stop (reporter.truncate g) tm)"

section \<open>InfluxDB v2\<close>

record influx_config =
  ic_addr :: string
  ic_token :: string
  ic_org :: string
  ic_bucket :: string
  ic_flush_interval :: jsnum

text \<open>The constructor builds the write URL and the \<open>Authorization\<close> header of the HTTP client.\<close>

datatype res_cb = DefaultResCb | UserResCb nat

record influxdb = reporter +
  i_config :: influx_config
  i_baseURL :: string
  i_authorization :: string
  i_errorCb :: error_cb
  i_resCb :: res_cb

definition new_InfluxDBv2 :: "influx_config \<Rightarrow> string + influxdb" where
  "new_InfluxDBv2 config =
     (case new_Reporter (ic_flush_interval config) of
        Inl e \<Rightarrow> Inl e
      | Inr r \<Rightarrow> Inr \<lparr>rep_process = rep_process r, rep_flushInterval = rep_flushInterval r, i_config = config,
                    i_baseURL = ic_addr config @ ''/api/v2/write?org='' @ ic_org config @ ''&bucket='' @
                                ic_bucket config @ ''&precision=ms'',
                    i_authorization = ''Token '' @ ic_token config,
                    i_errorCb = DefaultErrorCb, i_resCb = DefaultResCb\<rparr>)"

text \<open>A line of the InfluxDB line protocol: measurement, fields, timestamp if written.\<close>

type_synonym influx_line = "string \<times> (string \<times> jsval option) list \<times> int option"

definition influx_fields :: "jsobj \<Rightarrow> (string \<times> string list) list \<Rightarrow> (string \<times> jsval option) list" where
  "influx_fields obj keys = map (\<lambda>(k, path). (k, js_path obj path)) keys"

definition influx_histogram_fields :: "(string \<times> string list) list" where
  "influx_histogram_fields =
     [(''count'', [''count'']), (''min'', [''min'']), (''max'', [''max'']), (''mean'', [''mean'']),
      (''sum'', [''sum'']), (''stddev'', [''stddev'']), (''variance'', [''variance'']),
      (''median'', [''median'']), (''percentile_75'', [''percentile'', ''_75'']),
      (''percentile_95'', [''percentile'', ''_95'']), (''percentile_99'', [''percentile'', ''_99'']),
      (''percentile_99_9'', [''percentile'', ''_99_9''])]"

definition influx_meter_fields :: "(string \<times> string list) list" where
  "influx_meter_fields =
     [(''count'', [''count'']), (''rate_1min'', [''rate1'']), (''rate_5min'', [''rate5'']),
      (''rate_15min'', [''rate15'']), (''rate_mean'', [''rateMean''])]"

definition influx_timer_fields :: "(string \<times> string list) list" where
  "influx_timer_fields =
     [(''count'', [''count'']), (''min'', [''min'']), (''max'', [''max'']), (''mean'', [''mean'']),
      (''sum'', [''sum'']), (''stddev'', [''stddev'']), (''variance'', [''variance'']),
      (''median'', [''median'']), (''percentile_75'', [''percentile'', ''_75'']),
      (''percentile_95'', [''percentile'', ''_95'']), (''percentile_99'', [''percentile'', ''_99'']),
      (''percentile_99_9'', [''percentile'', ''_99_9'']), (''rate_1min'', [''rate1'']),
      (''rate_5min'', [''rate5'']), (''rate_15min'', [''rate15'']), (''rate_mean'', [''rateMean''])]"

text \<open>\<open>reporter(m)\<close>: the timer's template ends without \<open>${ts}\<close>; other kinds return \<open>''\<close>.\<close>

definition influx_reporter :: "call_env \<Rightarrow> metric \<Rightarrow> influx_line list \<times> metric" where
  "influx_reporter e m =
     (let ts = ce_ts e; name = metric_getName m
      in if isCounter m then ([(name, [(''counter'', Some (JNum (Counter_count (as_counter m))))], Some ts)], m)
         else if isGauge m then ([(name, [(''gauge'', Some (JNum (Gauge_value (ce_fn e) (as_gauge m))))], Some ts)], m)
         else if isHistogram m then
           (let (h, m') = snapshot_of (ce_now e) m in ([(name, influx_fields h influx_histogram_fields, Some ts)], m'))
         else if isMeter m then
           (let (s, m') = snapshot_of (ce_now e) m in ([(name, influx_fields s influx_meter_fields, Some ts)], m'))
         else if isTimer m then
           (let (t, m') = snapshot_of (ce_now e) m in ([(name, influx_fields t influx_timer_fields, None)], m'))
         else ([], m))"

fun comma_join :: "string list \<Rightarrow> string" where
  "comma_join [] = []"
| "comma_join [x] = x"
| "comma_join (x # xs) = x @ '','' @ comma_join xs"

text \<open>The text of a line, given the conversion \<open>str\<close> a template literal applies to a value.\<close>

definition influx_render :: "(jsval option \<Rightarrow> string) \<Rightarrow> influx_line \<Rightarrow> string" where
  "influx_render str l =
     (case l of (name, fs, ts) \<Rightarrow>
        name @ '' '' @ comma_join (map (\<lambda>(k, v). k @ ''='' @ str v) fs) @
        (case ts of Some t \<Rightarrow> '' '' @ str (Some (JNum (of_int t))) | None \<Rightarrow> []) @ [CHR 0x0A])"

text \<open>\<open>once()\<close>: the payload of the \<open>POST\<close>; its settlement is \<open>InfluxDBv2_settle\<close> below.\<close>

definition InfluxDBv2_once ::
  "(jsval option \<Rightarrow> string) \<Rightarrow> (nat \<Rightarrow> call_env) \<Rightarrow> world \<Rightarrow> registry \<Rightarrow> string \<times> world" where
  "InfluxDBv2_once str env w reg =
     (let (ls, w') = report_from influx_reporter env 0 (getMetricList reg) w
      in (concat (map (influx_render str) ls), w'))"

text \<open>
  The settlement of \<open>this.#caller.post('', payload).then(this.#resCb).catch(this.#errorCb)\<close>:
  a failed request passes its error (with its \<open>code\<close>) to \<open>#errorCb\<close>; a response goes
  to \<open>#resCb\<close>, and an error that callback throws (whose \<open>code\<close> is the
  parameter) is caught by the same \<open>catch\<close> and also passed to \<open>#errorCb\<close>. The
  default response callback returns normally.
\<close>

datatype post_outcome = PostResponse | PostFailed "string option"

datatype cb_call = ErrorCbCall error_cb "string option" | ResCbCall res_cb

definition InfluxDBv2_settle :: "influxdb \<Rightarrow> post_outcome \<Rightarrow> string option option \<Rightarrow> cb_call list" where
  "InfluxDBv2_settle i out thrown =
     (case out of
        PostFailed code \<Rightarrow> [ErrorCbCall (i_errorCb i) code]
      | PostResponse \<Rightarrow>
          ResCbCall (i_resCb i) #
          (case (i_resCb i, thrown) of (UserResCb k, Some code) \<Rightarrow> [ErrorCbCall (i_errorCb i) code] | _ \<Rightarrow> []))"

text \<open>\<open>defaultErrorCb(err)\<close> logs \<open>[INFLUXDBv2 ERROR] ${err.code}\<close>.\<close>

definition InfluxDBv2_defaultErrorCb :: "string option \<Rightarrow> string" where
  "InfluxDBv2_defaultErrorCb code = ''[INFLUXDBv2 ERROR] '' @ (case code of Some c \<Rightarrow> c | None \<Rightarrow> ''undefined'')"

definition InfluxDBv2_onError :: "error_cb \<Rightarrow> influxdb \<Rightarrow> influxdb" where
  "InfluxDBv2_onError fn i = i\<lparr>i_errorCb := fn\<rparr>"

definition InfluxDBv2_onRes :: "res_cb \<Rightarrow> influxdb \<Rightarrow> influxdb" where
  "InfluxDBv2_onRes fn i = i\<lparr>i_resCb := fn\<rparr>"

section \<open>Life cycle\<close>

text \<open>
  A reporter in the event loop: \<open>start()\<close>, \<open>stop()\<close>, and the loop firing an active
  interval, whose callback \<open>() => this.once()\<close> is the flush. The flushed state
  \<open>'w\<close> is left abstract; \<open>Reporter_once\<close>, \<open>Graphite_once\<close> and
  \<open>InfluxDBv2_once\<close> are the flushes of the three classes.
\<close>

datatype rep_event = EStart | EStop | EFire nat

record 'w rep_sys =
  rs_rep :: reporter
  rs_timers :: js_timers
  rs_state :: 'w

inductive rep_step :: "('w \<Rightarrow> 'w) \<Rightarrow> rep_event \<Rightarrow> 'w rep_sys \<Rightarrow> 'w rep_sys \<Rightarrow> bool" for flush where
  start: "Reporter_start (rs_rep s) (rs_timers s) = (r', tm') \<Longrightarrow>
          rep_step flush EStart s (s\<lparr>rs_rep := r', rs_timers := tm'\<rparr>)"
| stop: "rep_step flush EStop s (s\<lparr>rs_timers := Reporter_stop (rs_rep s) (rs_timers s)\<rparr>)"
| fire: "h \<in> set (intervals (rs_timers s)) \<Longrightarrow> rep_step flush (EFire h) s (s\<lparr>rs_state := flush (rs_state s)\<rparr>)"

inductive rep_run :: "('w \<Rightarrow> 'w) \<Rightarrow> rep_event list \<Rightarrow> 'w rep_sys \<Rightarrow> 'w rep_sys \<Rightarrow> bool" for flush where
  Nil: "rep_run flush [] s s"
| Cons: "rep_step flush e s s' \<Longrightarrow> rep_run flush es s' s'' \<Longrightarrow> rep_run flush (e # es) s s''"

inductive_cases rep_step_StartE: "rep_step flush EStart s s'"
inductive_cases rep_step_StopE: "rep_step flush EStop s s'"
inductive_cases rep_step_FireE: "rep_step flush (EFire h) s s'"
inductive_cases rep_run_ConsE: "rep_run flush (e # es) s s''"

text \<open>At most one active interval, and it is the one \<open>#process\<close> holds.\<close>

definition single_interval :: "'w rep_sys \<Rightarrow> bool" where
  "single_interval s \<longleftrightarrow> set (intervals (rs_timers s)) \<subseteq> set_option (rep_process (rs_rep s))"

text \<open>The reporter's own interval is active.\<close>

definition flushing :: "'w rep_sys \<Rightarrow> bool" where
  "flushing s \<longleftrightarrow> (case rep_process (rs_rep s) of Some h \<Rightarrow> h \<in> set (intervals (rs_timers s)) | None \<Rightarrow> False)"

text \<open>Key sets of the snapshots, and the metrics of the \<open>Null\<close> classes.\<close>

definition hist_keys :: "string set" where
  "hist_keys = {''id'', ''name'', ''description'', ''count'', ''max'', ''mean'', ''min'', ''stdDev'', ''sum'',
                ''variance'', ''percentile''}"

definition meter_keys :: "string set" where
  "meter_keys = {''id'', ''name'', ''description'', ''count'', ''rate1'', ''rate5'', ''rate15'', ''rateMean''}"

fun is_null_metric :: "metric \<Rightarrow> bool" where
  "is_null_metric (MCounter (NullCounter b)) = True"
| "is_null_metric (MGauge (NullGauge b)) = True"
| "is_null_metric (MHealthcheck (NullHealthcheck b)) = True"
| "is_null_metric (MHistogram (NullHistogram b)) = True"
| "is_null_metric (MMeter (NullMeter b)) = True"
| "is_null_metric (MTimer (NullTimer b)) = True"
| "is_null_metric _ = False"

text \<open>
  The number of lines each reporter writes for a metric, read off the kind tests of
  \<open>reporter(m)\<close> and the field lists; \<open>store_sum\<close> adds them up over the
  metrics \<open>once()\<close> iterates.
\<close>

definition graphite_line_count :: "metric \<Rightarrow> nat" where
  "graphite_line_count m =
     (if isCounter m \<or> isGauge m then 1
      else (if isHealthcheck m then 1 else 0) +
           (if isHistogram m then 12 else if isMeter m then 5 else if isTimer m then 16 else 0))"

definition influx_line_count :: "metric \<Rightarrow> nat" where
  "influx_line_count m = (if isCounter m \<or> isGauge m \<or> isHistogram m \<or> isMeter m \<or> isTimer m then 1 else 0)"

definition writer_line_count :: "metric \<Rightarrow> nat" where
  "writer_line_count m =
     (if isCounter m \<or> isGauge m then 1
      else if isHistogram m then 12 else if isMeter m then 5 else if isTimer m then 16 else 0)"

definition store_sum :: "(metric \<Rightarrow> nat) \<Rightarrow> world \<Rightarrow> nat list \<Rightarrow> nat" where
  "store_sum cnt w rs = sum_list (map (\<lambda>r. case store w r of None \<Rightarrow> 0 | Some m \<Rightarrow> cnt m) rs)"

section \<open>Lemmas\<close>

lemma single_interval_step:
  "rep_step flush e s s' \<Longrightarrow> single_interval s \<Longrightarrow> single_interval s'"
  by (induction rule: rep_step.induct)
    (auto simp: single_interval_def Reporter_start_def Reporter_stop_def setInterval_def clearInterval_def
      split: option.splits)

lemma flushing_start: "rep_step flush EStart s s' \<Longrightarrow> flushing s'"
  by (erule rep_step_StartE) (auto simp: flushing_def Reporter_start_def setInterval_def)

lemma flushing_step: "rep_step flush e s s' \<Longrightarrow> flushing s \<Longrightarrow> e \<noteq> EStop \<Longrightarrow> flushing s'"
  by (induction rule: rep_step.induct)
    (auto simp: flushing_def Reporter_start_def setInterval_def split: option.splits)

lemma flushing_run: "rep_run flush es s s' \<Longrightarrow> flushing s \<Longrightarrow> EStop \<notin> set es \<Longrightarrow> flushing s'"
  by (induction rule: rep_run.induct) (auto intro: flushing_step)

lemma flushing_fire: "flushing s \<Longrightarrow> \<exists>h. rep_step flush (EFire h) s (s\<lparr>rs_state := flush (rs_state s)\<rparr>)"
  by (auto simp: flushing_def intro: rep_step.fire split: option.splits)

lemma stop_silences:
  "single_interval s \<Longrightarrow> intervals (Reporter_stop (rs_rep s) (rs_timers s)) = []"
  by (auto simp: single_interval_def Reporter_stop_def clearInterval_def removeAll_filter_not_eq
      filter_empty_conv split: option.splits)

lemma rep_run_example: "rep_run Suc [EStart, EStart, EFire 1]
    \<lparr>rs_rep = \<lparr>rep_process = None, rep_flushInterval = 1000\<rparr>, rs_timers = \<lparr>intervals = [], next_handle = 0\<rparr>, rs_state = 0\<rparr>
    \<lparr>rs_rep = \<lparr>rep_process = Some 1, rep_flushInterval = 1000\<rparr>, rs_timers = \<lparr>intervals = [1], next_handle = 2\<rparr>, rs_state = 1\<rparr>"
  by (rule rep_run.Cons, rule rep_step.start, simp add: Reporter_start_def setInterval_def clearInterval_def,
      rule rep_run.Cons, rule rep_step.start, simp add: Reporter_start_def setInterval_def clearInterval_def,
      rule rep_run.Cons, rule rep_step.fire, simp, simp add: numeral_2_eq_2 rep_run.Nil)

lemma Histogram_snapshot_keys: "fst ` set (fst (Histogram_snapshot h)) \<subseteq> hist_keys"
  by (cases h) (auto simp: hist_keys_def StandardHistogram_snapshot_def NullHistogram_snapshot_def
      base_snapshot_def split_def Let_def)

lemma Meter_snapshot_keys: "fst ` set (fst (Meter_snapshot now m)) \<subseteq> meter_keys"
  by (cases m) (auto simp: meter_keys_def StandardMeter_snapshot_def NullMeter_snapshot_def
      base_snapshot_def split_def Let_def)

lemma Timer_snapshot_keys: "fst ` set (fst (Timer_snapshot now t)) \<subseteq> hist_keys \<union> meter_keys"
proof (cases t)
  case (StandardTimer x)
  then show ?thesis
    using Histogram_snapshot_keys [of "timer_hist x"] Meter_snapshot_keys [of now "timer_meter x"]
    by (auto simp: StandardTimer_snapshot_def split_def Let_def base_snapshot_def hist_keys_def)
qed (auto simp: NullTimer_snapshot_def base_snapshot_def hist_keys_def meter_keys_def)

lemma Timer_snapshot_undefined:
  "obj_get (fst (Timer_snapshot now t)) ''stddev'' = None"
  "obj_get (fst (Timer_snapshot now t)) ''median'' = None"
  using Timer_snapshot_keys [of now t] by (auto simp: obj_get_None_iff hist_keys_def meter_keys_def)

lemma Histogram_snapshot_undefined:
  "obj_get (fst (Histogram_snapshot h)) ''stddev'' = None"
  "obj_get (fst (Histogram_snapshot h)) ''median'' = None"
  using Histogram_snapshot_keys [of h] by (auto simp: obj_get_None_iff hist_keys_def)

lemma graphite_timer_lines:
  "fst (graphite_reporter p e (MTimer (StandardTimer t))) =
     metric_lines (getProperName p (MTimer (StandardTimer t))) (ce_ts e div 1000)
       (fst (Timer_snapshot (ce_now e) (StandardTimer t))) timer_fields"
  by (simp add: graphite_reporter_def snapshot_of_def split_def Let_def)

lemma graphite_histogram_lines:
  "fst (graphite_reporter p e (MHistogram (StandardHistogram h))) =
     metric_lines (getProperName p (MHistogram (StandardHistogram h))) (ce_ts e div 1000)
       (fst (StandardHistogram_snapshot h)) graphite_histogram_fields"
  by (simp add: graphite_reporter_def snapshot_of_def split_def Let_def)

lemma null_metric_reports:
  assumes "is_null_metric m"
  shows "graphite_reporter p e m = ([], m)" "influx_reporter e m = ([], m)" "Reporter_defaultWriter e m = ([], m)"
  using assms by (cases m rule: is_null_metric.cases; simp add: graphite_reporter_def influx_reporter_def
      Reporter_defaultWriter_def Let_def)+

lemma report_from_silent:
  assumes "\<forall>r\<in>set rs. \<exists>m. store w r = Some m \<and> (\<forall>e. rep e m = ([], m))"
  shows "report_from rep env i rs w = ([], w)"
  using assms
proof (induction rs arbitrary: i)
  case (Cons r rs)
  then obtain m where "store w r = Some m" "\<forall>e. rep e m = ([], m)" by auto
  with Cons show ?case by (simp add: map_upd_triv)
qed simp

lemma report_from_null:
  assumes "\<forall>r\<in>set rs. \<exists>m. store w r = Some m \<and> is_null_metric m"
    and "\<And>m e. is_null_metric m \<Longrightarrow> rep e m = ([], m)"
  shows "report_from rep env i rs w = ([], w)"
proof (rule report_from_silent)
  show "\<forall>r\<in>set rs. \<exists>m. store w r = Some m \<and> (\<forall>e. rep e m = ([], m))"
    using assms by blast
qed

lemma report_from_append:
  "report_from rep env i (rs @ [r]) w =
     (let (ls, w') = report_from rep env i rs w; (ls2, w'') = report_from rep env (i + length rs) [r] w'
      in (ls @ ls2, w''))"
  by (induction rs arbitrary: i w) (auto simp: split_def Let_def split: option.split)

lemma report_from_frame:
  "r \<notin> set rs \<Longrightarrow> store (snd (report_from rep env i rs w)) r = store w r"
  by (induction rs arbitrary: i w) (auto simp: split_def Let_def split: option.split)

lemma report_from_store_only:
  assumes "store w2 = (store w)(r := x)" and "r \<notin> set rs"
  shows "fst (report_from rep env i rs w2) = fst (report_from rep env i rs w) \<and>
         store (snd (report_from rep env i rs w2)) = (store (snd (report_from rep env i rs w)))(r := x)"
  using assms
proof (induction rs arbitrary: i w w2)
  case (Cons r' rs)
  then have ne: "r' \<noteq> r" and nr: "r \<notin> set rs" by auto
  show ?case
  proof (cases "store w r'")
    case None
    then show ?thesis using Cons.IH [OF Cons.prems(1) nr] Cons.prems ne by simp
  next
    case (Some m)
    obtain ls m' where rp: "rep (env i) m = (ls, m')" by fastforce
    have "store (w2\<lparr>store := (store w2)(r' \<mapsto> m')\<rparr>) = (store (w\<lparr>store := (store w)(r' \<mapsto> m')\<rparr>))(r := x)"
      using Cons.prems ne by (auto simp: fun_eq_iff)
    from Cons.IH [OF this nr, of "Suc i"] show ?thesis
      using Some Cons.prems ne rp by (simp add: split_def Let_def)
  qed
qed simp

lemma graphite_counter_line:
  "graphite_reporter p e (MCounter (StandardCounter c)) =
     ([(if p \<noteq> [] then p @ ''.'' @ metric_name c else metric_name c, Some (JNum (counter_count c)), ce_ts e div 1000)],
      MCounter (StandardCounter c))"
  by (simp add: graphite_reporter_def getProperName_def getName_def)

lemma store_sum_upd:
  assumes "store w r = Some m" and "cnt m' = cnt m"
  shows "store_sum cnt (w\<lparr>store := (store w)(r \<mapsto> m')\<rparr>) rs = store_sum cnt w rs"
  using assms unfolding store_sum_def by (intro arg_cong[where f = sum_list] map_cong) auto

lemma store_sum_Cons:
  "store_sum cnt w (r # rs) = (case store w r of None \<Rightarrow> 0 | Some m \<Rightarrow> cnt m) + store_sum cnt w rs"
  by (simp add: store_sum_def)

lemma report_from_length:
  assumes "\<And>e m. length (fst (rep e m)) = cnt m" and "\<And>e m. cnt (snd (rep e m)) = cnt m"
  shows "length (fst (report_from rep env i rs w)) = store_sum cnt w rs"
proof (induction rs arbitrary: i w)
  case (Cons r rs)
  show ?case
  proof (cases "store w r")
    case (Some m)
    obtain ls m' where rp: "rep (env i) m = (ls, m')" by (cases "rep (env i) m")
    define w' where "w' = w\<lparr>store := (store w)(r \<mapsto> m')\<rparr>"
    have "length ls = cnt m" "cnt m' = cnt m" using assms [of "env i" m] rp by simp_all
    moreover have "store_sum cnt w' rs = store_sum cnt w rs"
      unfolding w'_def by (rule store_sum_upd [OF Some \<open>cnt m' = cnt m\<close>])
    moreover have "fst (report_from rep env i (r # rs) w) = ls @ fst (report_from rep env (Suc i) rs w')"
      using Some rp by (simp add: w'_def split_def Let_def)
    ultimately show ?thesis using Cons.IH [of "Suc i" w'] Some by (simp add: store_sum_Cons)
  next
    case None
    then show ?thesis using Cons.IH [of "Suc i" w] by (simp add: store_sum_Cons)
  qed
next
  case Nil
  show ?case by (simp add: store_sum_def)
qed

lemma snapshot_of_standard:
  "\<exists>h'. snd (snapshot_of now (MHistogram (StandardHistogram h))) = MHistogram (StandardHistogram h')"
  "\<exists>x'. snd (snapshot_of now (MMeter (StandardMeter x))) = MMeter (StandardMeter x')"
  "\<exists>t'. snd (snapshot_of now (MTimer (StandardTimer t))) = MTimer (StandardTimer t')"
  by (simp_all add: snapshot_of_def StandardHistogram_snapshot_def StandardTimer_snapshot_def split_def Let_def
      with_sample_def)

lemma snapshot_of_kinds:
  assumes "isHistogram m \<or> isMeter m \<or> isTimer m"
  shows "isCounter (snd (snapshot_of now m)) = isCounter m \<and> isGauge (snd (snapshot_of now m)) = isGauge m \<and>
         isHealthcheck (snd (snapshot_of now m)) = isHealthcheck m \<and>
         isHistogram (snd (snapshot_of now m)) = isHistogram m \<and> isMeter (snd (snapshot_of now m)) = isMeter m \<and>
         isTimer (snd (snapshot_of now m)) = isTimer m"
proof -
  consider (H) h where "m = MHistogram (StandardHistogram h)" | (M) x where "m = MMeter (StandardMeter x)"
    | (T) t where "m = MTimer (StandardTimer t)"
    using assms by (metis isHistogram.elims(2) isMeter.elims(2) isTimer.elims(2))
  then show ?thesis
  proof cases
    case H
    with snapshot_of_standard(1) [of now h] show ?thesis by auto
  next
    case M
    with snapshot_of_standard(2) [of now x] show ?thesis by auto
  next
    case T
    with snapshot_of_standard(3) [of now t] show ?thesis by auto
  qed
qed

lemma graphite_reporter_count:
  "length (fst (graphite_reporter p e m)) = graphite_line_count m \<and>
   graphite_line_count (snd (graphite_reporter p e m)) = graphite_line_count m"
proof (cases "isHistogram m \<or> isMeter m \<or> isTimer m")
  case True
  with snapshot_of_kinds [OF True, of "ce_now e"] show ?thesis
    by (auto simp: graphite_reporter_def graphite_line_count_def split_def Let_def metric_lines_def
        graphite_histogram_fields_def meter_fields_def timer_fields_def
        elim: isHistogram.elims isMeter.elims isTimer.elims)
next
  case False
  then show ?thesis by (auto simp: graphite_reporter_def graphite_line_count_def Let_def)
qed

lemma influx_reporter_count:
  "length (fst (influx_reporter e m)) = influx_line_count m \<and>
   influx_line_count (snd (influx_reporter e m)) = influx_line_count m"
proof (cases "isHistogram m \<or> isMeter m \<or> isTimer m")
  case True
  with snapshot_of_kinds [OF True, of "ce_now e"] show ?thesis
    by (auto simp: influx_reporter_def influx_line_count_def split_def Let_def
        elim: isHistogram.elims isMeter.elims isTimer.elims)
next
  case False
  then show ?thesis by (auto simp: influx_reporter_def influx_line_count_def Let_def)
qed

lemma writer_count:
  "length (fst (Reporter_defaultWriter e m)) = writer_line_count m \<and>
   writer_line_count (snd (Reporter_defaultWriter e m)) = writer_line_count m"
proof (cases "isHistogram m \<or> isMeter m \<or> isTimer m")
  case True
  with snapshot_of_kinds [OF True, of "ce_now e"] show ?thesis
    by (auto simp: Reporter_defaultWriter_def writer_line_count_def split_def Let_def metric_lines_def
        writer_histogram_fields_def meter_fields_def timer_fields_def
        elim: isHistogram.elims isMeter.elims isTimer.elims)
next
  case False
  then show ?thesis by (auto simp: Reporter_defaultWriter_def writer_line_count_def Let_def)
qed

section \<open>Properties\<close>

text \<open>
  C22. The Graphite reporter writes a timer's standard deviation and median as
  \<open>undefined\<close>: it reads \<open>t.stddev\<close> and \<open>t.median\<close>, which no timer snapshot
  has (the snapshot keys are \<open>stdDev\<close> and \<open>percentile.median\<close>), among the 16
  lines of a timer. Every one of the 12 lines it writes for a histogram, which reads
  \<open>h.stdDev\<close> and \<open>h.percentile.median\<close>, is defined.
\<close>

theorem graphite_timer_undefined:
  "(getProperName p (MTimer (StandardTimer t)) @ ''.stddev'', None, ce_ts e div 1000)
     \<in> set (fst (graphite_reporter p e (MTimer (StandardTimer t)))) \<and>
   (getProperName p (MTimer (StandardTimer t)) @ ''.median'', None, ce_ts e div 1000)
     \<in> set (fst (graphite_reporter p e (MTimer (StandardTimer t)))) \<and>
   length (fst (graphite_reporter p e (MTimer (StandardTimer t)))) = 16 \<and>
   None \<notin> set (map (\<lambda>l. fst (snd l)) (fst (graphite_reporter p e (MHistogram (StandardHistogram h)))))"
  using Timer_snapshot_undefined [of "ce_now e" "StandardTimer t"] snapshot_keys_distinct
  by (simp add: graphite_timer_lines graphite_histogram_lines metric_lines_def timer_fields_def
      graphite_histogram_fields_def StandardHistogram_snapshot_obj Let_def)

text \<open>
  C23. The InfluxDB reporter writes one line per timer and per histogram. The timer's
  line has no timestamp, and both lines read \<open>stddev\<close> and \<open>median\<close> as
  \<open>undefined\<close>. A healthcheck writes nothing.
\<close>

theorem influx_lines:
  "fst (influx_reporter e (MTimer (StandardTimer t))) =
     [(getName t, influx_fields (fst (Timer_snapshot (ce_now e) (StandardTimer t))) influx_timer_fields, None)] \<and>
   (''stddev'', None) \<in> set (influx_fields (fst (Timer_snapshot (ce_now e) (StandardTimer t))) influx_timer_fields) \<and>
   (''median'', None) \<in> set (influx_fields (fst (Timer_snapshot (ce_now e) (StandardTimer t))) influx_timer_fields) \<and>
   fst (influx_reporter e (MHistogram (StandardHistogram h))) =
     [(getName h, influx_fields (fst (Histogram_snapshot (StandardHistogram h))) influx_histogram_fields, Some (ce_ts e))] \<and>
   (''stddev'', None) \<in> set (influx_fields (fst (Histogram_snapshot (StandardHistogram h))) influx_histogram_fields) \<and>
   (''median'', None) \<in> set (influx_fields (fst (Histogram_snapshot (StandardHistogram h))) influx_histogram_fields) \<and>
   fst (influx_reporter e (MHealthcheck hc)) = []"
  using Timer_snapshot_undefined [of "ce_now e" "StandardTimer t"] Histogram_snapshot_undefined [of "StandardHistogram h"]
  by (cases hc) (simp_all add: influx_reporter_def snapshot_of_def split_def Let_def influx_fields_def
      influx_timer_fields_def influx_histogram_fields_def del: Timer_snapshot.simps Histogram_snapshot.simps)

text \<open>
  C24. A registry whose metrics are all of the \<open>Null\<close> classes, as
  \<open>useNullMetrics\<close> makes them, is reported as nothing by all three reporters:
  \<open>Reporter.once\<close>, \<open>Graphite.once\<close> and \<open>InfluxDBv2.once\<close> write no
  line and change no object.
\<close>

theorem null_metrics_silent:
  assumes "\<forall>r\<in>set (getMetricList reg). \<exists>m. store w r = Some m \<and> is_null_metric m"
  shows "Graphite_once g env w reg = ([], w) \<and> Reporter_once env w reg = ([], w) \<and>
         InfluxDBv2_once str env w reg = ([], w)"
  using report_from_null [OF assms, of "graphite_reporter (gc_prefix (g_config g))" env 0]
    report_from_null [OF assms, of Reporter_defaultWriter env 0] report_from_null [OF assms, of influx_reporter env 0]
  by (simp add: Graphite_once_def Reporter_once_def InfluxDBv2_once_def null_metric_reports)

theorem null_metrics_silent_witness:
  "Graphite_once \<lparr>rep_process = None, rep_flushInterval = 1000, g_config = \<lparr>gc_port = 2003, gc_addr = ''localhost'', gc_flush_interval = 1000, gc_prefix = ''app''\<rparr>, g_socket = [], g_errorCb = DefaultErrorCb\<rparr>
     (\<lambda>_. \<lparr>ce_ts = 0, ce_now = 0, ce_fn = 0\<rparr>) \<lparr>store = [0 \<mapsto> MCounter (new_NullCounter 0 (Some ''requests'') None)], next_id = 1, use_null = True, default_registry = []\<rparr>
     [\<lparr>reg_ref = 0, reg_name = ''requests''\<rparr>] =
     ([], \<lparr>store = [0 \<mapsto> MCounter (new_NullCounter 0 (Some ''requests'') None)], next_id = 1, use_null = True, default_registry = []\<rparr>) \<and>
   Reporter_once (\<lambda>_. \<lparr>ce_ts = 0, ce_now = 0, ce_fn = 0\<rparr>) \<lparr>store = [0 \<mapsto> MCounter (new_NullCounter 0 (Some ''requests'') None)], next_id = 1, use_null = True, default_registry = []\<rparr>
     [\<lparr>reg_ref = 0, reg_name = ''requests''\<rparr>] =
     ([], \<lparr>store = [0 \<mapsto> MCounter (new_NullCounter 0 (Some ''requests'') None)], next_id = 1, use_null = True, default_registry = []\<rparr>) \<and>
   InfluxDBv2_once (\<lambda>_. []) (\<lambda>_. \<lparr>ce_ts = 0, ce_now = 0, ce_fn = 0\<rparr>) \<lparr>store = [0 \<mapsto> MCounter (new_NullCounter 0 (Some ''requests'') None)], next_id = 1, use_null = True, default_registry = []\<rparr>
     [\<lparr>reg_ref = 0, reg_name = ''requests''\<rparr>] =
     ([], \<lparr>store = [0 \<mapsto> MCounter (new_NullCounter 0 (Some ''requests'') None)], next_id = 1, use_null = True, default_registry = []\<rparr>)"
  by (rule null_metrics_silent) (simp add: getMetricList_def new_NullCounter_def)

text \<open>
  C25. Each \<open>once()\<close> writes, for every registered metric the store holds, a number of
  lines fixed by its kind, also when a metric is registered twice (a snapshot keeps the
  kind): Graphite writes 1 for a counter, gauge or healthcheck, 12 for a histogram, 5 for a
  meter and 16 for a timer; the default writer the same but none for a healthcheck; the
  InfluxDB reporter one line per counter, gauge, histogram, meter or timer. A metric of a
  \<open>Null\<close> class gets no line.
\<close>

theorem reporters_line_counts:
  "length (fst (Graphite_once g env w reg)) = store_sum graphite_line_count w (getMetricList reg) \<and>
   length (fst (Reporter_once env w reg)) = store_sum writer_line_count w (getMetricList reg) \<and>
   length (fst (report_from influx_reporter env 0 (getMetricList reg) w)) =
     store_sum influx_line_count w (getMetricList reg)"
  using graphite_reporter_count influx_reporter_count writer_count
  by (simp add: Graphite_once_def Reporter_once_def report_from_length)

text \<open>
  C26. However often \<open>start()\<close> is called, a reporter has at most one active interval,
  the one \<open>#process\<close> holds, so it never flushes twice per period; and
  \<open>stop()\<close> then leaves no interval active.
\<close>

theorem reporter_single_interval:
  assumes "rep_run flush es s s'" and "single_interval s"
  shows "single_interval s' \<and> intervals (Reporter_stop (rs_rep s') (rs_timers s')) = []"
proof -
  from assms have "single_interval s'"
    by (induction rule: rep_run.induct) (auto dest: single_interval_step)
  then show ?thesis by (simp add: stop_silences)
qed

theorem reporter_single_interval_witness:
  "single_interval \<lparr>rs_rep = \<lparr>rep_process = Some 1, rep_flushInterval = 1000\<rparr>,
      rs_timers = \<lparr>intervals = [1], next_handle = 2\<rparr>, rs_state = 1::nat\<rparr> \<and>
   intervals (Reporter_stop (rs_rep \<lparr>rs_rep = \<lparr>rep_process = Some 1, rep_flushInterval = 1000\<rparr>,
      rs_timers = \<lparr>intervals = [1], next_handle = 2\<rparr>, rs_state = 1::nat\<rparr>)
      (rs_timers \<lparr>rs_rep = \<lparr>rep_process = Some 1, rep_flushInterval = 1000\<rparr>,
      rs_timers = \<lparr>intervals = [1], next_handle = 2\<rparr>, rs_state = 1::nat\<rparr>)) = []"
  using reporter_single_interval [OF rep_run_example] by (simp add: single_interval_def)

text \<open>
  C27. Once started, a reporter keeps flushing until it is stopped: after
  \<open>start()\<close> and any further \<open>start()\<close> calls and interval firings, the event
  loop can always fire an active interval of the reporter, which runs \<open>once()\<close>.
\<close>

theorem reporter_flushes_until_stopped:
  assumes "rep_run flush (EStart # es) s s'" and "EStop \<notin> set es"
  shows "\<exists>h. rep_step flush (EFire h) s' (s'\<lparr>rs_state := flush (rs_state s')\<rparr>)"
  using assms by (blast elim: rep_run_ConsE intro: flushing_fire flushing_run flushing_start)

theorem reporter_flushes_until_stopped_witness:
  "\<exists>h. rep_step Suc (EFire h)
     \<lparr>rs_rep = \<lparr>rep_process = Some 1, rep_flushInterval = 1000\<rparr>, rs_timers = \<lparr>intervals = [1], next_handle = 2\<rparr>, rs_state = 1\<rparr>
     \<lparr>rs_rep = \<lparr>rep_process = Some 1, rep_flushInterval = 1000\<rparr>, rs_timers = \<lparr>intervals = [1], next_handle = 2\<rparr>, rs_state = 2\<rparr>"
  using reporter_flushes_until_stopped [OF rep_run_example] by (simp add: numeral_2_eq_2)

end
