(* ===== verification/DefaultRegistry.thy ===== *)
theory DefaultRegistry
  imports Registry
begin

text \<open>
  The functions \<open>src/src/metric.ts\<close> exports besides its classes: each delegates
  to the module's \<open>defaultRegistry\<close>, kept in the \<open>world\<close> of \<open>Registry\<close>:
  a reader reads it, a mutator writes back the registry it returns.
\<close>

definition on_default :: "(world \<Rightarrow> registry \<Rightarrow> 'a \<times> world \<times> registry) \<Rightarrow> world \<Rightarrow> 'a \<times> world" where
  "on_default f w = (let (x, w', reg) = f w (default_registry w) in (x, w'\<lparr>default_registry := reg\<rparr>))"

definition module_getCounterList :: "world \<Rightarrow> nat list" where
  "module_getCounterList w = getCounterList w (default_registry w)"

definition module_getGaugeList :: "world \<Rightarrow> nat list" where
  "module_getGaugeList w = getGaugeList w (default_registry w)"

definition module_getHealthcheckList :: "world \<Rightarrow> nat list" where
  "module_getHealthcheckList w = getHealthcheckList w (default_registry w)"

definition module_getHistogramList :: "world \<Rightarrow> nat list" where
  "module_getHistogramList w = getHistogramList w (default_registry w)"

definition module_getMeterList :: "world \<Rightarrow> nat list" where
  "module_getMeterList w = getMeterList w (default_registry w)"

definition module_getTimerList :: "world \<Rightarrow> nat list" where
  "module_getTimerList w = getTimerList w (default_registry w)"

definition module_getMetrics :: "world \<Rightarrow> string \<Rightarrow> nat option" where
  "module_getMetrics w = getMetrics (default_registry w)"

definition module_getMetricsByName :: "string \<Rightarrow> world \<Rightarrow> nat list" where
  "module_getMetricsByName name w = getMetricsByName name (default_registry w)"

definition module_getCountersByName :: "string \<Rightarrow> world \<Rightarrow> nat list" where
  "module_getCountersByName name w = getCountersByName name (default_registry w)"

definition module_getGaugesByName :: "string \<Rightarrow> world \<Rightarrow> nat list" where
  "module_getGaugesByName name w = getGaugesByName name (default_registry w)"

definition module_getHealthchecksByName :: "string \<Rightarrow> world \<Rightarrow> nat list" where
  "module_getHealthchecksByName name w = getHealthchecksByName name (default_registry w)"

definition module_getHistogramsByName :: "string \<Rightarrow> world \<Rightarrow> nat list" where
  "module_getHistogramsByName name w = getHistogramsByName name (default_registry w)"

definition module_getMetersByName :: "string \<Rightarrow> world \<Rightarrow> nat list" where
  "module_getMetersByName name w = getMetersByName name (default_registry w)"

definition module_getTimersByName :: "string \<Rightarrow> world \<Rightarrow> nat list" where
  "module_getTimersByName name w = getTimersByName name (default_registry w)"

definition module_removeMetrics :: "string \<Rightarrow> world \<Rightarrow> world" where
  "module_removeMetrics name w = w\<lparr>default_registry := removeMetrics name (default_registry w)\<rparr>"

definition module_getOrRegisterCounter :: "string \<Rightarrow> string option \<Rightarrow> world \<Rightarrow> nat option \<times> world" where
  "module_getOrRegisterCounter name desc = on_default (getOrRegisterCounter name desc)"

definition module_getOrRegisterGauge :: "string \<Rightarrow> string option \<Rightarrow> world \<Rightarrow> nat option \<times> world" where
  "module_getOrRegisterGauge name desc = on_default (getOrRegisterGauge name desc)"

definition module_getOrRegisterHealthcheck ::
  "string \<Rightarrow> hc_fn option \<Rightarrow> string option \<Rightarrow> world \<Rightarrow> (string + nat option) \<times> world" where
  "module_getOrRegisterHealthcheck name fn desc = on_default (getOrRegisterHealthcheck name fn desc)"

definition module_getOrRegisterHistogram ::
  "string \<Rightarrow> sample_obj option \<Rightarrow> string option \<Rightarrow> world \<Rightarrow> (string + nat option) \<times> world" where
  "module_getOrRegisterHistogram name s desc = on_default (getOrRegisterHistogram name s desc)"

definition module_getOrRegisterMeter :: "string \<Rightarrow> string option \<Rightarrow> millis \<Rightarrow> world \<Rightarrow> nat option \<times> world" where
  "module_getOrRegisterMeter name desc now = on_default (getOrRegisterMeter name desc now)"

definition module_getOrRegisterTimer :: "string \<Rightarrow> string option \<Rightarrow> millis \<Rightarrow> world \<Rightarrow> nat option \<times> world" where
  "module_getOrRegisterTimer name desc now = on_default (getOrRegisterTimer name desc now)"

definition module_registerMetric :: "nat \<Rightarrow> world \<Rightarrow> world" where
  "module_registerMetric r w = w\<lparr>default_registry := registerMetric r w (default_registry w)\<rparr>"

definition module_runAllHealthchecks :: "world \<Rightarrow> (string + unit) \<times> world" where
  "module_runAllHealthchecks w = runAllHealthchecks w (default_registry w)"

end
