(* ===== verification/Spec2Isabelle.thy ===== *)
theory Spec2Isabelle
  imports Reporter DefaultRegistry
begin

text \<open>
  Verification development for js-metrics-plus, a TypeScript port of DropWizard-style
  metrics. Its parts and how they interact: reservoir samples (\<open>src/src/sample.ts\<close>)
  keep values and compute statistics; a histogram (\<open>src/src/histogram.ts\<close>) wraps
  a sample; the EWMA rate estimator (\<open>src/unnamed/part_002\<close>) feeds a meter
  (\<open>src/unnamed/part_003\<close>); a timer (\<open>src/src/histogram.ts\<close>) owns a meter and a
  histogram over an exponentially decaying sample; counters, gauges
  (\<open>src/src/gauge.ts\<close>) and healthchecks are value holders; all of them are
  \<open>BaseMetric\<close>s kept by name in a \<open>Registry\<close> (\<open>src/src/metric.ts\<close>), which
  reporters read and push to Graphite or InfluxDB.

  \<^bold>\<open>Theories.\<close>
  \<^item> \<open>Prelude\<close>: JavaScript numbers as \<open>real\<close> (\<open>jsnum\<close>), \<open>NaN\<close> and
    \<open>undefined\<close> as \<open>None\<close>, array reads at number keys (\<open>js_index\<close>), the
    default \<open>Array.prototype.sort\<close> as a sort on decimal strings (\<open>js_sort\<close>),
    \<open>Array.prototype.pop\<close>, and the generic list lemmas the components share.
  \<^item> \<open>Stats\<close>: \<open>sampleMax\<close>, \<open>sampleMin\<close>, \<open>sampleMean\<close>,
    \<open>sampleVariance\<close>, \<open>sampleStdDev\<close>, \<open>samplePercentiles\<close> and
    \<open>sampleSum\<close> of \<open>sample.ts\<close>, one definition each. Lemmas: the percentile at an
    integral and at a fractional rank, the head of the string-sorted sample it answers
    below the first rank (the least value as a decimal string), that it returns
    an element, the closed forms of max/min, and the variance as second moment minus
    squared mean.
  \<^item> \<open>UniformSample\<close>: the record of \<open>UniformSample\<close> (Vitter's algorithm R) with
    \<open>clear\<close>, \<open>size\<close>, \<open>update\<close> and \<open>values\<close>; the random index drawn by
    \<open>Math.random()\<close> is a parameter of \<open>update\<close>. Lemmas: the size invariant over
    any run, the prefix behaviour under capacity, the full-reservoir replacement rule,
    and a refinement of \<open>update\<close> by a multiset specification.
  \<^item> \<open>ExpDecaySample\<close>: \<open>ExpDecaySample\<close> (forward decay), a subclass of
    \<open>UniformSample\<close>, with its \<open>Date\<close> objects in an explicit heap
    (\<open>date_heap\<close>) because the constructor and \<open>rescale\<close> alias \<open>#startTime\<close>
    and \<open>#nextScaleTime\<close>. Lemmas: the inherited statistics stay those of an empty
    sample, the priority list grows without bound, the aliasing of the first rescale
    and its absence later, the \<open>Infinity\<close> key, and \<open>clear\<close>.
  \<^item> \<open>EWMA\<close>: \<open>StandardEWMA\<close> with \<open>rate\<close>, \<open>update\<close>, \<open>set\<close> and the
    catch-up loop as the terminating \<open>function ewma_idle\<close> (measure
    \<open>\<lceil>periods\<rceil>\<close>). Lemmas: \<open>rate()\<close> never commits, when a commit happens, its
    value, the bound on the catch-up, idempotence of \<open>rate()\<close>, the period invariant,
    and that the loop runs its body \<open>\<lfloor>periods\<rfloor>\<close> times.
  \<^item> \<open>Metric\<close>: \<open>BaseMetric\<close> as the record \<open>base_metric\<close>, its accessors and
    snapshot, and JSON values (\<open>jsval\<close>) with object spread as an association list.
  \<^item> \<open>Meter\<close>: \<open>StandardMeter\<close> and \<open>NullMeter\<close> over three EWMAs.
  \<^item> \<open>Histogram\<close>: the \<open>Sample\<close> interface as a datatype over the two sample
    classes and \<open>StandardHistogram\<close>/\<open>NullHistogram\<close>. Lemmas:
    \<open>percentiles(p :: ps)\<close> is \<open>percentile(p)\<close> followed by
    \<open>percentiles(ps)\<close> for a standard histogram but not for a null one, and the
    statistics the snapshot reports.
  \<^item> \<open>Timer\<close>: \<open>StandardTimer\<close>/\<open>NullTimer\<close> with \<open>update\<close>, \<open>updateSince\<close>,
    \<open>time\<close> and the snapshot; the user function's outcome of \<open>time(f)\<close> is a
    parameter. Lemmas: the statistics of a timer stay those of an empty sample, the
    source of each snapshot field, and what \<open>time\<close> records when \<open>f\<close> returns or
    throws.
  \<^item> \<open>Counter\<close>, \<open>Gauge\<close>, \<open>Healthcheck\<close>: the value holders with every method;
    a healthcheck function is the list of \<open>healthy\<close>/\<open>unhealthy\<close> calls it makes and
    the error it throws, a functional gauge's function is the value it returns. Lemmas:
    a counter's count over any run, a gauge reading back its last update (under the
    snapshot key \<open>gauge\<close>, where the README shows \<open>count\<close>), and the verdict a
    healthcheck leaves.
  \<^item> \<open>Registry\<close>: the metric objects in a store \<open>nat \<rightharpoonup> metric\<close> whose next
    address is \<open>BaseMetric.COUNTER\<close> (record \<open>world\<close>, with \<open>_useNullMetrics\<close>
    and \<open>defaultRegistry\<close>); a \<open>Registry\<close> is its list of \<open>Registration\<close>s.
    Every method of the registry that reads or changes \<open>#metrics\<close> and every
    module function on \<open>defaultRegistry\<close> is a definition; \<open>reg_step\<close> runs one
    operation; the name factory and default clock are the record
    \<open>registry_settings\<close>. Lemmas: the well-formedness of the store (\<open>world_wf\<close>)
    over any run, distinct names, \<open>getOrRegister\<close> on every branch,
    \<open>removeMetrics\<close> as a filter and, for an object registered under two names, its
    removal of the object's first registration rather than the named one, null metrics missing
    from the typed lists, \<open>runAllHealthchecks\<close> stopping at a throwing check, and
    the refinement of the registry by an abstract map from names to references
    (\<open>reg_abs\<close>, \<open>reg_inv\<close>, \<open>abs_step\<close>): each operation is
    lookup-or-insert, insert-if-absent, delete or nothing on that map.
  \<^item> \<open>DefaultRegistry\<close>: the exported functions of \<open>metric.ts\<close> that delegate
    to \<open>defaultRegistry\<close>.
  \<^item> \<open>Reporter\<close>: the \<open>Reporter\<close> base class of \<open>metric.ts\<close>, the
    Graphite driver (\<open>graphite.ts\<close>) and the InfluxDB v2 driver
    (\<open>influxDBv2.ts\<close>). What a reporter writes for a metric is a list of lines
    (path, the value the template reads from the snapshot with \<open>None\<close> for
    \<open>undefined\<close>, timestamp); \<open>once()\<close> is \<open>report_from\<close> over
    \<open>getMetricList()\<close>, writing back the objects the snapshots change.
    \<open>start()\<close>/\<open>stop()\<close> act on the event loop's interval timers
    (\<open>js_timers\<close>) and \<open>rep_step\<close> is the step relation of a reporter in the
    event loop, generic in what a flush does. The Graphite socket is the list of calls
    the driver makes on it (\<open>sock_call\<close>); its event handlers are
    \<open>graphite_on\<close>, one case per event the constructor listens to. The settlement
    of the InfluxDB \<open>POST\<close> is \<open>InfluxDBv2_settle\<close>, the callback calls for a
    response or a failure. The callbacks set with \<open>onError\<close>/\<open>onRes\<close> are
    the default ones or a function of the application, and the default ones have their
    text. Lemmas: the undefined values the Graphite and InfluxDB reporters send for timers
    and histograms, the missing InfluxDB timer timestamp, the exact number of lines each
    \<open>once()\<close> writes per metric kind (\<open>report_from_length\<close>, with a snapshot
    keeping the kind), silence on \<open>Null\<close> metrics, at most one active interval,
    and that a started reporter can always flush until it is stopped.
  \<^item> This theory: the properties across components, over \<open>call_counter\<close>, a
    call of the application on a counter it holds by reference: a counter registered
    through the registry and updated by the application is what \<open>Graphite.once()\<close>
    reports, after the unchanged lines of the metrics registered before it.

  \<^bold>\<open>Modelling choices.\<close> Methods are functions from the object (and the explicit
  store, where objects are shared) to the result and the new object; an exception is
  \<open>Inl\<close> of a sum. Time (\<open>Date.now()\<close>, the clock), randomness and user callbacks
  are parameters, so every theorem holds for every value they may take. No fuel is
  used: the one loop whose bound is not structural, the EWMA catch-up, is proved to
  terminate; all other loops are folds over lists.

  \<^bold>\<open>Not modelled.\<close> The network behind the reporters' I/O, which is not in
  the sources (\<open>net.Socket\<close>, \<open>axios\<close>): it appears only as the socket events
  and the \<open>POST\<close> outcomes the drivers receive, and the bodies of the application's
  callbacks appear only by name. The headers and URL of the \<open>axios\<close> client are
  not modelled, and the console output of the default writer is the list of its lines.
  The decimal printing of numbers in template literals is a parameter
  (\<open>influx_render\<close>) or left out, in which case the lines keep the value. The \<open>Clock\<close> class of
  \<open>clock.ts\<close> is not in the sources: the registry's default clock has a type
  parameter. \<open>part_000\<close> is the README,
  \<open>part_001\<close> and \<open>src/test\<close> are the test suites.
\<close>

text \<open>
  A call \<open>c.f()\<close> of the application on a counter it holds by reference \<open>r\<close>.
\<close>

definition call_counter :: "nat \<Rightarrow> (counter \<Rightarrow> counter) \<Rightarrow> world \<Rightarrow> world" where
  "call_counter r f w =
     (case store w r of Some (MCounter c) \<Rightarrow> w\<lparr>store := (store w)(r \<mapsto> MCounter (f c))\<rparr> | _ \<Rightarrow> w)"

section \<open>Properties across components\<close>

text \<open>
  C28. Registry, counter and reporter together: a counter obtained from
  \<open>getOrRegisterCounter\<close> for a new name and then incremented, decremented and
  cleared by the application through its reference is reported by
  \<open>Graphite.once()\<close> as one line with its count, after the unchanged lines of the
  metrics registered before it.
\<close>

theorem graphite_reports_registered_counter:
  assumes wf: "world_wf w reg" and fresh: "getByName name reg = []" and std: "\<not> use_null w"
  shows "fst (Graphite_once g env
            (call_counter (next_id w) (counter_run ops) (fst (snd (getOrRegisterCounter name desc w reg))))
            (snd (snd (getOrRegisterCounter name desc w reg)))) =
         fst (Graphite_once g env w reg) @
           [(if gc_prefix (g_config g) \<noteq> [] then gc_prefix (g_config g) @ ''.'' @ name else name,
             Some (JNum (sum_list (map counter_delta (since_clear ops)))),
             ce_ts (env (length reg)) div 1000)]"
proof -
  let ?c0 = "new_StandardCounter (next_id w) (Some name) desc"
  obtain c where c: "counter_run ops (StandardCounter ?c0) = StandardCounter c" "metric_name c = metric_name ?c0"
    "counter_count c = sum_list (map counter_delta (since_clear ops))"
    using counter_run_standard [of ops ?c0] by (auto simp: new_StandardCounter_def)
  have notin: "next_id w \<notin> set (getMetricList reg)"
    using wf by (auto simp: world_wf_def getMetricList_def)
  let ?w2 = "(w\<lparr>store := (store w)(next_id w \<mapsto> MCounter (StandardCounter c)), next_id := Suc (next_id w)\<rparr>)"
  have reg: "getOrRegisterCounter name desc w reg = (Some (next_id w),
      w\<lparr>store := (store w)(next_id w \<mapsto> MCounter (StandardCounter ?c0)), next_id := Suc (next_id w)\<rparr>,
      reg @ [\<lparr>reg_ref = next_id w, reg_name = name\<rparr>])"
    using fresh std by (simp add: getOrRegisterCounter_eq)
  have call: "call_counter (next_id w) (counter_run ops) (fst (snd (getOrRegisterCounter name desc w reg))) = ?w2"
    using c by (simp add: reg call_counter_def)
  have reg1: "snd (snd (getOrRegisterCounter name desc w reg)) = reg @ [\<lparr>reg_ref = next_id w, reg_name = name\<rparr>]"
    by (simp add: reg)
  have nm: "metric_name c = name" using c(2) by (simp add: new_StandardCounter_def)
  have st: "store ?w2 = (store w)(next_id w := Some (MCounter (StandardCounter c)))" by simp
  note same = report_from_store_only [OF st notin, of "graphite_reporter (gc_prefix (g_config g))" env 0]
  show ?thesis
    unfolding call reg1 Graphite_once_def getMetricList_def map_append list.map report_from_append
    using same c(3) nm by (simp add: getMetricList_def split_def Let_def graphite_counter_line)
qed


theorem graphite_reports_registered_counter_witness:
  "fst (Graphite_once \<lparr>rep_process = None, rep_flushInterval = 1000,
          g_config = \<lparr>gc_port = 2003, gc_addr = ''localhost'', gc_flush_interval = 1000, gc_prefix = ''app''\<rparr>, g_socket = [], g_errorCb = DefaultErrorCb\<rparr>
          (\<lambda>_. \<lparr>ce_ts = 5000, ce_now = 5000, ce_fn = 0\<rparr>)
          (call_counter (next_id initial_world) (counter_run [CInc None, CInc (Some 2)])
            (fst (snd (getOrRegisterCounter ''requests'' None initial_world []))))
          (snd (snd (getOrRegisterCounter ''requests'' None initial_world [])))) =
   fst (Graphite_once \<lparr>rep_process = None, rep_flushInterval = 1000,
          g_config = \<lparr>gc_port = 2003, gc_addr = ''localhost'', gc_flush_interval = 1000, gc_prefix = ''app''\<rparr>, g_socket = [], g_errorCb = DefaultErrorCb\<rparr>
          (\<lambda>_. \<lparr>ce_ts = 5000, ce_now = 5000, ce_fn = 0\<rparr>) initial_world []) @
     [(if gc_prefix \<lparr>gc_port = 2003, gc_addr = ''localhost'', gc_flush_interval = 1000, gc_prefix = ''app''\<rparr> \<noteq> []
       then gc_prefix \<lparr>gc_port = 2003, gc_addr = ''localhost'', gc_flush_interval = 1000, gc_prefix = ''app''\<rparr> @ ''.'' @ ''requests''
       else ''requests'',
       Some (JNum (sum_list (map counter_delta (since_clear [CInc None, CInc (Some 2)])))),
       ce_ts \<lparr>ce_ts = 5000, ce_now = 5000, ce_fn = 0\<rparr> div 1000)]"
  using graphite_reports_registered_counter [of initial_world "[]" "''requests''"]
  by (simp add: world_wf_def initial_world_def)

end
